theory Spec2Isabelle
  imports Main "HOL-Library.AList" "HOL-Library.Sublist"
begin

section \<open>Strings of the JavaScript runtime\<close>

text \<open>
  The repository is TypeScript. A JavaScript string is modelled as a HOL \<open>string\<close>; the
  identifiers handled here (tenant ids, resource ids, path patterns, SQL text) are compared
  and concatenated character by character, which is what the source does.

  A value used as a condition is tested for truthiness: \<open>undefined\<close> and the empty string
  are falsy, every other string is truthy. An optional string is a \<open>string option\<close>.
\<close>

definition truthy :: "string option \<Rightarrow> bool" where
  "truthy v = (case v of None \<Rightarrow> False | Some s \<Rightarrow> s \<noteq> [])"

text \<open>\<open>a || b\<close> on optional strings: the left operand when it is truthy, else the right one.\<close>

definition or_else :: "string option \<Rightarrow> string \<Rightarrow> string" where
  "or_else v d = (case v of None \<Rightarrow> d | Some s \<Rightarrow> if s \<noteq> [] then s else d)"

subsection \<open>\<open>String.prototype.replace\<close> with a string pattern\<close>

text \<open>
  \<open>s.replace(pat, repl)\<close> with a string \<open>pat\<close> replaces the first occurrence of \<open>pat\<close> only,
  and it does not insert \<open>repl\<close> literally: the runtime expands the substitution patterns
  of \<open>repl\<close>. With a string pattern there are no capture groups, so the patterns that expand
  are \<open>$$\<close> (a dollar sign), \<open>$&\<close> (the matched text), \<open>$`\<close> (the text before the match)
  and \<open>$'\<close> (the text after the match); every other character, a dollar sign followed by
  anything else included, stands for itself.
\<close>

fun split_at_first :: "string \<Rightarrow> string \<Rightarrow> (string \<times> string) option" where
  "split_at_first pat [] = (if pat = [] then Some ([], []) else None)"
| "split_at_first pat (c # cs) =
     (if take (length pat) (c # cs) = pat then Some ([], drop (length pat) (c # cs))
      else map_option (\<lambda>(b, a). (c # b, a)) (split_at_first pat cs))"

fun GetSubstitution :: "string \<Rightarrow> string \<Rightarrow> string \<Rightarrow> string \<Rightarrow> string" where
  "GetSubstitution matched before after (c # d # rest) =
     (if c = CHR ''$'' then
        (if d = CHR ''$'' then CHR ''$'' # GetSubstitution matched before after rest
         else if d = CHR ''&'' then matched @ GetSubstitution matched before after rest
         else if d = CHR 0x60 then before @ GetSubstitution matched before after rest
         else if d = CHR 0x27 then after @ GetSubstitution matched before after rest
         else c # GetSubstitution matched before after (d # rest))
      else c # GetSubstitution matched before after (d # rest))"
| "GetSubstitution matched before after template = template"

definition js_replace :: "string \<Rightarrow> string \<Rightarrow> string \<Rightarrow> string" where
  "js_replace s pat repl =
     (case split_at_first pat s of
        None \<Rightarrow> s
      | Some (before, after) \<Rightarrow> before @ GetSubstitution pat before after repl @ after)"

text \<open>Inserting the replacement as it is, which is what a reader of the call expects.\<close>

definition replace_literally :: "string \<Rightarrow> string \<Rightarrow> string \<Rightarrow> string" where
  "replace_literally s pat repl =
     (case split_at_first pat s of
        None \<Rightarrow> s
      | Some (before, after) \<Rightarrow> before @ repl @ after)"


section \<open>JSON texts\<close>


subsection \<open>\<open>JSON.stringify\<close>\<close>


text \<open>\<open>QuoteJSONString\<close>: the quote, the backslash and the control characters are escaped,
  the five short escapes where they exist and \<open>\u00XX\<close> in lower-case hexadecimal
  otherwise.\<close>

definition hex_digit :: "nat \<Rightarrow> char" where
  "hex_digit n = (if n < 10 then char_of (48 + n) else char_of (87 + n))"

definition escape_char :: "char \<Rightarrow> string" where
  "escape_char c =
     (if c = CHR 0x22 then [CHR 0x5C, CHR 0x22]
      else if c = CHR 0x5C then [CHR 0x5C, CHR 0x5C]
      else if c = CHR 0x08 then [CHR 0x5C, CHR ''b'']
      else if c = CHR 0x09 then [CHR 0x5C, CHR ''t'']
      else if c = CHR 0x0A then [CHR 0x5C, CHR ''n'']
      else if c = CHR 0x0C then [CHR 0x5C, CHR ''f'']
      else if c = CHR 0x0D then [CHR 0x5C, CHR ''r'']
      else if (of_char c :: nat) < 32 then
        [CHR 0x5C, CHR ''u'', CHR ''0'', CHR ''0'', hex_digit (of_char c div 16), hex_digit (of_char c mod 16)]
      else [c])"

definition QuoteJSONString :: "string \<Rightarrow> string" where
  "QuoteJSONString s = CHR 0x22 # concat (map escape_char s) @ [CHR 0x22]"








subsection \<open>\<open>JSON.parse\<close>\<close>

text \<open>
  The grammar of ECMA-404 as the runtime reads it: white space between tokens, the three
  literal names, strings with their escapes, arrays, objects, integers without a leading
  zero. A number literal with a fraction or an exponent, and an escape \<open>\uXXXX\<close> of a
  code above 255, have no counterpart among the values above: the parser gives no value
  for a text that holds one, so such texts are outside the model. The recursion on nested
  values is bounded by a fuel that \<open>JSON_parse\<close> sets to the length of the text, which no
  nesting can exceed. \<open>None\<close> is the \<open>SyntaxError\<close> of the runtime.
\<close>

definition is_ws :: "char \<Rightarrow> bool" where
  "is_ws c = (c = CHR '' '' \<or> c = CHR 0x09 \<or> c = CHR 0x0A \<or> c = CHR 0x0D)"

definition skip_ws :: "string \<Rightarrow> string" where
  "skip_ws s = dropWhile is_ws s"


definition hex_value :: "char \<Rightarrow> nat option" where
  "hex_value c =
     (let n = (of_char c :: nat) in
      if 48 \<le> n \<and> n \<le> 57 then Some (n - 48)
      else if 97 \<le> n \<and> n \<le> 102 then Some (n - 87)
      else if 65 \<le> n \<and> n \<le> 70 then Some (n - 55)
      else None)"

definition unescape :: "char \<Rightarrow> char option" where
  "unescape e =
     (if e = CHR 0x22 then Some (CHR 0x22)
      else if e = CHR 0x5C then Some (CHR 0x5C)
      else if e = CHR ''/'' then Some (CHR ''/'')
      else if e = CHR ''b'' then Some (CHR 0x08)
      else if e = CHR ''f'' then Some (CHR 0x0C)
      else if e = CHR ''n'' then Some (CHR 0x0A)
      else if e = CHR ''r'' then Some (CHR 0x0D)
      else if e = CHR ''t'' then Some (CHR 0x09)
      else None)"

definition code_unit :: "char \<Rightarrow> char \<Rightarrow> char \<Rightarrow> char \<Rightarrow> char option" where
  "code_unit a b c d =
     (case (hex_value a, hex_value b, hex_value c, hex_value d) of
        (Some h3, Some h2, Some h1, Some h0) \<Rightarrow>
          if h3 = 0 \<and> h2 = 0 then Some (char_of (16 * h1 + h0)) else None
      | _ \<Rightarrow> None)"

fun string_body :: "string \<Rightarrow> (string \<times> string) option" where
  "string_body [] = None"
| "string_body (c # cs) =
     (if c = CHR 0x22 then Some ([], cs)
      else if c = CHR 0x5C then
        (case cs of
           [] \<Rightarrow> None
         | e # r \<Rightarrow>
             if e = CHR ''u'' then
               (case r of
                  a # b # c' # d # r' \<Rightarrow>
                    (case code_unit a b c' d of
                       None \<Rightarrow> None
                     | Some x \<Rightarrow> map_option (\<lambda>(s, t). (x # s, t)) (string_body r'))
                | _ \<Rightarrow> None)
             else
               (case unescape e of
                  None \<Rightarrow> None
                | Some x \<Rightarrow> map_option (\<lambda>(s, t). (x # s, t)) (string_body r)))
      else if (of_char c :: nat) < 32 then None
      else map_option (\<lambda>(s, t). (c # s, t)) (string_body cs))"











section \<open>Core: resources and the tenants' secrets manager\<close>

text \<open>
  \<open>packages/core/src/index.ts\<close>. A \<open>Resource\<close> carries an optional id. The secret provider is
  an external key/value store consumed through \<open>getSecret\<close>, \<open>createSecret\<close>,
  \<open>updateSecret\<close> and \<open>deleteSecret\<close>; it is modelled as a finite map from paths to the
  stored strings, which returns what was stored unchanged.
\<close>

datatype error =
    Error string          \<comment> \<open>\<open>new Error(message)\<close> thrown by the repository's own code\<close>
  | DriverError string    \<comment> \<open>a rejection coming from the database or cache driver\<close>
  | SecretError string    \<comment> \<open>a rejection coming from the secret provider\<close>
  | SyntaxError           \<comment> \<open>what \<open>JSON.parse\<close> throws on malformed text\<close>

type_synonym secret_store = "string \<rightharpoonup> string"


definition updateSecret :: "string \<Rightarrow> string \<Rightarrow> secret_store \<Rightarrow> secret_store" where
  "updateSecret path v st = st(path \<mapsto> v)"

definition deleteSecret :: "string \<Rightarrow> secret_store \<Rightarrow> secret_store" where
  "deleteSecret path st = st(path := None)"


record TenantsSecretsManager =
  pattern :: string
  resourceId :: "string option"

text \<open>The constructor: \<open>this.pattern = options.pattern || defaultPattern\<close>.\<close>

definition new_TenantsSecretsManager ::
  "string option \<Rightarrow> string \<Rightarrow> string option \<Rightarrow> TenantsSecretsManager" where
  "new_TenantsSecretsManager options_pattern defaultPattern rid =
     \<lparr> pattern = or_else options_pattern defaultPattern, resourceId = rid \<rparr>"

definition getPath :: "TenantsSecretsManager \<Rightarrow> string \<Rightarrow> string" where
  "getPath m tenantId =
     (if truthy (resourceId m) then
        js_replace (js_replace (pattern m) ''{tenantId}'' tenantId)
                   ''{resourceId}'' (the (resourceId m))
      else js_replace (pattern m) ''{tenantId}'' tenantId)"



subsection \<open>Default patterns of the Postgres and Redis resources\<close>

definition PG_DEFAULT_SECRETS_PATTERN :: string where
  "PG_DEFAULT_SECRETS_PATTERN = ''/tenants/{tenantId}/postgres/connection''"

definition PG_DEFAULT_SECRETS_WITH_RESOURCE_ID_PATTERN :: string where
  "PG_DEFAULT_SECRETS_WITH_RESOURCE_ID_PATTERN =
     ''/tenants/{tenantId}/postgres/{resourceId}/connection''"

text \<open>\<open>PostgresResource.getPattern\<close> (\<open>packages/postgres/src/strategies/base.ts\<close>).\<close>

definition PostgresResource_getPattern :: "string option \<Rightarrow> string" where
  "PostgresResource_getPattern rid =
     (if truthy rid then PG_DEFAULT_SECRETS_WITH_RESOURCE_ID_PATTERN
      else PG_DEFAULT_SECRETS_PATTERN)"

definition REDIS_DEFAULT_SECRETS_PATTERN :: string where
  "REDIS_DEFAULT_SECRETS_PATTERN = ''/tenants/{tenantId}/redis/connection''"

definition REDIS_DEFAULT_SECRETS_WITH_RESOURCE_ID_PATTERN :: string where
  "REDIS_DEFAULT_SECRETS_WITH_RESOURCE_ID_PATTERN =
     ''/tenants/{tenantId}/redis/{resourceId}/connection''"

text \<open>\<open>RedisResource.getPattern\<close> (\<open>packages/redis/src/strategies/base.ts\<close>) already fills
  the resource id in.\<close>

definition RedisResource_getPattern :: "string option \<Rightarrow> string" where
  "RedisResource_getPattern rid =
     (if truthy rid then
        js_replace REDIS_DEFAULT_SECRETS_WITH_RESOURCE_ID_PATTERN ''{resourceId}'' (the rid)
      else REDIS_DEFAULT_SECRETS_PATTERN)"

text \<open>The secrets manager a Postgres resource with id \<open>rid\<close> builds for itself.\<close>

definition postgres_secrets_manager ::
  "string option \<Rightarrow> string option \<Rightarrow> TenantsSecretsManager" where
  "postgres_secrets_manager options_pattern rid =
     new_TenantsSecretsManager options_pattern (PostgresResource_getPattern rid) rid"



section \<open>The database driver, seen from the repository\<close>

text \<open>
  The \<open>pg\<close> driver and the server behind it are external. Every call the repository makes is
  passed to a function \<open>exec\<close>, which answers with an error or with the rows of the result and
  moves the server's state \<open>'s\<close>; theorems that quantify over \<open>exec\<close> hold whatever the server
  does. The calls made, the lines written to the console and the secret store are recorded
  in the \<open>world\<close>, so that a property of what the code does is a property of that record.
\<close>

type_synonym sql = string

datatype cell = S string | B bool

type_synonym result = "cell list list"

datatype 'q call =
    Connect nat            \<comment> \<open>\<open>pool.connect()\<close> on the pool with this handle\<close>
  | Query 'q               \<comment> \<open>\<open>client.query(text)\<close> or \<open>pool.query(text)\<close>\<close>
  | ClientConnect string   \<comment> \<open>\<open>new Client({..., database}).connect()\<close>\<close>
  | ClientQuery 'q         \<comment> \<open>a query on that separate client\<close>

datatype 'q event =
    Called "'q call"
  | Release                \<comment> \<open>\<open>client.release()\<close>\<close>
  | ClientEnd              \<comment> \<open>\<open>client.end()\<close> of a separate client\<close>
  | PoolEnd nat            \<comment> \<open>\<open>pool.end()\<close>\<close>

type_synonym ('q, 's) exec = "'q call \<Rightarrow> 's \<Rightarrow> (error + result) \<times> 's"

record pool_config =
  cfg_host :: "string option"
  cfg_user :: "string option"
  cfg_password :: "string option"
  cfg_database :: "string option"
  cfg_schema :: "string option"
  cfg_poolMode :: "string option"

record ('q, 's) world =
  db :: 's
  events :: "'q event list"
  console :: "(string \<times> error option) list"
  secrets :: "string \<rightharpoonup> pool_config"

text \<open>One call to the driver: the answer is the server's, the call is recorded.\<close>

definition perform ::
  "('q, 's) exec \<Rightarrow> 'q call \<Rightarrow> ('q, 's, 'z) world_scheme \<Rightarrow> (error + result) \<times> ('q, 's, 'z) world_scheme" where
  "perform exec c w =
     (case exec c (db w) of
        (r, d) \<Rightarrow> (r, w\<lparr>db := d, events := events w @ [Called c]\<rparr>))"

definition release :: "('q, 's, 'z) world_scheme \<Rightarrow> ('q, 's, 'z) world_scheme" where
  "release w = w\<lparr>events := events w @ [Release]\<rparr>"

definition console_error ::
  "string \<Rightarrow> error \<Rightarrow> ('q, 's, 'z) world_scheme \<Rightarrow> ('q, 's, 'z) world_scheme" where
  "console_error msg e w = w\<lparr>console := console w @ [(msg, Some e)]\<rparr>"

definition console_warn :: "string \<Rightarrow> ('q, 's, 'z) world_scheme \<Rightarrow> ('q, 's, 'z) world_scheme" where
  "console_warn msg w = w\<lparr>console := console w @ [(msg, None)]\<rparr>"

text \<open>
  The recurring recovery block of the source,
  \<^verbatim>\<open>try { await client.query("ROLLBACK") } catch (rollbackErr) { console.error("Error during rollback:", rollbackErr) }\<close>:
  the rollback is attempted and its own failure is written to the console, nothing more.
\<close>

definition try_rollback ::
  "('q, 's) exec \<Rightarrow> 'q \<Rightarrow> ('q, 's, 'z) world_scheme \<Rightarrow> ('q, 's, 'z) world_scheme" where
  "try_rollback exec text w =
     (case perform exec (Query text) w of
        (Inl rollbackErr, w1) \<Rightarrow> console_error ''Error during rollback:'' rollbackErr w1
      | (Inr _, w1) \<Rightarrow> w1)"

text \<open>The secrets manager of a resource, reading and writing connection descriptors.\<close>

definition secrets_get ::
  "TenantsSecretsManager \<Rightarrow> string \<Rightarrow> ('q, 's, 'z) world_scheme \<Rightarrow> error + pool_config" where
  "secrets_get m tenantId w =
     (case secrets w (getPath m tenantId) of
        None \<Rightarrow> Inl (SecretError (getPath m tenantId))
      | Some cfg \<Rightarrow> Inr cfg)"

definition secrets_store ::
  "TenantsSecretsManager \<Rightarrow> string \<Rightarrow> pool_config \<Rightarrow> ('q, 's, 'z) world_scheme \<Rightarrow> ('q, 's, 'z) world_scheme" where
  "secrets_store m tenantId cfg w = w\<lparr>secrets := (secrets w)(getPath m tenantId \<mapsto> cfg)\<rparr>"

definition secrets_remove ::
  "TenantsSecretsManager \<Rightarrow> string \<Rightarrow> ('q, 's, 'z) world_scheme \<Rightarrow> ('q, 's, 'z) world_scheme" where
  "secrets_remove m tenantId w = w\<lparr>secrets := (secrets w)(getPath m tenantId := None)\<rparr>"


section \<open>Tenants roles with one pool per tenant (Schema and Database strategies)\<close>

text \<open>
  \<open>strategies/schema.ts\<close>, \<open>strategies/database.ts\<close> and their PgBouncer variants. A
  \<open>Pool\<close> object lives on a heap of pools, in the order of construction; \<open>this.pools\<close> is a
  \<open>Map\<close> from tenant ids to pools, kept as an association list in insertion order (the
  order in which \<open>end()\<close> walks \<open>this.pools.values()\<close>).

  Of the driver's pool (\<open>pg-pool\<close>) this is modelled: \<open>end()\<close> marks the pool as ending at
  once and is rejected on a pool that is ending already; its promise is resolved, and
  \<open>pool.ended\<close> set, when no client of the pool is checked out any more, which is at once when
  none is at the call; \<open>connect()\<close> is rejected on a pool that is ending; a client counts as
  checked out from its \<open>connect()\<close> to its \<open>release()\<close>. A call of \<open>end\<close> of the role whose
  \<open>await pool.end()\<close> is not resolved yet is \<open>Pending\<close>: what it still has to do is kept in
  \<open>awaiting\<close> under the pool and done at the release that resolves the promise. What such a
  call finally resolves or rejects with is not kept.
\<close>

record pg_pool =
  config :: pool_config
  ending :: bool
  ended :: bool
  checked_out :: nat

datatype settlement = Resolved | Rejected error | Pending

datatype end_continuation =
    DeleteEntry string       \<comment> \<open>\<open>this.pools.delete(tenantId)\<close>, after \<open>await pool.end()\<close> in \<open>end(tenantId)\<close>\<close>
  | EndRemaining "nat list"  \<comment> \<open>the rest of the loop of \<open>end()\<close>\<close>

record 's tenants = "(sql, 's) world" +
  pools :: "(string \<times> nat) list"
  heap :: "pg_pool list"
  poolsMode :: "(string \<times> string option) list"
  tenantsSchemas :: "(string \<times> string option) list"
  manager :: TenantsSecretsManager
  awaiting :: "(nat \<times> end_continuation) list"

definition new_Pool :: "pool_config \<Rightarrow> 's tenants \<Rightarrow> nat \<times> 's tenants" where
  "new_Pool cfg w =
     (length (heap w),
      w\<lparr>heap := heap w @ [\<lparr>config = cfg, ending = False, ended = False, checked_out = 0\<rparr>]\<rparr>)"

definition Pool_connect :: "(sql, 's) exec \<Rightarrow> nat \<Rightarrow> 's tenants \<Rightarrow> (error + nat) \<times> 's tenants" where
  "Pool_connect exec h w =
     (if ending (heap w ! h)
      then (Inl (DriverError ''Cannot use a pool after calling end on the pool''), w)
      else case perform exec (Connect h) w of
             (Inl e, w1) \<Rightarrow> (Inl e, w1)
           | (Inr _, w1) \<Rightarrow>
               (Inr h, w1\<lparr>heap := (heap w1)[h := (heap w1 ! h)\<lparr>checked_out := Suc (checked_out (heap w1 ! h))\<rparr>]\<rparr>))"

definition Pool_end :: "nat \<Rightarrow> 's tenants \<Rightarrow> settlement \<times> 's tenants" where
  "Pool_end h w =
     (if ending (heap w ! h)
      then (Rejected (DriverError ''Called end on pool more than once''), w)
      else if checked_out (heap w ! h) = 0
      then (Resolved, w\<lparr>heap := (heap w)[h := (heap w ! h)\<lparr>ending := True, ended := True\<rparr>],
                        events := events w @ [PoolEnd h]\<rparr>)
      else (Pending, w\<lparr>heap := (heap w)[h := (heap w ! h)\<lparr>ending := True\<rparr>],
                       events := events w @ [PoolEnd h]\<rparr>))"

text \<open>The loop of \<open>end()\<close> of the Tenants roles over the pools that were in the map when it
  started: it stops at the first \<open>pool.end()\<close> that is rejected and waits at the first one
  that stays pending.\<close>

fun end_each :: "nat list \<Rightarrow> 's tenants \<Rightarrow> settlement \<times> 's tenants" where
  "end_each [] w = (Resolved, w)"
| "end_each (pool # rest) w =
     (if \<not> ended (heap w ! pool) then
        (case Pool_end pool w of
           (Rejected e, w1) \<Rightarrow> (Rejected e, w1)
         | (Resolved, w1) \<Rightarrow> end_each rest w1
         | (Pending, w1) \<Rightarrow>
             (Pending, w1\<lparr>awaiting := AList.update pool (EndRemaining rest) (awaiting w1)\<rparr>))
      else end_each rest w)"

text \<open>\<open>client.release()\<close> on a client of the pool \<open>h\<close>. The release of the last client that is
  checked out of an ending pool resolves the promise of \<open>pool.end()\<close>, and the call of \<open>end\<close>
  that awaits it goes on.\<close>

definition resume_end :: "nat \<Rightarrow> 's tenants \<Rightarrow> 's tenants" where
  "resume_end h w =
     (case map_of (awaiting w) h of
        None \<Rightarrow> w
      | Some todo \<Rightarrow>
          (let w1 = w\<lparr>awaiting := AList.delete h (awaiting w)\<rparr> in
           case todo of
             DeleteEntry tenantId \<Rightarrow> w1\<lparr>pools := AList.delete tenantId (pools w1)\<rparr>
           | EndRemaining rest \<Rightarrow> snd (end_each rest w1)))"

definition Pool_release :: "nat \<Rightarrow> 's tenants \<Rightarrow> 's tenants" where
  "Pool_release h w =
     (let pool = heap w ! h;
          left = checked_out pool - 1;
          w1 = w\<lparr>heap := (heap w)[h := pool\<lparr>checked_out := left\<rparr>], events := events w @ [Release]\<rparr>
      in if ending pool \<and> \<not> ended pool \<and> left = 0
         then resume_end h (w1\<lparr>heap := (heap w1)[h := (heap w1 ! h)\<lparr>ended := True\<rparr>]\<rparr>)
         else w1)"

text \<open>\<open>PostgresDatabaseTenants.initTenantPool\<close> and \<open>PostgresSchemaTenants.initTenantPool\<close>.\<close>

definition initTenantPool :: "string \<Rightarrow> 's tenants \<Rightarrow> (error + nat) \<times> 's tenants" where
  "initTenantPool tenantId w =
     (case secrets_get (manager w) tenantId w of
        Inl e \<Rightarrow> (Inl e, w)
      | Inr poolConfig \<Rightarrow> (case new_Pool poolConfig w of (h, w1) \<Rightarrow> (Inr h, w1)))"

text \<open>\<open>PostgresDatabaseTenants.getClientFor\<close>. The client returned is identified by the
  handle of the pool it was checked out from.\<close>

definition Database_getClientFor :: "(sql, 's) exec \<Rightarrow> string \<Rightarrow> 's tenants \<Rightarrow> (error + nat) \<times> 's tenants" where
  "Database_getClientFor exec tenantId w =
     (case map_of (pools w) tenantId of
        Some pool \<Rightarrow> Pool_connect exec pool w
      | None \<Rightarrow>
          (case (case map_of (pools w) tenantId of
                   Some pool \<Rightarrow> (Inr pool, w)
                 | None \<Rightarrow> initTenantPool tenantId w) of
             (Inl e, w1) \<Rightarrow> (Inl e, w1)
           | (Inr pool, w1) \<Rightarrow>
               Pool_connect exec pool (w1\<lparr>pools := AList.update tenantId pool (pools w1)\<rparr>)))"

definition DEFAULT_TENANT_ROLE_PREFIX :: string where
  "DEFAULT_TENANT_ROLE_PREFIX = ''tenant_''"

text \<open>\<open>PostgresResource.generateDefaultTenantRoleName\<close>.\<close>

definition generateDefaultTenantRoleName :: "string \<Rightarrow> string option \<Rightarrow> string" where
  "generateDefaultTenantRoleName tenantId pre =
     (if truthy pre then the pre @ tenantId else DEFAULT_TENANT_ROLE_PREFIX @ tenantId)"

definition sq :: char where "sq = CHR 0x27"
definition dq :: char where "dq = CHR 0x22"

text \<open>A further line of a template literal: the line break, the indentation of the source
  line, the text of the line.\<close>

definition ln :: "nat \<Rightarrow> string \<Rightarrow> string" where
  "ln n s = CHR 0x0A # replicate n (CHR '' '') @ s"

text \<open>A template literal renders \<open>undefined\<close> as the text \<open>undefined\<close>.\<close>

definition interpolate :: "string option \<Rightarrow> string" where
  "interpolate v = (case v of None \<Rightarrow> ''undefined'' | Some s \<Rightarrow> s)"

definition schema_session_sql :: "string \<Rightarrow> string option \<Rightarrow> sql" where
  "schema_session_sql tenantId schema =
     ln 8 (''SELECT set_config('role', '' @ [sq] @ generateDefaultTenantRoleName tenantId None @ [sq] @ '', false);'')
     @ ln 8 (''SELECT set_config('search_path', '' @ [sq] @ interpolate schema @ [sq] @ '', false);'')
     @ ln 6 []"

text \<open>\<open>PostgresSchemaTenants.getClientFor\<close>.\<close>

definition Schema_getClientFor :: "(sql, 's) exec \<Rightarrow> string \<Rightarrow> 's tenants \<Rightarrow> (error + nat) \<times> 's tenants" where
  "Schema_getClientFor exec tenantId w =
     (case secrets_get (manager w) tenantId w of
        Inl e \<Rightarrow> (Inl e, w)
      | Inr poolConfig \<Rightarrow>
          (case (case map_of (pools w) tenantId of
                   Some pool \<Rightarrow> (Inr pool, w)
                 | None \<Rightarrow> initTenantPool tenantId w) of
             (Inl e, w1) \<Rightarrow> (Inl e, w1)
           | (Inr pool, w1) \<Rightarrow>
               (case Pool_connect exec pool (w1\<lparr>pools := AList.update tenantId pool (pools w1)\<rparr>) of
                  (Inl e, w2) \<Rightarrow> (Inl e, w2)
                | (Inr client, w2) \<Rightarrow>
                    (case perform exec (Query (schema_session_sql tenantId (cfg_schema poolConfig))) w2 of
                       (Inl err, w3) \<Rightarrow> (Inl err, Pool_release client w3)
                     | (Inr _, w3) \<Rightarrow> (Inr client, w3)))))"

text \<open>\<open>end(tenantId?)\<close>, the same text in \<open>PostgresSchemaTenants\<close> and
  \<open>PostgresDatabaseTenants\<close>.\<close>

definition Tenants_end :: "string option \<Rightarrow> 's tenants \<Rightarrow> settlement \<times> 's tenants" where
  "Tenants_end tenantId w =
     (if truthy tenantId then
        (case map_of (pools w) (the tenantId) of
           Some pool \<Rightarrow>
             (case Pool_end pool w of
                (Rejected e, w1) \<Rightarrow> (Rejected e, w1)
              | (Resolved, w1) \<Rightarrow> (Resolved, w1\<lparr>pools := AList.delete (the tenantId) (pools w1)\<rparr>)
              | (Pending, w1) \<Rightarrow>
                  (Pending, w1\<lparr>awaiting := AList.update pool (DeleteEntry (the tenantId)) (awaiting w1)\<rparr>))
         | None \<Rightarrow> (Resolved, w))
      else end_each (map snd (pools w)) w)"

text \<open>A Tenants role as its constructor leaves it: no pool yet.\<close>

definition new_Tenants :: "TenantsSecretsManager \<Rightarrow> 's \<Rightarrow> (string \<rightharpoonup> pool_config) \<Rightarrow> 's tenants" where
  "new_Tenants m d st =
     \<lparr> db = d, events = [], console = [], secrets = st,
       pools = [], heap = [], poolsMode = [], tenantsSchemas = [], manager = m, awaiting = [] \<rparr>"

subsection \<open>PgBouncer variants\<close>

text \<open>
  \<open>PgBouncerDatabaseTenants\<close> and \<open>PgBouncerSchemaTenants\<close> override \<open>initTenantPool\<close> and
  \<open>getClientFor\<close>. \<open>Map.get\<close> on \<open>poolsMode\<close> gives \<open>undefined\<close> both for a missing key and
  for a key stored with the value \<open>undefined\<close>.
\<close>

definition map_get :: "(string \<times> string option) list \<Rightarrow> string \<Rightarrow> string option" where
  "map_get m k = (case map_of m k of None \<Rightarrow> None | Some v \<Rightarrow> v)"

definition PgBouncerDatabase_initTenantPool :: "string \<Rightarrow> 's tenants \<Rightarrow> (error + nat) \<times> 's tenants" where
  "PgBouncerDatabase_initTenantPool tenantId w =
     (case secrets_get (manager w) tenantId w of
        Inl e \<Rightarrow> (Inl e, w)
      | Inr poolConfig \<Rightarrow>
          (case new_Pool poolConfig
                  (w\<lparr>poolsMode := AList.update tenantId (cfg_poolMode poolConfig) (poolsMode w)\<rparr>) of
             (h, w1) \<Rightarrow> (Inr h, w1)))"

definition PgBouncerDatabase_getClientFor :: "(sql, 's) exec \<Rightarrow> string \<Rightarrow> 's tenants \<Rightarrow> (error + nat) \<times> 's tenants" where
  "PgBouncerDatabase_getClientFor exec tenantId w =
     (case (case map_of (pools w) tenantId of
              Some pool \<Rightarrow> (Inr pool, w)
            | None \<Rightarrow> PgBouncerDatabase_initTenantPool tenantId w) of
        (Inl e, w1) \<Rightarrow> (Inl e, w1)
      | (Inr pool, w1) \<Rightarrow>
          (let poolMode = map_get (poolsMode w1) tenantId in
           case Pool_connect exec pool w1 of
             (Inl e, w2) \<Rightarrow> (Inl e, w2)
           | (Inr client, w2) \<Rightarrow>
               if poolMode = Some ''session_mode'' then (Inr client, w2)
               else if poolMode = Some ''transaction_mode'' then
                 (case perform exec (Query ''BEGIN;'') w2 of
                    (Inl err, w3) \<Rightarrow> (Inl err, Pool_release client (try_rollback exec ''ROLLBACK'' w3))
                  | (Inr _, w3) \<Rightarrow> (Inr client, w3))
               else (Inl (Error ''Invalid mode''), w2)))"

definition PgBouncerSchema_initTenantPool :: "string \<Rightarrow> 's tenants \<Rightarrow> (error + nat) \<times> 's tenants" where
  "PgBouncerSchema_initTenantPool tenantId w =
     (case secrets_get (manager w) tenantId w of
        Inl e \<Rightarrow> (Inl e, w)
      | Inr poolConfig \<Rightarrow>
          (case new_Pool poolConfig
                  (w\<lparr>poolsMode := AList.update tenantId (cfg_poolMode poolConfig) (poolsMode w),
                     tenantsSchemas := AList.update tenantId (cfg_schema poolConfig) (tenantsSchemas w)\<rparr>) of
             (h, w1) \<Rightarrow> (Inr h, w1)))"

definition pgbouncer_schema_sql :: "bool \<Rightarrow> string \<Rightarrow> sql" where
  "pgbouncer_schema_sql in_transaction schema =
     (if in_transaction
      then ln 12 ''BEGIN;''
           @ ln 12 (''SELECT set_config('search_path', '' @ [sq] @ schema @ [sq] @ '', true);'')
           @ ln 10 []
      else ln 10 (''SELECT set_config('search_path', '' @ [sq] @ schema @ [sq] @ '', false);'')
           @ ln 8 [])"

definition missing_mode :: error where
  "missing_mode = Error ''PG Bouncer mode is not present in the client configuration. This could be due to a corrupt configuration in the secrets provider.''"

definition incorrect_mode :: error where
  "incorrect_mode = Error ''PG Bouncer mode has an incorrect value in the client configuration. This could be due to a corrupt configuration in the secrets provider.''"

definition missing_schema :: error where
  "missing_schema = Error ''Schema is not present in the client configuration. This could be due to a corrupt configuration in the secrets provider.''"

definition PgBouncerSchema_getClientFor :: "(sql, 's) exec \<Rightarrow> string \<Rightarrow> 's tenants \<Rightarrow> (error + nat) \<times> 's tenants" where
  "PgBouncerSchema_getClientFor exec tenantId w =
     (case (case map_of (pools w) tenantId of
              Some pool \<Rightarrow> (Inr pool, w)
            | None \<Rightarrow> PgBouncerSchema_initTenantPool tenantId w) of
        (Inl e, w1) \<Rightarrow> (Inl e, w1)
      | (Inr pool, w1) \<Rightarrow>
          (let poolMode = map_get (poolsMode w1) tenantId;
               schema = map_get (tenantsSchemas w1) tenantId in
           if \<not> truthy poolMode then (Inl missing_mode, w1)
           else if poolMode \<noteq> Some ''session_mode'' \<and> poolMode \<noteq> Some ''transaction_mode''
             then (Inl incorrect_mode, w1)
           else if \<not> truthy schema then (Inl missing_schema, w1)
           else
             case Pool_connect exec pool w1 of
               (Inl e, w2) \<Rightarrow> (Inl e, w2)
             | (Inr client, w2) \<Rightarrow>
                 if poolMode = Some ''session_mode'' then
                   (case perform exec (Query (pgbouncer_schema_sql False (the schema))) w2 of
                      (Inl err, w3) \<Rightarrow> (Inl err, w3)
                    | (Inr _, w3) \<Rightarrow> (Inr client, w3))
                 else if poolMode = Some ''transaction_mode'' then
                   (case perform exec (Query (pgbouncer_schema_sql True (the schema))) w2 of
                      (Inl err, w3) \<Rightarrow> (Inl err, Pool_release client (try_rollback exec ''ROLLBACK'' w3))
                    | (Inr _, w3) \<Rightarrow> (Inr client, w3))
                 else (Inl (Error ''Invalid mode''), w2)))"

text \<open>
  \<open>queryAs\<close> of the PgBouncer variants, the same text in the three classes but for where
  the pooling mode is read: \<open>getClientFor\<close> first, then, in transaction mode, the query and
  \<open>COMMIT;\<close> with the recovery block around them, and \<open>client.release()\<close> in \<open>finally\<close>
  (\<open>release_client\<close>, which depends on the pool the client is of).
\<close>

definition run_as ::
  "(sql, 's) exec \<Rightarrow> ((sql, 's, 'z) world_scheme \<Rightarrow> (sql, 's, 'z) world_scheme) \<Rightarrow> string option \<Rightarrow> sql \<Rightarrow>
     (sql, 's, 'z) world_scheme \<Rightarrow> (error + result) \<times> (sql, 's, 'z) world_scheme" where
  "run_as exec release_client poolMode text w =
     (case
        (if poolMode = Some ''transaction_mode'' then
           (case perform exec (Query text) w of
              (Inl err, w1) \<Rightarrow> (Inl err, try_rollback exec ''ROLLBACK;'' w1)
            | (Inr res, w1) \<Rightarrow>
                (case perform exec (Query ''COMMIT;'') w1 of
                   (Inl err, w2) \<Rightarrow> (Inl err, try_rollback exec ''ROLLBACK;'' w2)
                 | (Inr _, w2) \<Rightarrow> (Inr res, w2)))
         else perform exec (Query text) w) of
        (r, w3) \<Rightarrow> (r, release_client w3))"

definition PgBouncerSchema_queryAs :: "(sql, 's) exec \<Rightarrow> string \<Rightarrow> sql \<Rightarrow> 's tenants \<Rightarrow> (error + result) \<times> 's tenants" where
  "PgBouncerSchema_queryAs exec tenantId text w =
     (case PgBouncerSchema_getClientFor exec tenantId w of
        (Inl e, w1) \<Rightarrow> (Inl e, w1)
      | (Inr client, w1) \<Rightarrow> run_as exec (Pool_release client) (map_get (poolsMode w1) tenantId) text w1)"

definition PgBouncerDatabase_queryAs :: "(sql, 's) exec \<Rightarrow> string \<Rightarrow> sql \<Rightarrow> 's tenants \<Rightarrow> (error + result) \<times> 's tenants" where
  "PgBouncerDatabase_queryAs exec tenantId text w =
     (case PgBouncerDatabase_getClientFor exec tenantId w of
        (Inl e, w1) \<Rightarrow> (Inl e, w1)
      | (Inr client, w1) \<Rightarrow> run_as exec (Pool_release client) (map_get (poolsMode w1) tenantId) text w1)"



section \<open>Row-level security: the Tenants role\<close>

text \<open>
  \<open>PostgresRlsTenants\<close> (\<open>strategies/rls.ts\<close>) and \<open>PgBouncerRlsTenants\<close>
  (\<open>pgbouncer/strategies/rls.ts\<close>) own a single pool, made by the constructor (handle 0).
\<close>

definition DEFAULT_SETTINGS_TENANT_FIELD :: string where
  "DEFAULT_SETTINGS_TENANT_FIELD = ''app.current_tenant''"

definition DEFAULT_ROLE :: string where
  "DEFAULT_ROLE = ''tenant_role''"

definition js_bool :: "bool \<Rightarrow> string" where
  "js_bool b = (if b then ''true'' else ''false'')"

text \<open>The statement of \<open>PostgresRlsTenants.getClientFor\<close>, and the two of
  \<open>PgBouncerRlsTenants.getClientFor\<close>.\<close>

definition rls_settings_sql :: "string \<Rightarrow> sql" where
  "rls_settings_sql tenantId =
     '' SELECT set_config('' @ [sq] @ DEFAULT_SETTINGS_TENANT_FIELD @ [sq] @ '', '' @ [sq] @ tenantId @ [sq] @ '', false);''
     @ ln 10 (''SELECT set_config('role', '' @ [sq] @ DEFAULT_ROLE @ [sq] @ '', false);'')"

definition pgbouncer_rls_sql :: "bool \<Rightarrow> string \<Rightarrow> sql" where
  "pgbouncer_rls_sql in_transaction tenantId =
     (if in_transaction
      then ln 10 ''BEGIN;''
           @ ln 10 (''SELECT set_config('' @ [sq] @ DEFAULT_SETTINGS_TENANT_FIELD @ [sq] @ '', '' @ [sq] @ tenantId @ [sq] @ '', true);'')
           @ ln 10 (''SELECT set_config('role', '' @ [sq] @ DEFAULT_ROLE @ [sq] @ '', true);'')
           @ ln 8 []
      else ln 8 (''SELECT set_config('' @ [sq] @ DEFAULT_SETTINGS_TENANT_FIELD @ [sq] @ '', '' @ [sq] @ tenantId @ [sq] @ '', false);'')
           @ ln 8 (''SELECT set_config('role', '' @ [sq] @ DEFAULT_ROLE @ [sq] @ '', false);'')
           @ ln 6 [])"

text \<open>\<open>PostgresRlsTenants.getClientFor\<close>.\<close>

definition Rls_getClientFor ::
  "(sql, 's) exec \<Rightarrow> string \<Rightarrow> (sql, 's, 'z) world_scheme \<Rightarrow> (error + nat) \<times> (sql, 's, 'z) world_scheme" where
  "Rls_getClientFor exec tenantId w =
     (case perform exec (Connect 0) w of
        (Inl e, w1) \<Rightarrow> (Inl e, w1)
      | (Inr _, w1) \<Rightarrow>
          (case perform exec (Query (rls_settings_sql tenantId)) w1 of
             (Inl err, w2) \<Rightarrow> (Inl err, release w2)
           | (Inr _, w2) \<Rightarrow> (Inr 0, w2)))"

text \<open>The block that follows a failed \<open>BEGIN\<close> of \<open>PgBouncerRlsTenants.getClientFor\<close>: rollback
  attempted, its failure logged, the client released.\<close>

definition rollback_and_release ::
  "(sql, 's) exec \<Rightarrow> (sql, 's, 'z) world_scheme \<Rightarrow> (sql, 's, 'z) world_scheme" where
  "rollback_and_release exec w = release (try_rollback exec ''ROLLBACK'' w)"

text \<open>\<open>PgBouncerRlsTenants.getClientFor\<close>; \<open>poolMode\<close> is the field the constructor copied
  from the pool configuration.\<close>

definition PgBouncerRls_getClientFor ::
  "(sql, 's) exec \<Rightarrow> string option \<Rightarrow> string \<Rightarrow> (sql, 's, 'z) world_scheme \<Rightarrow> (error + nat) \<times> (sql, 's, 'z) world_scheme" where
  "PgBouncerRls_getClientFor exec poolMode tenantId w =
     (case perform exec (Connect 0) w of
        (Inl e, w1) \<Rightarrow> (Inl e, w1)
      | (Inr _, w1) \<Rightarrow>
          if poolMode = Some ''session_mode'' then
            (case perform exec (Query (pgbouncer_rls_sql False tenantId)) w1 of
               (Inl err, w2) \<Rightarrow> (Inl err, w2)
             | (Inr _, w2) \<Rightarrow> (Inr 0, w2))
          else if poolMode = Some ''transaction_mode'' then
            (case perform exec (Query (pgbouncer_rls_sql True tenantId)) w1 of
               (Inl err, w2) \<Rightarrow> (Inl err, rollback_and_release exec w2)
             | (Inr _, w2) \<Rightarrow> (Inr 0, w2))
          else (Inl (Error ''Invalid mode''), w1))"

definition PgBouncerRls_queryAs ::
  "(sql, 's) exec \<Rightarrow> string option \<Rightarrow> string \<Rightarrow> sql \<Rightarrow> (sql, 's, 'z) world_scheme \<Rightarrow> (error + result) \<times> (sql, 's, 'z) world_scheme" where
  "PgBouncerRls_queryAs exec poolMode tenantId text w =
     (case PgBouncerRls_getClientFor exec poolMode tenantId w of
        (Inl e, w1) \<Rightarrow> (Inl e, w1)
      | (Inr client, w1) \<Rightarrow> run_as exec release poolMode text w1)"


section \<open>Database isolation: the Management role\<close>

text \<open>
  \<open>PostgresDatabaseManagement\<close> (\<open>strategies/database.ts\<close>) and its PgBouncer variant
  (\<open>pgbouncer/strategies/database.ts\<close>). The options are as the constructor leaves them,
  with the defaults filled in. \<open>generated\<close> is the password that
  \<open>secretsManager.generatePassword()\<close> draws in this call.
\<close>

record database_management =
  poolConfig :: pool_config
  database_prefix :: string
  database_template :: "string option"
  role_prefix :: "string option"
  generatePassword :: "(string \<Rightarrow> string) option"
  schemas_names :: "string list"
  createIfNotExists :: bool
  useForceOnDelete :: bool
  secretsManager :: TenantsSecretsManager

definition create_database_sql :: "string \<Rightarrow> string option \<Rightarrow> sql" where
  "create_database_sql databaseName template =
     (if truthy template
      then ''CREATE DATABASE '' @ [dq] @ databaseName @ [dq] @ '' WITH TEMPLATE '' @ [dq] @ the template @ [dq] @ '';''
      else ''CREATE DATABASE '' @ [dq] @ databaseName @ [dq] @ '';'')"

definition create_login_role_sql :: "string \<Rightarrow> string \<Rightarrow> string \<Rightarrow> sql" where
  "create_login_role_sql roleName password databaseName =
     ''CREATE ROLE '' @ [dq] @ roleName @ [dq] @ '' WITH LOGIN PASSWORD '' @ [sq] @ password @ [sq] @ '';''
     @ ''GRANT ALL PRIVILEGES ON DATABASE '' @ [dq] @ databaseName @ [dq] @ '' TO '' @ [dq] @ roleName @ [dq] @ '';''"

definition create_schema_if_not_exists_sql :: "string \<Rightarrow> sql" where
  "create_schema_if_not_exists_sql schema = ''CREATE SCHEMA IF NOT EXISTS '' @ [dq] @ schema @ [dq] @ '';''"

definition grant_on_schema_sql :: "string \<Rightarrow> string \<Rightarrow> sql" where
  "grant_on_schema_sql schema roleName =
     concat (map (\<lambda>(before, middle). ln 12 (before @ [dq] @ schema @ [dq] @ middle @ [dq] @ roleName @ [dq] @ '';''))
       [(''GRANT ALL ON SCHEMA '', '' TO ''),
        (''GRANT ALL PRIVILEGES ON ALL TABLES IN SCHEMA '', '' TO ''),
        (''GRANT ALL PRIVILEGES ON ALL SEQUENCES IN SCHEMA '', '' TO ''),
        (''GRANT ALL PRIVILEGES ON ALL FUNCTIONS IN SCHEMA '', '' TO ''),
        (''GRANT ALL PRIVILEGES ON ALL PROCEDURES IN SCHEMA '', '' TO ''),
        (''GRANT ALL PRIVILEGES ON ALL ROUTINES IN SCHEMA '', '' TO '')])
     @ ln 12 []
     @ ln 12 ''-- For future objects''
     @ concat (map (\<lambda>(before, middle). ln 12 (before @ [dq] @ schema @ [dq] @ middle @ [dq] @ roleName @ [dq] @ '';''))
       [(''ALTER DEFAULT PRIVILEGES IN SCHEMA '', '' GRANT ALL PRIVILEGES ON TABLES TO ''),
        (''ALTER DEFAULT PRIVILEGES IN SCHEMA '', '' GRANT ALL PRIVILEGES ON SEQUENCES TO ''),
        (''ALTER DEFAULT PRIVILEGES IN SCHEMA '', '' GRANT ALL PRIVILEGES ON FUNCTIONS TO ''),
        (''ALTER DEFAULT PRIVILEGES IN SCHEMA '', '' GRANT ALL PRIVILEGES ON ROUTINES TO '')])
     @ ln 10 []"

definition drop_database_sql :: "bool \<Rightarrow> string option \<Rightarrow> sql" where
  "drop_database_sql force database =
     (if force then ''DROP DATABASE '' @ [dq] @ interpolate database @ [dq] @ '' WITH (FORCE);''
      else ''DROP DATABASE '' @ [dq] @ interpolate database @ [dq] @ '';'')"

definition drop_role_sql :: "string option \<Rightarrow> sql" where
  "drop_role_sql role = ''DROP ROLE '' @ [dq] @ interpolate role @ [dq] @ '';''"

text \<open>A \<open>for\<close> loop of awaited calls: the first rejection ends it.\<close>

fun perform_each ::
  "('q, 's) exec \<Rightarrow> 'q call list \<Rightarrow> ('q, 's, 'z) world_scheme \<Rightarrow> (error + unit) \<times> ('q, 's, 'z) world_scheme" where
  "perform_each exec [] w = (Inr (), w)"
| "perform_each exec (c # cs) w =
     (case perform exec c w of
        (Inl e, w1) \<Rightarrow> (Inl e, w1)
      | (Inr _, w1) \<Rightarrow> perform_each exec cs w1)"

text \<open>The part of \<open>createTenant\<close> that runs on the separate admin client, inside its
  \<open>try\<close>; the \<open>finally\<close> that ends the client is in \<open>PostgresDatabaseManagement_createTenant\<close>.\<close>

definition grant_in_new_database ::
  "(sql, 's) exec \<Rightarrow> database_management \<Rightarrow> string \<Rightarrow> string \<Rightarrow> (sql, 's, 'z) world_scheme \<Rightarrow> (error + unit) \<times> (sql, 's, 'z) world_scheme" where
  "grant_in_new_database exec M databaseName roleName w =
     (case perform exec (ClientConnect databaseName) w of
        (Inl e, w1) \<Rightarrow> (Inl e, w1)
      | (Inr _, w1) \<Rightarrow>
          (case (if createIfNotExists M
                 then perform_each exec (map (\<lambda>schema. ClientQuery (create_schema_if_not_exists_sql schema)) (schemas_names M)) w1
                 else (Inr (), w1)) of
             (Inl e, w2) \<Rightarrow> (Inl e, w2)
           | (Inr _, w2) \<Rightarrow>
               perform_each exec (map (\<lambda>schema. ClientQuery (grant_on_schema_sql schema roleName)) (schemas_names M)) w2))"

definition provision_database ::
  "(sql, 's) exec \<Rightarrow> database_management \<Rightarrow> string \<Rightarrow> string \<Rightarrow> (sql, 's, 'z) world_scheme \<Rightarrow> (error + unit) \<times> (sql, 's, 'z) world_scheme" where
  "provision_database exec M generated tenantId w =
     (let databaseName = database_prefix M @ tenantId in
      case perform exec (Query (create_database_sql databaseName (database_template M))) w of
        (Inl e, w1) \<Rightarrow> (Inl e, w1)
      | (Inr _, w1) \<Rightarrow>
          (let roleName = generateDefaultTenantRoleName tenantId (role_prefix M);
               password = (case generatePassword M of Some f \<Rightarrow> f tenantId | None \<Rightarrow> generated)
           in case perform exec (Query (create_login_role_sql roleName password databaseName)) w1 of
                (Inl e, w2) \<Rightarrow> (Inl e, w2)
              | (Inr _, w2) \<Rightarrow>
                  (let clientConfig = (poolConfig M)\<lparr>cfg_user := Some roleName,
                                                    cfg_password := Some password,
                                                    cfg_database := Some databaseName\<rparr>;
                       w3 = secrets_store (secretsManager M) tenantId clientConfig w2
                   in case grant_in_new_database exec M databaseName roleName w3 of
                        (r, w4) \<Rightarrow> (r, w4\<lparr>events := events w4 @ [ClientEnd]\<rparr>))))"

definition PostgresDatabaseManagement_createTenant ::
  "(sql, 's) exec \<Rightarrow> database_management \<Rightarrow> string \<Rightarrow> string \<Rightarrow> (sql, 's, 'z) world_scheme \<Rightarrow> (error + unit) \<times> (sql, 's, 'z) world_scheme" where
  "PostgresDatabaseManagement_createTenant exec M generated tenantId w =
     (case perform exec (Connect 0) w of
        (Inl e, w1) \<Rightarrow> (Inl e, w1)
      | (Inr _, w1) \<Rightarrow>
          (case provision_database exec M generated tenantId w1 of
             (r, w2) \<Rightarrow> (r, release w2)))"

definition PostgresDatabaseManagement_deleteTenant ::
  "(sql, 's) exec \<Rightarrow> database_management \<Rightarrow> string \<Rightarrow> (sql, 's, 'z) world_scheme \<Rightarrow> (error + unit) \<times> (sql, 's, 'z) world_scheme" where
  "PostgresDatabaseManagement_deleteTenant exec M tenantId w =
     (case secrets_get (secretsManager M) tenantId w of
        Inl e \<Rightarrow> (Inl e, w)
      | Inr cfg \<Rightarrow>
          (case perform exec (Query (drop_database_sql (useForceOnDelete M) (cfg_database cfg))) w of
             (Inl e, w1) \<Rightarrow> (Inl e, w1)
           | (Inr _, w1) \<Rightarrow>
               (let w2 = secrets_remove (secretsManager M) tenantId w1 in
                if cfg_user (poolConfig M) \<noteq> cfg_user cfg then
                  (case perform exec (Query (drop_role_sql (cfg_user cfg))) w2 of
                     (Inl e, w3) \<Rightarrow> (Inl e, w3)
                   | (Inr _, w3) \<Rightarrow> (Inr (), w3))
                else (Inr (), w2))))"

definition creation_not_supported :: error where
  "creation_not_supported = Error ''Tenant creation is not supported when pgBouncer is configured in transaction mode. Database creations are not possible inside transaction. Please use a different configuration and/or multi-tenant strategy.''"

definition deletion_not_supported :: error where
  "deletion_not_supported = Error ''Tenant deletion is not supported when pgBouncer is configured in transaction mode. Database deletions are not possible inside transaction. Please use a different configuration and/or multi-tenant strategy.''"

definition PgBouncerDatabaseManagement_createTenant ::
  "(sql, 's) exec \<Rightarrow> database_management \<Rightarrow> string \<Rightarrow> string \<Rightarrow> (sql, 's, 'z) world_scheme \<Rightarrow> (error + unit) \<times> (sql, 's, 'z) world_scheme" where
  "PgBouncerDatabaseManagement_createTenant exec M generated tenantId w =
     (if cfg_poolMode (poolConfig M) = Some ''transaction_mode'' then (Inl creation_not_supported, w)
      else case PostgresDatabaseManagement_createTenant exec M generated tenantId w of
             (Inl e, w1) \<Rightarrow> (Inl e, w1)
           | (Inr u, w1) \<Rightarrow>
               (Inr u, console_warn ''Tenant database and role created, but PgBouncer was not updated. You must manually update PgBouncer to grant access to the new database.'' w1))"

definition PgBouncerDatabaseManagement_deleteTenant ::
  "(sql, 's) exec \<Rightarrow> database_management \<Rightarrow> string \<Rightarrow> (sql, 's, 'z) world_scheme \<Rightarrow> (error + unit) \<times> (sql, 's, 'z) world_scheme" where
  "PgBouncerDatabaseManagement_deleteTenant exec M tenantId w =
     (if cfg_poolMode (poolConfig M) = Some ''transaction_mode'' then (Inl deletion_not_supported, w)
      else PostgresDatabaseManagement_deleteTenant exec M tenantId w)"


section \<open>Redis with one ACL user per tenant: the Management role\<close>

text \<open>
  \<open>packages/redis/src/strategies/base.ts\<close> and \<open>acl.ts\<close>. The commands sent through the
  admin connection and the calls to the secret provider are recorded in one sequence, in
  the order in which the code awaits them. \<open>rexec\<close> answers a command with an error or
  with the list of strings of the reply.
\<close>

datatype redis_command =
    KEYS string                  \<comment> \<open>\<open>adminRedis.keys(pattern)\<close>\<close>
  | PIPELINE_DEL "string list"   \<comment> \<open>the pipeline of one \<open>del\<close> per key, at \<open>exec()\<close>\<close>
  | ACL_SETUSER "string list"    \<comment> \<open>\<open>adminRedis.call("ACL", "SETUSER", ...)\<close>\<close>
  | ACL_DELUSER string           \<comment> \<open>\<open>adminRedis.call("ACL", "DELUSER", tenantId)\<close>\<close>

datatype redis_step =
    Sent redis_command
  | SecretCreated string
  | SecretDeleted string

record redis_config =
  rc_host :: "string option"
  rc_username :: "string option"
  rc_password :: "string option"
  rc_keyPrefix :: "string option"

record 's redis_world =
  redis :: 's
  steps :: "redis_step list"
  redis_secrets :: "string \<rightharpoonup> redis_config"

type_synonym 's rexec = "redis_command \<Rightarrow> 's \<Rightarrow> (error + string list) \<times> 's"

definition send :: "'s rexec \<Rightarrow> redis_command \<Rightarrow> 's redis_world \<Rightarrow> (error + string list) \<times> 's redis_world" where
  "send rexec c w =
     (case rexec c (redis w) of
        (r, d) \<Rightarrow> (r, w\<lparr>redis := d, steps := steps w @ [Sent c]\<rparr>))"

record acl_management =
  acl_config :: "redis_config option"
  enableDangerousCommands :: bool
  acl_generatePassword :: "(string \<Rightarrow> string) option"
  tenantsSecretsManager :: TenantsSecretsManager

text \<open>The constructors: \<open>RedisResource\<close> clears \<open>keyPrefix\<close> in the configuration it is given,
  and \<open>RedisAclManagement\<close> builds its secrets manager from \<open>getPattern()\<close>.\<close>

definition new_RedisAclManagement ::
  "redis_config option \<Rightarrow> bool \<Rightarrow> (string \<Rightarrow> string) option \<Rightarrow> string option \<Rightarrow> string option \<Rightarrow> acl_management" where
  "new_RedisAclManagement clientConfig dangerous gen options_pattern rid =
     \<lparr> acl_config = map_option (\<lambda>c. c\<lparr>rc_keyPrefix := None\<rparr>) clientConfig,
       enableDangerousCommands = dangerous,
       acl_generatePassword = gen,
       tenantsSecretsManager =
         new_TenantsSecretsManager options_pattern (RedisResource_getPattern rid) rid \<rparr>"

definition buildKeyspacePrefix :: "redis_config option \<Rightarrow> string \<Rightarrow> string" where
  "buildKeyspacePrefix cfg tenantId =
     (case cfg of
        None \<Rightarrow> ''tenant:'' @ tenantId @ '':''
      | Some c \<Rightarrow>
          if truthy (rc_keyPrefix c)
          then ''tenant:'' @ tenantId @ '':'' @ the (rc_keyPrefix c) @ '':''
          else ''tenant:'' @ tenantId @ '':'')"

text \<open>\<open>RedisManagementBase.deleteTenant\<close>.\<close>

definition RedisManagementBase_deleteTenant ::
  "'s rexec \<Rightarrow> acl_management \<Rightarrow> string \<Rightarrow> 's redis_world \<Rightarrow> (error + unit) \<times> 's redis_world" where
  "RedisManagementBase_deleteTenant rexec M tenantId w =
     (let pre = buildKeyspacePrefix (acl_config M) tenantId in
      case send rexec (KEYS (pre @ ''*'')) w of
        (Inl e, w1) \<Rightarrow> (Inl e, w1)
      | (Inr keys, w1) \<Rightarrow>
          if length keys > 0 then
            (case send rexec (PIPELINE_DEL keys) w1 of
               (Inl e, w2) \<Rightarrow> (Inl e, w2)
             | (Inr _, w2) \<Rightarrow> (Inr (), w2))
          else (Inr (), w1))"

text \<open>\<open>RedisAclManagement.deleteTenant\<close>.\<close>

definition RedisAclManagement_deleteTenant ::
  "'s rexec \<Rightarrow> acl_management \<Rightarrow> string \<Rightarrow> 's redis_world \<Rightarrow> (error + unit) \<times> 's redis_world" where
  "RedisAclManagement_deleteTenant rexec M tenantId w =
     (case RedisManagementBase_deleteTenant rexec M tenantId w of
        (Inl e, w1) \<Rightarrow> (Inl e, w1)
      | (Inr _, w1) \<Rightarrow>
          (case send rexec (ACL_DELUSER tenantId) w1 of
             (Inl e, w2) \<Rightarrow> (Inl e, w2)
           | (Inr _, w2) \<Rightarrow>
               (let path = getPath (tenantsSecretsManager M) tenantId in
                (Inr (), w2\<lparr>steps := steps w2 @ [SecretDeleted path],
                            redis_secrets := (redis_secrets w2)(path := None)\<rparr>))))"

text \<open>\<open>RedisAclManagement.createTenant\<close>; \<open>generated\<close> is what
  \<open>tenantsSecretsManager.generatePassword()\<close> draws.\<close>

definition RedisAclManagement_createTenant ::
  "'s rexec \<Rightarrow> acl_management \<Rightarrow> string \<Rightarrow> string \<Rightarrow> 's redis_world \<Rightarrow> (error + unit) \<times> 's redis_world" where
  "RedisAclManagement_createTenant rexec M generated tenantId w =
     (let generatedTenantPassword =
            (case acl_generatePassword M of Some f \<Rightarrow> f tenantId | None \<Rightarrow> generated);
          password = (if generatedTenantPassword \<noteq> [] then CHR ''>'' # generatedTenantPassword else ''nopass'');
          keyspacePrefix = buildKeyspacePrefix (acl_config M) tenantId;
          rules = [tenantId, ''on'', password, CHR ''~'' # keyspacePrefix @ ''*'', ''+@all'']
                  @ (if enableDangerousCommands M then [] else [''-@dangerous''])
      in case send rexec (ACL_SETUSER rules) w of
           (Inl e, w1) \<Rightarrow> (Inl e, w1)
         | (Inr _, w1) \<Rightarrow>
             (let path = getPath (tenantsSecretsManager M) tenantId;
                  base = (case acl_config M of
                            None \<Rightarrow> \<lparr>rc_host = None, rc_username = None, rc_password = None, rc_keyPrefix = None\<rparr>
                          | Some c \<Rightarrow> c);
                  secret = base\<lparr>rc_username := Some tenantId,
                               rc_password := Some generatedTenantPassword,
                               rc_keyPrefix := Some keyspacePrefix\<rparr>
              in (Inr (), w1\<lparr>steps := steps w1 @ [SecretCreated path],
                             redis_secrets := (redis_secrets w1)(path \<mapsto> secret)\<rparr>)))"




section \<open>Row-level security: the Management role\<close>

text \<open>
  \<open>PostgresRlsManagement\<close> (\<open>strategies/rls.ts\<close>). Each statement the class sends is a value
  of \<open>rls_stmt\<close>, one constructor per query text of the source with the interpolated names as
  arguments; \<open>render\<close> gives the text that goes to \<open>client.query\<close>. The statements are kept
  structured so that a catalog can answer them (section "A catalog" below); the theorems
  that quantify over \<open>exec\<close> do not depend on that catalog.
\<close>

record rls_table =
  t_name :: string
  t_schema :: "string option"
  t_tenantIdColumn :: "string option"

datatype rls_stmt =
    ResetAll
  | SelectCurrentSchema
  | Begin                                   \<comment> \<open>\<open>BEGIN\<close>, in \<open>setup\<close>\<close>
  | BeginSemi                               \<comment> \<open>\<open>BEGIN;\<close>, in \<open>deleteTenant\<close>\<close>
  | Commit
  | Rollback
  | SelectRole
  | CreateRole
  | GrantOnTable string string              \<comment> \<open>schema, table\<close>
  | SelectSequences string string           \<comment> \<open>schema, table\<close>
  | GrantOnSequence string
  | EnableRls string string bool            \<comment> \<open>schema, table, with \<open>FORCE\<close>\<close>
  | SelectPolicy string string string       \<comment> \<open>schema, table, policy name\<close>
  | CreateUsingPolicy string string string  \<comment> \<open>schema, table, tenant column\<close>
  | CreateInsertPolicy string string string \<comment> \<open>schema, table, tenant column\<close>
  | SelectTenantTables string               \<comment> \<open>tenant column\<close>
  | SetTenantLocal string                   \<comment> \<open>tenant id\<close>
  | DeleteRows "string option" string string string  \<comment> \<open>schema, table, tenant column, tenant id\<close>

definition qualified_name :: "string \<Rightarrow> string \<Rightarrow> string" where
  "qualified_name schema tableName = schema @ ''.'' @ tableName"

fun render :: "rls_stmt \<Rightarrow> sql" where
  "render ResetAll = ''RESET ALL''"
| "render SelectCurrentSchema = ''SELECT current_schema();''"
| "render Begin = ''BEGIN''"
| "render BeginSemi = ''BEGIN;''"
| "render Commit = ''COMMIT;''"
| "render Rollback = ''ROLLBACK;''"
| "render SelectRole =
     ''SELECT 1 FROM pg_catalog.pg_roles WHERE rolname = '' @ [sq] @ DEFAULT_ROLE @ [sq] @ '';''"
| "render CreateRole = ''CREATE ROLE '' @ DEFAULT_ROLE @ '' WITH NOLOGIN;''"
| "render (GrantOnTable schema tableName) =
     '' GRANT SELECT, INSERT, UPDATE, DELETE ON '' @ qualified_name schema tableName @ '' TO '' @ DEFAULT_ROLE @ '';''
     @ ln 8 (''GRANT USAGE ON SCHEMA '' @ schema @ '' TO '' @ DEFAULT_ROLE @ '';'')"
| "render (SelectSequences schema tableName) =
     ln 4 (''SELECT pg_get_serial_sequence('' @ [sq] @ qualified_name schema tableName @ [sq]
           @ '', column_name) AS sequence_name'')
     @ ln 10 ''FROM information_schema.columns''
     @ ln 10 (''WHERE table_schema = '' @ [sq] @ schema @ [sq])
     @ ln 10 (''AND table_name = '' @ [sq] @ tableName @ [sq])
     @ ln 10 (''AND column_default LIKE 'nextval%'' @ [sq])
     @ ln 10 (''AND pg_get_serial_sequence('' @ [sq] @ qualified_name schema tableName @ [sq]
              @ '', column_name) IS NOT NULL;'')
     @ ln 4 []"
| "render (GrantOnSequence sequenceName) =
     ''GRANT USAGE, SELECT, UPDATE ON SEQUENCE '' @ sequenceName @ '' TO '' @ DEFAULT_ROLE @ '';''"
| "render (EnableRls schema tableName force) =
     (if force then
        ln 10 (''ALTER TABLE '' @ qualified_name schema tableName @ '' ENABLE ROW LEVEL SECURITY;'')
        @ ln 10 (''ALTER TABLE '' @ qualified_name schema tableName @ '' FORCE ROW LEVEL SECURITY;'')
        @ ln 8 []
      else ''ALTER TABLE '' @ qualified_name schema tableName @ '' ENABLE ROW LEVEL SECURITY;'')"
| "render (SelectPolicy schema tableName policyName) =
     ''SELECT * FROM pg_policies WHERE schemaname = '' @ [sq] @ schema @ [sq]
     @ '' AND tablename = '' @ [sq] @ tableName @ [sq]
     @ '' AND policyname = '' @ [sq] @ policyName @ [sq] @ '';''"
| "render (CreateUsingPolicy schema tableName tenantIdColumn) =
     ln 8 (''CREATE POLICY tenant_isolation ON '' @ qualified_name schema tableName)
     @ ln 8 (''USING ('' @ tenantIdColumn @ ''::TEXT = current_setting(''
             @ [sq] @ DEFAULT_SETTINGS_TENANT_FIELD @ [sq] @ ''))'')
     @ ln 6 []"
| "render (CreateInsertPolicy schema tableName tenantIdColumn) =
     ln 8 (''CREATE POLICY tenant_insert ON '' @ qualified_name schema tableName)
     @ ln 8 (''FOR INSERT WITH CHECK ('' @ tenantIdColumn @ ''::TEXT = current_setting(''
             @ [sq] @ DEFAULT_SETTINGS_TENANT_FIELD @ [sq] @ ''))'')
     @ ln 6 []"
| "render (SelectTenantTables tenantCol) =
     ln 6 ''SELECT''
     @ ln 8 ''c.table_schema,''
     @ ln 8 ''c.table_name,''
     @ ln 8 ''CASE''
     @ ln 12 ''WHEN EXISTS (''
     @ ln 16 ''SELECT 1''
     @ ln 16 ''FROM pg_catalog.pg_class cl''
     @ ln 16 ''JOIN pg_catalog.pg_namespace n ON n.oid = cl.relnamespace''
     @ ln 16 ''WHERE n.nspname = c.table_schema''
     @ ln 18 ''AND cl.relname = c.table_name''
     @ ln 18 ''AND cl.relrowsecurity = true''
     @ ln 12 '') THEN True''
     @ ln 12 ''ELSE False''
     @ ln 8 ''END AS has_rls_enabled''
     @ ln 4 ''FROM information_schema.columns c''
     @ ln 4 (''WHERE c.column_name = '' @ [sq] @ tenantCol @ [sq])
     @ ln 4 ''ORDER BY c.table_schema, c.table_name;''
     @ ln 2 []"
| "render (SetTenantLocal tenantId) =
     ln 8 (''SELECT set_config('' @ [sq] @ DEFAULT_SETTINGS_TENANT_FIELD @ [sq] @ '', '' @ [sq] @ tenantId @ [sq] @ '', true);'')
     @ ln 8 (''SELECT set_config('role', '' @ [sq] @ DEFAULT_ROLE @ [sq] @ '', true);'')
     @ ln 6 []"
| "render (DeleteRows schema tableName tenantIdColumn tenantId) =
     ''DELETE FROM '' @ (if truthy schema then the schema @ ''.'' else []) @ tableName
     @ '' WHERE '' @ [dq] @ tenantIdColumn @ [dq] @ '' = '' @ [sq] @ tenantId @ [sq]"

record rls_management =
  tables :: "rls_table list option"
  tenantColumn :: string
  autoDetectTables :: bool
  autoSetup :: bool
  forceRlsOnTableOwner :: bool

text \<open>How a cell of a row reads when the code interpolates it, and the field a row is
  asked for (the first column of the query's result).\<close>

definition cell_text :: "cell \<Rightarrow> string" where
  "cell_text c = (case c of S s \<Rightarrow> s | B b \<Rightarrow> js_bool b)"

definition first_column :: "cell list \<Rightarrow> string" where
  "first_column row = (case row of [] \<Rightarrow> ''undefined'' | c # _ \<Rightarrow> cell_text c)"

text \<open>\<open>getCleanClient\<close>.\<close>

definition getCleanClient ::
  "(rls_stmt, 's) exec \<Rightarrow> (rls_stmt, 's, 'z) world_scheme \<Rightarrow> (error + unit) \<times> (rls_stmt, 's, 'z) world_scheme" where
  "getCleanClient exec w =
     (case perform exec (Connect 0) w of
        (Inl e, w1) \<Rightarrow> (Inl e, w1)
      | (Inr _, w1) \<Rightarrow>
          (case perform exec (Query ResetAll) w1 of
             (Inl err, w2) \<Rightarrow> (Inl err, release w2)
           | (Inr _, w2) \<Rightarrow> (Inr (), w2)))"

text \<open>\<open>grantOverRole\<close>: the two grants, then one grant per sequence of the table.\<close>

definition grantOverRole ::
  "(rls_stmt, 's) exec \<Rightarrow> string \<Rightarrow> string \<Rightarrow> (rls_stmt, 's, 'z) world_scheme \<Rightarrow> (error + unit) \<times> (rls_stmt, 's, 'z) world_scheme" where
  "grantOverRole exec tableName schema w =
     (case perform exec (Query (GrantOnTable schema tableName)) w of
        (Inl e, w1) \<Rightarrow> (Inl e, w1)
      | (Inr _, w1) \<Rightarrow>
          (case perform exec (Query (SelectSequences schema tableName)) w1 of
             (Inl e, w2) \<Rightarrow> (Inl e, w2)
           | (Inr tableSequencesRows, w2) \<Rightarrow>
               perform_each exec
                 (map (\<lambda>row. Query (GrantOnSequence (first_column row))) tableSequencesRows) w2))"

definition enableRlsOverTable ::
  "(rls_stmt, 's) exec \<Rightarrow> rls_management \<Rightarrow> string \<Rightarrow> string \<Rightarrow> (rls_stmt, 's, 'z) world_scheme \<Rightarrow> (error + unit) \<times> (rls_stmt, 's, 'z) world_scheme" where
  "enableRlsOverTable exec M tableName schema w =
     (case perform exec (Query (EnableRls schema tableName (forceRlsOnTableOwner M))) w of
        (Inl e, w1) \<Rightarrow> (Inl e, w1)
      | (Inr _, w1) \<Rightarrow> (Inr (), w1))"

definition isPolicyCreated ::
  "(rls_stmt, 's) exec \<Rightarrow> string \<Rightarrow> string \<Rightarrow> string \<Rightarrow> (rls_stmt, 's, 'z) world_scheme \<Rightarrow> (error + bool) \<times> (rls_stmt, 's, 'z) world_scheme" where
  "isPolicyCreated exec tableName schema policyName w =
     (case perform exec (Query (SelectPolicy schema tableName policyName)) w of
        (Inl e, w1) \<Rightarrow> (Inl e, w1)
      | (Inr rows, w1) \<Rightarrow> (Inr (length rows > 0), w1))"

text \<open>The error thrown when a policy of that name is already there.\<close>

definition policy_exists :: "string \<Rightarrow> string \<Rightarrow> string \<Rightarrow> error" where
  "policy_exists policyName schema tableName =
     Error (''A row-level security (RLS) policy named '' @ [dq] @ policyName @ [dq]
            @ '' already exists on '' @ qualified_name schema tableName
            @ ''. Multiple policies on the same table can lead to unpredictable behavior and unintended access control issues. To resolve this, modify the existing policy or ensure that group-specific policies do not overlap with the default isolation settings.'')"

definition createPoliciesOverTable ::
  "(rls_stmt, 's) exec \<Rightarrow> rls_management \<Rightarrow> rls_table \<Rightarrow> string \<Rightarrow> (rls_stmt, 's, 'z) world_scheme \<Rightarrow> (error + unit) \<times> (rls_stmt, 's, 'z) world_scheme" where
  "createPoliciesOverTable exec M table schema w =
     (let tenantIdColumn = or_else (t_tenantIdColumn table) (tenantColumn M) in
      case isPolicyCreated exec (t_name table) schema ''tenant_isolation'' w of
        (Inl e, w1) \<Rightarrow> (Inl e, w1)
      | (Inr True, w1) \<Rightarrow> (Inl (policy_exists ''tenant_isolation'' schema (t_name table)), w1)
      | (Inr False, w1) \<Rightarrow>
          (case perform exec (Query (CreateUsingPolicy schema (t_name table) tenantIdColumn)) w1 of
             (Inl e, w2) \<Rightarrow> (Inl e, w2)
           | (Inr _, w2) \<Rightarrow>
               (case isPolicyCreated exec (t_name table) schema ''tenant_insert'' w2 of
                  (Inl e, w3) \<Rightarrow> (Inl e, w3)
                | (Inr True, w3) \<Rightarrow> (Inl (policy_exists ''tenant_insert'' schema (t_name table)), w3)
                | (Inr False, w3) \<Rightarrow>
                    (case perform exec (Query (CreateInsertPolicy schema (t_name table) tenantIdColumn)) w3 of
                       (Inl e, w4) \<Rightarrow> (Inl e, w4)
                     | (Inr _, w4) \<Rightarrow> (Inr (), w4)))))"

text \<open>The body of the loop of \<open>setup\<close>, and the loop.\<close>

definition setup_table ::
  "(rls_stmt, 's) exec \<Rightarrow> rls_management \<Rightarrow> string \<Rightarrow> rls_table \<Rightarrow> (rls_stmt, 's, 'z) world_scheme \<Rightarrow> (error + unit) \<times> (rls_stmt, 's, 'z) world_scheme" where
  "setup_table exec M currentSchema table w =
     (let schema = or_else (t_schema table) currentSchema in
      case grantOverRole exec (t_name table) schema w of
        (Inl e, w1) \<Rightarrow> (Inl e, w1)
      | (Inr _, w1) \<Rightarrow>
          (case enableRlsOverTable exec M (t_name table) schema w1 of
             (Inl e, w2) \<Rightarrow> (Inl e, w2)
           | (Inr _, w2) \<Rightarrow> createPoliciesOverTable exec M table schema w2))"

fun setup_tables ::
  "(rls_stmt, 's) exec \<Rightarrow> rls_management \<Rightarrow> string \<Rightarrow> rls_table list \<Rightarrow> (rls_stmt, 's, 'z) world_scheme \<Rightarrow> (error + unit) \<times> (rls_stmt, 's, 'z) world_scheme" where
  "setup_tables exec M currentSchema [] w = (Inr (), w)"
| "setup_tables exec M currentSchema (table # rest) w =
     (case setup_table exec M currentSchema table w of
        (Inl e, w1) \<Rightarrow> (Inl e, w1)
      | (Inr _, w1) \<Rightarrow> setup_tables exec M currentSchema rest w1)"

text \<open>The \<open>try\<close> block of \<open>setup\<close>. Destructuring the first row of an empty result throws.\<close>

definition setup_transaction ::
  "(rls_stmt, 's) exec \<Rightarrow> rls_management \<Rightarrow> rls_table list \<Rightarrow> (rls_stmt, 's, 'z) world_scheme \<Rightarrow> (error + unit) \<times> (rls_stmt, 's, 'z) world_scheme" where
  "setup_transaction exec M tableList w =
     (case perform exec (Query SelectCurrentSchema) w of
        (Inl e, w1) \<Rightarrow> (Inl e, w1)
      | (Inr [], w1) \<Rightarrow> (Inl (Error ''TypeError: undefined is not iterable''), w1)
      | (Inr (row # _), w1) \<Rightarrow>
          (let currentSchema = first_column row in
           case perform exec (Query Begin) w1 of
             (Inl e, w2) \<Rightarrow> (Inl e, w2)
           | (Inr _, w2) \<Rightarrow>
               (case perform exec (Query SelectRole) w2 of
                  (Inl e, w3) \<Rightarrow> (Inl e, w3)
                | (Inr roleRows, w3) \<Rightarrow>
                    (case (if length roleRows \<noteq> 1 then perform exec (Query CreateRole) w3
                           else (Inr [], console_warn ''Role already exists'' w3)) of
                       (Inl e, w4) \<Rightarrow> (Inl e, w4)
                     | (Inr _, w4) \<Rightarrow>
                         (case setup_tables exec M currentSchema tableList w4 of
                            (Inl e, w5) \<Rightarrow> (Inl e, w5)
                          | (Inr _, w5) \<Rightarrow>
                              (case perform exec (Query Commit) w5 of
                                 (Inl e, w6) \<Rightarrow> (Inl e, w6)
                               | (Inr _, w6) \<Rightarrow> (Inr (), w6)))))))"

text \<open>\<open>setup(tables?)\<close>. An array is truthy even when empty, so \<open>tables || this.options.tables\<close>
  is the argument whenever one is given. In the \<open>catch\<close> block the rollback's own failure is
  swallowed (\<open>.catch(() => {})\<close>).\<close>

definition Rls_setup ::
  "(rls_stmt, 's) exec \<Rightarrow> rls_management \<Rightarrow> rls_table list option \<Rightarrow> (rls_stmt, 's, 'z) world_scheme \<Rightarrow> (error + unit) \<times> (rls_stmt, 's, 'z) world_scheme" where
  "Rls_setup exec M tables_arg w =
     (let tableList = (case tables_arg of Some ts \<Rightarrow> Some ts | None \<Rightarrow> tables M) in
      if tableList = None \<or> tableList = Some [] then
        (Inr (), console_warn ''No tables specified for Row-Level Security (RLS) setup. No RLS policies will be applied. No role will be created.'' w)
      else
        case getCleanClient exec w of
          (Inl e, w1) \<Rightarrow> (Inl e, w1)
        | (Inr _, w1) \<Rightarrow>
            (case setup_transaction exec M (the tableList) w1 of
               (Inl err, w2) \<Rightarrow> (Inl err, release (snd (perform exec (Query Rollback) w2)))
             | (Inr u, w2) \<Rightarrow> (Inr u, release w2)))"

text \<open>\<open>getMultitenantTablesWithoutRls\<close>: a row is \<open>(table_schema, table_name,
  has_rls_enabled)\<close>; the rows without row security are kept.\<close>

definition row_table :: "cell list \<Rightarrow> rls_table" where
  "row_table row =
     \<lparr> t_name = (case row of _ # c # _ \<Rightarrow> cell_text c | _ \<Rightarrow> ''undefined''),
       t_schema = (case row of c # _ \<Rightarrow> Some (cell_text c) | _ \<Rightarrow> None),
       t_tenantIdColumn = None \<rparr>"

definition row_hasRlsEnabled :: "cell list \<Rightarrow> bool" where
  "row_hasRlsEnabled row = (case row of _ # _ # B b # _ \<Rightarrow> b | _ # _ # S s # _ \<Rightarrow> s \<noteq> [] | _ \<Rightarrow> False)"

definition getMultitenantTablesWithoutRls ::
  "(rls_stmt, 's) exec \<Rightarrow> rls_management \<Rightarrow> (rls_stmt, 's, 'z) world_scheme \<Rightarrow> (error + rls_table list) \<times> (rls_stmt, 's, 'z) world_scheme" where
  "getMultitenantTablesWithoutRls exec M w =
     (case perform exec (Query (SelectTenantTables (tenantColumn M))) w of
        (Inl e, w1) \<Rightarrow> (Inl e, w1)
      | (Inr rows, w1) \<Rightarrow>
          (Inr (map row_table (filter (\<lambda>row. \<not> row_hasRlsEnabled row) rows)), w1))"

text \<open>The \<open>try\<close> block of \<open>createTenant\<close>.\<close>

definition discover_and_setup ::
  "(rls_stmt, 's) exec \<Rightarrow> rls_management \<Rightarrow> (rls_stmt, 's, 'z) world_scheme \<Rightarrow> (error + bool) \<times> (rls_stmt, 's, 'z) world_scheme" where
  "discover_and_setup exec M w =
     (case getMultitenantTablesWithoutRls exec M w of
        (Inl e, w1) \<Rightarrow> (Inl e, w1)
      | (Inr multitenantTablesWithoutRls, w1) \<Rightarrow>
          if length multitenantTablesWithoutRls > 0 then
            (case tables M of
               Some configured \<Rightarrow>
                 (let filteredTables =
                        filter (\<lambda>table. list_ex (\<lambda>t. t_name t = t_name table \<and> t_schema t = t_schema table) configured)
                               multitenantTablesWithoutRls
                  in if length filteredTables > 0 then
                       (case Rls_setup exec M (Some filteredTables)
                               (console_warn ''Setting up RLS for tables:'' w1) of
                          (Inl e, w2) \<Rightarrow> (Inl e, w2)
                        | (Inr _, w2) \<Rightarrow> (Inr True, w2))
                     else (Inr False, w1))
             | None \<Rightarrow>
                 if autoDetectTables M then
                   (case Rls_setup exec M (Some multitenantTablesWithoutRls)
                           (console_warn ''Setting up RLS for tables:'' w1) of
                      (Inl e, w2) \<Rightarrow> (Inl e, w2)
                    | (Inr _, w2) \<Rightarrow> (Inr True, w2))
                 else (Inr False, w1))
          else (Inr False, w1))"

text \<open>\<open>createTenant\<close>. The instance is part of the result: the \<open>finally\<close> block writes
  \<open>this.options.provision.autoSetup = false\<close>.\<close>

definition Rls_createTenant ::
  "(rls_stmt, 's) exec \<Rightarrow> rls_management \<Rightarrow> string \<Rightarrow> (rls_stmt, 's, 'z) world_scheme \<Rightarrow> (error + bool) \<times> rls_management \<times> (rls_stmt, 's, 'z) world_scheme" where
  "Rls_createTenant exec M tenantId w =
     (if autoSetup M then
        (case getCleanClient exec w of
           (Inl e, w1) \<Rightarrow> (Inl e, M, w1)
         | (Inr _, w1) \<Rightarrow>
             (case discover_and_setup exec M w1 of
                (r, w2) \<Rightarrow> (r, M\<lparr>autoSetup := False\<rparr>, release w2)))
      else (Inr False, M, w))"

text \<open>
  Calls of \<open>createTenant\<close> that overlap. An async function runs up to its first \<open>await\<close> when
  it is called, so a call reads \<open>this.options.provision.autoSetup\<close> at once; the flag is
  written in the \<open>finally\<close> block only, after the awaits of the pass. \<open>createTenant_until_setup\<close>
  is the call from that test (whose outcome is \<open>tested\<close>) up to the point where \<open>setup\<close> waits
  for its own connection, with the tables it is about to set up, or up to the end of the
  call when it does not get that far; \<open>createTenant_from_setup\<close> is the rest of the call.
\<close>

definition createTenant_until_setup ::
  "(rls_stmt, 's) exec \<Rightarrow> bool \<Rightarrow> rls_management \<Rightarrow> (rls_stmt, 's, 'z) world_scheme \<Rightarrow>
     ((error + bool) \<times> rls_management \<times> (rls_stmt, 's, 'z) world_scheme)
     + (rls_table list \<times> (rls_stmt, 's, 'z) world_scheme)" where
  "createTenant_until_setup exec tested M w =
     (if tested then
        (case getCleanClient exec w of
           (Inl e, w1) \<Rightarrow> Inl (Inl e, M, w1)
         | (Inr _, w1) \<Rightarrow>
             (case getMultitenantTablesWithoutRls exec M w1 of
                (Inl e, w2) \<Rightarrow> Inl (Inl e, M\<lparr>autoSetup := False\<rparr>, release w2)
              | (Inr multitenantTablesWithoutRls, w2) \<Rightarrow>
                  if length multitenantTablesWithoutRls > 0 then
                    (case tables M of
                       Some configured \<Rightarrow>
                         (let filteredTables =
                                filter (\<lambda>table. list_ex (\<lambda>t. t_name t = t_name table \<and> t_schema t = t_schema table) configured)
                                       multitenantTablesWithoutRls
                          in if length filteredTables > 0 then
                               Inr (filteredTables, console_warn ''Setting up RLS for tables:'' w2)
                             else Inl (Inr False, M\<lparr>autoSetup := False\<rparr>, release w2))
                     | None \<Rightarrow>
                         if autoDetectTables M then
                           Inr (multitenantTablesWithoutRls, console_warn ''Setting up RLS for tables:'' w2)
                         else Inl (Inr False, M\<lparr>autoSetup := False\<rparr>, release w2))
                  else Inl (Inr False, M\<lparr>autoSetup := False\<rparr>, release w2)))
      else Inl (Inr False, M, w))"

definition createTenant_from_setup ::
  "(rls_stmt, 's) exec \<Rightarrow> rls_management \<Rightarrow> rls_table list \<Rightarrow> (rls_stmt, 's, 'z) world_scheme \<Rightarrow>
     (error + bool) \<times> rls_management \<times> (rls_stmt, 's, 'z) world_scheme" where
  "createTenant_from_setup exec M tableList w =
     (case Rls_setup exec M (Some tableList) w of
        (Inl e, w1) \<Rightarrow> (Inl e, M\<lparr>autoSetup := False\<rparr>, release w1)
      | (Inr _, w1) \<Rightarrow> (Inr True, M\<lparr>autoSetup := False\<rparr>, release w1))"

text \<open>
  Two calls made one after the other before either has resumed, as in
  \<^verbatim>\<open>Promise.all([m.createTenant("a"), m.createTenant("b")])\<close>, in the schedule where the
  first call's connections are served before the second call's: both calls test the flag
  of the instance as it is when they are made, each goes as far as \<open>setup\<close>, then the first
  call finishes, then the second.
\<close>

definition overlapping_createTenants ::
  "(rls_stmt, 's) exec \<Rightarrow> rls_management \<Rightarrow> (rls_stmt, 's, 'z) world_scheme \<Rightarrow>
     (error + bool) \<times> (error + bool) \<times> rls_management \<times> (rls_stmt, 's, 'z) world_scheme" where
  "overlapping_createTenants exec M w =
     (let first_tested = autoSetup M;
          second_tested = autoSetup M
      in case createTenant_until_setup exec first_tested M w of
           Inl (r1, M1, w1) \<Rightarrow>
             (case createTenant_until_setup exec second_tested M1 w1 of
                Inl (r2, M2, w2) \<Rightarrow> (r1, r2, M2, w2)
              | Inr (tables2, w2) \<Rightarrow>
                  (case createTenant_from_setup exec M1 tables2 w2 of
                     (r2, M2, w3) \<Rightarrow> (r1, r2, M2, w3)))
         | Inr (tables1, w1) \<Rightarrow>
             (case createTenant_until_setup exec second_tested M w1 of
                Inl (r2, M2, w2) \<Rightarrow>
                  (case createTenant_from_setup exec M2 tables1 w2 of
                     (r1, M3, w3) \<Rightarrow> (r1, r2, M3, w3))
              | Inr (tables2, w2) \<Rightarrow>
                  (case createTenant_from_setup exec M tables1 w2 of
                     (r1, M1, w3) \<Rightarrow>
                       (case createTenant_from_setup exec M1 tables2 w3 of
                          (r2, M2, w4) \<Rightarrow> (r1, r2, M2, w4)))))"

text \<open>\<open>deleteTenant(id, tables?)\<close>.\<close>

definition delete_rows_transaction ::
  "(rls_stmt, 's) exec \<Rightarrow> rls_management \<Rightarrow> string \<Rightarrow> rls_table list \<Rightarrow> (rls_stmt, 's, 'z) world_scheme \<Rightarrow> (error + unit) \<times> (rls_stmt, 's, 'z) world_scheme" where
  "delete_rows_transaction exec M tenantId tableList w =
     (case perform exec (Query BeginSemi) w of
        (Inl e, w1) \<Rightarrow> (Inl e, w1)
      | (Inr _, w1) \<Rightarrow>
          (case perform exec (Query (SetTenantLocal tenantId)) w1 of
             (Inl e, w2) \<Rightarrow> (Inl e, w2)
           | (Inr _, w2) \<Rightarrow>
               (case perform_each exec
                       (map (\<lambda>table. Query (DeleteRows (t_schema table) (t_name table)
                                               (or_else (t_tenantIdColumn table) (tenantColumn M)) tenantId))
                            tableList) w2 of
                  (Inl e, w3) \<Rightarrow> (Inl e, w3)
                | (Inr _, w3) \<Rightarrow>
                    (case perform exec (Query Commit) w3 of
                       (Inl e, w4) \<Rightarrow> (Inl e, w4)
                     | (Inr _, w4) \<Rightarrow> (Inr (), w4)))))"

definition Rls_deleteTenant ::
  "(rls_stmt, 's) exec \<Rightarrow> rls_management \<Rightarrow> string \<Rightarrow> rls_table list option \<Rightarrow> (rls_stmt, 's, 'z) world_scheme \<Rightarrow> (error + unit) \<times> (rls_stmt, 's, 'z) world_scheme" where
  "Rls_deleteTenant exec M tenantId tables_arg w =
     (let tableList = (case tables_arg of Some ts \<Rightarrow> Some ts | None \<Rightarrow> tables M) in
      if tableList = None \<or> tableList = Some [] then
        (Inr (), console_warn ''No tables specified. No data will be removed.'' w)
      else
        case perform exec (Connect 0) w of
          (Inl e, w1) \<Rightarrow> (Inl e, w1)
        | (Inr _, w1) \<Rightarrow>
            (case delete_rows_transaction exec M tenantId (the tableList) w1 of
               (Inl err, w2) \<Rightarrow> (Inl err, release (try_rollback exec Rollback w2))
             | (Inr u, w2) \<Rightarrow> (Inr u, release w2)))"

subsection \<open>A catalog\<close>

text \<open>
  A server that answers the statements of \<open>setup\<close> from a catalog of roles, policies and
  tables with row security, with one session and its open transaction: \<open>BEGIN\<close> keeps a copy
  of the catalog, \<open>ROLLBACK\<close> puts it back, \<open>COMMIT\<close> drops it. It accepts every statement;
  in particular \<open>CREATE POLICY\<close> adds an entry even when one of that name is there, so that
  the absence of duplicates in the theorems below is the code's doing, not the server's.
\<close>

record catalog =
  roles :: "string list"
  policies :: "(string \<times> string \<times> string) list"       \<comment> \<open>schema, table, policy name\<close>
  row_security :: "(string \<times> string) list"             \<comment> \<open>schema, table\<close>

record pg =
  live :: catalog
  saved :: "catalog option"
  current_schema :: string
  sequences :: "(string \<times> string \<times> string) list"      \<comment> \<open>schema, table, sequence\<close>
  columns :: "(string \<times> string \<times> string) list"        \<comment> \<open>schema, table, column\<close>

fun pg_query :: "rls_stmt \<Rightarrow> pg \<Rightarrow> result \<times> pg" where
  "pg_query ResetAll d = ([], d)"
| "pg_query SelectCurrentSchema d = ([[S (current_schema d)]], d)"
| "pg_query Begin d = ([], d\<lparr>saved := (case saved d of None \<Rightarrow> Some (live d) | Some c \<Rightarrow> Some c)\<rparr>)"
| "pg_query BeginSemi d = ([], d\<lparr>saved := (case saved d of None \<Rightarrow> Some (live d) | Some c \<Rightarrow> Some c)\<rparr>)"
| "pg_query Commit d = ([], d\<lparr>saved := None\<rparr>)"
| "pg_query Rollback d =
     ([], d\<lparr>live := (case saved d of None \<Rightarrow> live d | Some c \<Rightarrow> c), saved := None\<rparr>)"
| "pg_query SelectRole d = (if DEFAULT_ROLE \<in> set (roles (live d)) then [[S ''1'']] else [], d)"
| "pg_query CreateRole d = ([], d\<lparr>live := (live d)\<lparr>roles := roles (live d) @ [DEFAULT_ROLE]\<rparr>\<rparr>)"
| "pg_query (GrantOnTable schema tableName) d = ([], d)"
| "pg_query (SelectSequences schema tableName) d =
     (map (\<lambda>(s, t, n). [S n]) (filter (\<lambda>(s, t, n). s = schema \<and> t = tableName) (sequences d)), d)"
| "pg_query (GrantOnSequence sequenceName) d = ([], d)"
| "pg_query (EnableRls schema tableName force) d =
     ([], d\<lparr>live := (live d)\<lparr>row_security := List.insert (schema, tableName) (row_security (live d))\<rparr>\<rparr>)"
| "pg_query (SelectPolicy schema tableName policyName) d =
     (map (\<lambda>(s, t, p). [S s, S t, S p])
          (filter (\<lambda>entry. entry = (schema, tableName, policyName)) (policies (live d))), d)"
| "pg_query (CreateUsingPolicy schema tableName tenantIdColumn) d =
     ([], d\<lparr>live := (live d)\<lparr>policies := policies (live d) @ [(schema, tableName, ''tenant_isolation'')]\<rparr>\<rparr>)"
| "pg_query (CreateInsertPolicy schema tableName tenantIdColumn) d =
     ([], d\<lparr>live := (live d)\<lparr>policies := policies (live d) @ [(schema, tableName, ''tenant_insert'')]\<rparr>\<rparr>)"
| "pg_query (SelectTenantTables tenantCol) d =
     (map (\<lambda>(s, t, c). [S s, S t, B ((s, t) \<in> set (row_security (live d)))])
          (filter (\<lambda>(s, t, c). c = tenantCol) (columns d)), d)"
| "pg_query (SetTenantLocal tenantId) d = ([], d)"
| "pg_query (DeleteRows schema tableName tenantIdColumn tenantId) d = ([], d)"

definition pg_exec :: "(rls_stmt, pg) exec" where
  "pg_exec c d =
     (case c of
        Query q \<Rightarrow> (case pg_query q d of (rows, d1) \<Rightarrow> (Inr rows, d1))
      | ClientQuery q \<Rightarrow> (case pg_query q d of (rows, d1) \<Rightarrow> (Inr rows, d1))
      | Connect _ \<Rightarrow> (Inr [], d)
      | ClientConnect _ \<Rightarrow> (Inr [], d))"


section \<open>Schema isolation: the Management role\<close>

text \<open>\<open>PostgresSchemaManagement\<close> (\<open>strategies/schema.ts\<close>): the statements of \<open>createTenant\<close>
  and \<open>deleteTenant\<close>. The constructor keeps only the schema prefix of the options, so the
  role name always has the default prefix.\<close>

definition create_schema_sql :: "string \<Rightarrow> sql" where
  "create_schema_sql schemaName = ''CREATE SCHEMA '' @ [dq] @ schemaName @ [dq] @ '';''"

definition drop_schema_sql :: "string option \<Rightarrow> sql" where
  "drop_schema_sql schemaName = ''DROP SCHEMA '' @ [dq] @ interpolate schemaName @ [dq] @ '' CASCADE;''"

definition schema_role_sql :: "string \<Rightarrow> string \<Rightarrow> string \<Rightarrow> string \<Rightarrow> sql" where
  "schema_role_sql roleName password schemaName currentDatabase =
     ''CREATE ROLE '' @ [dq] @ roleName @ [dq] @ '' WITH LOGIN PASSWORD '' @ [sq] @ password @ [sq] @ '';''
     @ ln 0 []
     @ ln 12 ''-- PUBLIC = ALL ROLES''
     @ ln 12 (''REVOKE CREATE ON SCHEMA '' @ [dq] @ schemaName @ [dq] @ '' FROM PUBLIC;'')
     @ ln 12 (''REVOKE ALL PRIVILEGES ON SCHEMA '' @ [dq] @ schemaName @ [dq] @ '' FROM PUBLIC;'')
     @ ln 0 []
     @ ln 12 (''GRANT CONNECT ON DATABASE '' @ [dq] @ currentDatabase @ [dq] @ '' TO '' @ [dq] @ roleName @ [dq] @ '';'')
     @ concat (map (\<lambda>(before, middle). ln 12 (before @ [dq] @ schemaName @ [dq] @ middle @ [dq] @ roleName @ [dq] @ '';''))
        [(''GRANT ALL PRIVILEGES ON SCHEMA '', '' TO ''),
         (''GRANT ALL PRIVILEGES ON ALL TABLES IN SCHEMA '', '' TO ''),
         (''GRANT ALL PRIVILEGES ON ALL FUNCTIONS IN SCHEMA '', '' TO ''),
         (''GRANT ALL PRIVILEGES ON ALL PROCEDURES IN SCHEMA '', '' TO ''),
         (''GRANT ALL PRIVILEGES ON ALL ROUTINES IN SCHEMA '', '' TO ''),
         (''GRANT ALL PRIVILEGES ON ALL SEQUENCES IN SCHEMA '', '' TO '')])
     @ ln 0 []
     @ ln 12 ''-- For future objects''
     @ concat (map (\<lambda>(before, middle). ln 12 (before @ [dq] @ schemaName @ [dq] @ middle @ [dq] @ roleName @ [dq] @ '';''))
        [(''ALTER DEFAULT PRIVILEGES IN SCHEMA '', '' GRANT ALL ON TABLES TO ''),
         (''ALTER DEFAULT PRIVILEGES IN SCHEMA '', '' GRANT ALL ON SEQUENCES TO ''),
         (''ALTER DEFAULT PRIVILEGES IN SCHEMA '', '' GRANT ALL ON FUNCTIONS TO '')])
     @ ln 10 []"

definition schema_provision ::
  "(sql, 's) exec \<Rightarrow> pool_config \<Rightarrow> string \<Rightarrow> TenantsSecretsManager \<Rightarrow> string \<Rightarrow> string \<Rightarrow> (sql, 's, 'z) world_scheme \<Rightarrow> (error + unit) \<times> (sql, 's, 'z) world_scheme" where
  "schema_provision exec cfg schema_prefix sm generated tenantId w =
     (let schemaName = schema_prefix @ tenantId in
      case perform exec (ClientQuery ''BEGIN;'') w of
        (Inl e, w1) \<Rightarrow> (Inl e, w1)
      | (Inr _, w1) \<Rightarrow>
          (case perform exec (ClientQuery (create_schema_sql schemaName)) w1 of
             (Inl e, w2) \<Rightarrow> (Inl e, w2)
           | (Inr _, w2) \<Rightarrow>
               (case perform exec (ClientQuery ''SELECT current_database();'') w2 of
                  (Inl e, w3) \<Rightarrow> (Inl e, w3)
                | (Inr [], w3) \<Rightarrow> (Inl (Error ''TypeError: undefined is not iterable''), w3)
                | (Inr (row # _), w3) \<Rightarrow>
                    (let currentDatabase = first_column row;
                         roleName = generateDefaultTenantRoleName tenantId None
                     in case perform exec (ClientQuery (schema_role_sql roleName generated schemaName currentDatabase)) w3 of
                          (Inl e, w4) \<Rightarrow> (Inl e, w4)
                        | (Inr _, w4) \<Rightarrow>
                            (case perform exec (ClientQuery ''COMMIT;'') w4 of
                               (Inl e, w5) \<Rightarrow> (Inl e, w5)
                             | (Inr _, w5) \<Rightarrow>
                                 (Inr (), secrets_store sm tenantId
                                            (cfg\<lparr>cfg_user := Some roleName, cfg_password := Some generated,
                                                 cfg_database := Some currentDatabase,
                                                 cfg_schema := Some schemaName\<rparr>) w5))))))"

definition PostgresSchemaManagement_createTenant ::
  "(sql, 's) exec \<Rightarrow> pool_config \<Rightarrow> string \<Rightarrow> TenantsSecretsManager \<Rightarrow> string \<Rightarrow> string \<Rightarrow> (sql, 's, 'z) world_scheme \<Rightarrow> (error + unit) \<times> (sql, 's, 'z) world_scheme" where
  "PostgresSchemaManagement_createTenant exec cfg schema_prefix sm generated tenantId w =
     (case perform exec (ClientConnect (interpolate (cfg_database cfg))) w of
        (Inl e, w1) \<Rightarrow> (Inl e, w1)
      | (Inr _, w1) \<Rightarrow>
          (case (case schema_provision exec cfg schema_prefix sm generated tenantId w1 of
                   (Inl err, w2) \<Rightarrow>
                     (case perform exec (ClientQuery ''ROLLBACK'') w2 of
                        (Inl rollbackErr, w3) \<Rightarrow> (Inl err, console_error ''Error during rollback:'' rollbackErr w3)
                      | (Inr _, w3) \<Rightarrow> (Inl err, w3))
                 | (Inr u, w2) \<Rightarrow> (Inr u, w2)) of
             (r, w4) \<Rightarrow> (r, w4\<lparr>events := events w4 @ [ClientEnd]\<rparr>)))"

definition PostgresSchemaManagement_deleteTenant ::
  "(sql, 's) exec \<Rightarrow> pool_config \<Rightarrow> TenantsSecretsManager \<Rightarrow> string \<Rightarrow> (sql, 's, 'z) world_scheme \<Rightarrow> (error + unit) \<times> (sql, 's, 'z) world_scheme" where
  "PostgresSchemaManagement_deleteTenant exec cfg sm tenantId w =
     (case secrets_get sm tenantId w of
        Inl e \<Rightarrow> (Inl e, w)
      | Inr stored \<Rightarrow>
          (case perform exec (ClientConnect (interpolate (cfg_database cfg))) w of
             (Inl e, w1) \<Rightarrow> (Inl e, w1)
           | (Inr _, w1) \<Rightarrow>
               (case perform exec (ClientQuery (drop_schema_sql (cfg_schema stored))) w1 of
                  (r, w2) \<Rightarrow> (map_sum id (\<lambda>_. ()) r, w2\<lparr>events := events w2 @ [ClientEnd]\<rparr>))))"


section \<open>The shape of an SQL text\<close>

text \<open>
  What the server's lexer makes of a statement depends on where its string constants
  (\<open>'...'\<close>), its quoted identifiers (\<open>"..."\<close>) and its comments begin and end. Inside a
  constant or a quoted identifier the quote written twice stands for itself and nothing
  else is special (the server's default, \<open>standard_conforming_strings\<close>); a comment runs from
  \<open>--\<close> to the end of the line, or from \<open>/*\<close> to the matching \<open>*/\<close>, and block comments nest.
  \<open>skeleton\<close> is the text with the content of every string constant and quoted identifier
  and with every comment taken out: two texts with the same skeleton differ only in the
  values of their constants and quoted names and in their comments. Dollar-quoted and
  escape-string constants are not read as such; no statement of the core holds one, and
  the names that the theorems below let into unquoted places hold no dollar sign.
\<close>

datatype position = Code | InConstant | InQuotedName | InLineComment | InBlockComment nat

fun skeleton :: "position \<Rightarrow> string \<Rightarrow> string" where
  "skeleton p [] = []"
| "skeleton Code [c] = [c]"
| "skeleton Code (c # d # cs) =
     (if c = CHR 0x27 then c # skeleton InConstant (d # cs)
      else if c = CHR 0x22 then c # skeleton InQuotedName (d # cs)
      else if c = CHR ''-'' \<and> d = CHR ''-'' then skeleton InLineComment cs
      else if c = CHR ''/'' \<and> d = CHR ''*'' then skeleton (InBlockComment 0) cs
      else c # skeleton Code (d # cs))"
| "skeleton InConstant [c] = (if c = CHR 0x27 then [c] else [])"
| "skeleton InConstant (c # d # cs) =
     (if c = CHR 0x27 then
        (if d = CHR 0x27 then skeleton InConstant cs else c # skeleton Code (d # cs))
      else skeleton InConstant (d # cs))"
| "skeleton InQuotedName [c] = (if c = CHR 0x22 then [c] else [])"
| "skeleton InQuotedName (c # d # cs) =
     (if c = CHR 0x22 then
        (if d = CHR 0x22 then skeleton InQuotedName cs else c # skeleton Code (d # cs))
      else skeleton InQuotedName (d # cs))"
| "skeleton InLineComment (c # cs) =
     (if c = CHR 0x0A \<or> c = CHR 0x0D then c # skeleton Code cs else skeleton InLineComment cs)"
| "skeleton (InBlockComment depth) [c] = []"
| "skeleton (InBlockComment depth) (c # d # cs) =
     (if c = CHR ''*'' \<and> d = CHR ''/'' then
        (case depth of 0 \<Rightarrow> skeleton Code cs | Suc outer \<Rightarrow> skeleton (InBlockComment outer) cs)
      else if c = CHR ''/'' \<and> d = CHR ''*'' then skeleton (InBlockComment (Suc depth)) cs
      else skeleton (InBlockComment depth) (d # cs))"


section \<open>What the specification says, in the model's terms\<close>

text \<open>
  The transaction protocol of the specification for a tenant query under transaction
  pooling, written from its words. The opening statement is \<open>BEGIN;\<close> followed by one
  \<open>SELECT set_config('name', 'value', true);\<close> for each setting of the tenant, each on a line
  of its own (\<open>transaction_opening\<close>; the indentation is the layout of the text and nothing
  more). Then the query, then \<open>COMMIT\<close>; when a step fails a rollback is attempted, a failure
  of the rollback is only written to the console, and the error of the step that failed is
  the result. The value of \<open>transaction_protocol\<close> is the result, the calls made on the
  client that was checked out, and the lines written to the console.
\<close>

definition transaction_opening :: "nat \<Rightarrow> (string \<times> string) list \<Rightarrow> sql" where
  "transaction_opening indentation settings =
     ln indentation ''BEGIN;''
     @ concat (map (\<lambda>(name, v). ln indentation
                      (''SELECT set_config('' @ [sq] @ name @ [sq] @ '', '' @ [sq] @ v @ [sq] @ '', true);''))
               settings)
     @ ln (indentation - 2) []"

definition rollback_logged :: "(sql, 's) exec \<Rightarrow> sql \<Rightarrow> 's \<Rightarrow> (string \<times> error option) list" where
  "rollback_logged exec text d =
     (case fst (exec (Query text) d) of
        Inl rollbackErr \<Rightarrow> [(''Error during rollback:'', Some rollbackErr)]
      | Inr _ \<Rightarrow> [])"

definition query_then_commit ::
  "(sql, 's) exec \<Rightarrow> sql \<Rightarrow> 's \<Rightarrow> (error + result) \<times> sql event list \<times> (string \<times> error option) list" where
  "query_then_commit exec text d1 =
     (case exec (Query text) d1 of
        (Inl e, d2) \<Rightarrow>
          (Inl e, [Called (Query text), Called (Query ''ROLLBACK;''), Release],
           rollback_logged exec ''ROLLBACK;'' d2)
      | (Inr rows, d2) \<Rightarrow>
          (case exec (Query ''COMMIT;'') d2 of
             (Inl e, d3) \<Rightarrow>
               (Inl e, [Called (Query text), Called (Query ''COMMIT;''),
                        Called (Query ''ROLLBACK;''), Release],
                rollback_logged exec ''ROLLBACK;'' d3)
           | (Inr _, d3) \<Rightarrow>
               (Inr rows, [Called (Query text), Called (Query ''COMMIT;''), Release], [])))"

definition transaction_protocol ::
  "(sql, 's) exec \<Rightarrow> sql \<Rightarrow> sql \<Rightarrow> 's \<Rightarrow> (error + result) \<times> sql event list \<times> (string \<times> error option) list" where
  "transaction_protocol exec opening_sql text d0 =
     (case exec (Query opening_sql) d0 of
        (Inl e, d1) \<Rightarrow>
          (Inl e, [Called (Query opening_sql), Called (Query ''ROLLBACK''), Release],
           rollback_logged exec ''ROLLBACK'' d1)
      | (Inr _, d1) \<Rightarrow>
          (case query_then_commit exec text d1 of
             (r, evs, logs) \<Rightarrow> (r, Called (Query opening_sql) # evs, logs)))"

text \<open>
  The order of the specification for the deletion of a Redis ACL tenant, for the keys
  that the \<open>KEYS\<close> command listed: the keys first (nothing to send when there is none), the
  ACL user next, the stored descriptor last.
\<close>

definition deletion_plan :: "acl_management \<Rightarrow> string \<Rightarrow> string list \<Rightarrow> redis_step list" where
  "deletion_plan M tenantId keys =
     [Sent (KEYS (''tenant:'' @ tenantId @ '':*''))]
     @ (if keys = [] then [] else [Sent (PIPELINE_DEL keys)])
     @ [Sent (ACL_DELUSER tenantId), SecretDeleted (getPath (tenantsSecretsManager M) tenantId)]"



text \<open>
  What may stand between two quote characters \<open>q\<close> without ending the quoted place: any
  text in which \<open>q\<close> occurs only written twice, in particular any text without \<open>q\<close>. And what
  may stand in an unquoted place without opening a quoted place or a comment: a name
  without quote character, hyphen, slash or dollar sign.
\<close>

fun pairs_only :: "char \<Rightarrow> string \<Rightarrow> bool" where
  "pairs_only q [] = True"
| "pairs_only q [c] = (c \<noteq> q)"
| "pairs_only q (c # d # cs) = (if c = q then d = q \<and> pairs_only q cs else pairs_only q (d # cs))"

definition plain :: "string \<Rightarrow> bool" where
  "plain s = (\<forall>c\<in>set s. c \<noteq> CHR 0x27 \<and> c \<noteq> CHR 0x22 \<and> c \<noteq> CHR ''-'' \<and> c \<noteq> CHR ''/'' \<and> c \<noteq> CHR ''$'')"

text \<open>
  Reading the catalog: the schema a table of the list is resolved to, the two policies
  that \<open>setup\<close> creates for it, and the catalog with one more policy entry or one more table
  under row security.
\<close>

definition schema_of :: "pg \<Rightarrow> rls_table \<Rightarrow> string" where
  "schema_of d table = or_else (t_schema table) (current_schema d)"

definition table_policies :: "string \<Rightarrow> rls_table \<Rightarrow> (string \<times> string \<times> string) list" where
  "table_policies currentSchema table =
     [(or_else (t_schema table) currentSchema, t_name table, ''tenant_isolation''),
      (or_else (t_schema table) currentSchema, t_name table, ''tenant_insert'')]"

definition add_policy :: "string \<times> string \<times> string \<Rightarrow> pg \<Rightarrow> pg" where
  "add_policy entry d = d\<lparr>live := (live d)\<lparr>policies := policies (live d) @ [entry]\<rparr>\<rparr>"

definition enable_rls :: "string \<times> string \<Rightarrow> pg \<Rightarrow> pg" where
  "enable_rls entry d = d\<lparr>live := (live d)\<lparr>row_security := List.insert entry (row_security (live d))\<rparr>\<rparr>"

text \<open>
  Observing the auto-setup pass of \<open>createTenant\<close> from the server's side: the discovery
  query is sent once per pass, and \<open>setup\<close> opens with \<open>SELECT current_schema()\<close>, which
  nothing else sends. \<open>createTenants\<close> is a sequence of \<open>createTenant\<close> calls on one instance,
  whatever each of them returns.
\<close>

fun is_discovery :: "rls_stmt event \<Rightarrow> bool" where
  "is_discovery (Called (Query (SelectTenantTables _))) = True"
| "is_discovery _ = False"

fun is_setup_start :: "rls_stmt event \<Rightarrow> bool" where
  "is_setup_start (Called (Query SelectCurrentSchema)) = True"
| "is_setup_start _ = False"

definition discoveries :: "(rls_stmt, 's, 'z) world_scheme \<Rightarrow> nat" where
  "discoveries w = length (filter is_discovery (events w))"

definition setups :: "(rls_stmt, 's, 'z) world_scheme \<Rightarrow> nat" where
  "setups w = length (filter is_setup_start (events w))"

definition quiet :: "rls_stmt call \<Rightarrow> bool" where
  "quiet c = (\<not> is_discovery (Called c) \<and> \<not> is_setup_start (Called c))"

fun createTenants ::
  "(rls_stmt, 's) exec \<Rightarrow> rls_management \<Rightarrow> string list \<Rightarrow> (rls_stmt, 's, 'z) world_scheme \<Rightarrow> rls_management \<times> (rls_stmt, 's, 'z) world_scheme" where
  "createTenants exec M [] w = (M, w)"
| "createTenants exec M (tenantId # rest) w =
     (case Rls_createTenant exec M tenantId w of
        (r, M1, w1) \<Rightarrow> createTenants exec M1 rest w1)"


subsection \<open>Notions of the round-trip proof\<close>









section \<open>Concrete inputs\<close>

text \<open>A server that accepts every call and answers with no rows, and the tenant \<open>acme\<close>
  with a descriptor in the secret store.\<close>

definition always_ok :: "('q, unit) exec" where
  "always_ok c d = (Inr [], d)"

definition acme_descriptor :: pool_config where
  "acme_descriptor = \<lparr> cfg_host = Some ''pgbouncer'', cfg_user = Some ''tenant_acme'',
     cfg_password = Some ''secret'', cfg_database = Some ''app'',
     cfg_schema = Some ''tenant_acme'', cfg_poolMode = Some ''session_mode'' \<rparr>"

definition acme_tenants :: "unit tenants" where
  "acme_tenants = new_Tenants (postgres_secrets_manager None None) ()
      [''/tenants/acme/postgres/connection'' \<mapsto> acme_descriptor]"

text \<open>The same role after a first \<open>getClientFor("acme")\<close> of the Schema or Database
  strategy: one pool, cached, with the client still checked out (\<open>acme_tenants_busy\<close>) or
  released (\<open>acme_tenants_cached\<close>).\<close>

definition acme_tenants_busy :: "unit tenants" where
  "acme_tenants_busy =
     acme_tenants\<lparr>pools := [(''acme'', 0)],
                  heap := [\<lparr>config = acme_descriptor, ending = False, ended = False, checked_out = 1\<rparr>]\<rparr>"

definition acme_tenants_cached :: "unit tenants" where
  "acme_tenants_cached =
     acme_tenants\<lparr>pools := [(''acme'', 0)],
                  heap := [\<lparr>config = acme_descriptor, ending = False, ended = False, checked_out = 0\<rparr>]\<rparr>"

text \<open>What the claims about \<open>end\<close> say of a later \<open>getClientFor\<close>: it creates a fresh pool (one
  more pool exists, the ones that existed are as they were, the map sends the tenant to the
  new pool, which is built from the stored descriptor and is open), or it keeps to the pool
  that is cached (no pool is created and the map is as it was). The error with which
  \<open>pool.connect()\<close> is rejected once \<open>end\<close> was called on the pool is \<open>pool_is_ending\<close>.\<close>

definition creates_fresh_pool ::
  "('s tenants \<Rightarrow> (error + nat) \<times> 's tenants) \<Rightarrow> string \<Rightarrow> pool_config \<Rightarrow> 's tenants \<Rightarrow> bool" where
  "creates_fresh_pool getClient tenantId cfg w =
     (case getClient w of
        (r, w') \<Rightarrow>
          length (heap w') = Suc (length (heap w)) \<and> take (length (heap w)) (heap w') = heap w
          \<and> map_of (pools w') tenantId = Some (length (heap w))
          \<and> config (heap w' ! length (heap w)) = cfg \<and> \<not> ending (heap w' ! length (heap w)))"

definition keeps_to_cached_pool ::
  "('s tenants \<Rightarrow> (error + nat) \<times> 's tenants) \<Rightarrow> 's tenants \<Rightarrow> bool" where
  "keeps_to_cached_pool getClient w =
     (case getClient w of (r, w') \<Rightarrow> length (heap w') = length (heap w) \<and> pools w' = pools w)"

definition pool_is_ending :: error where
  "pool_is_ending = DriverError ''Cannot use a pool after calling end on the pool''"

text \<open>A role whose pool map has an entry for the tenant id \<open>""\<close> (after
  \<open>getClientFor("")\<close> with a descriptor stored for it), and the roles above after a call of
  \<open>end\<close>: \<open>end("acme")\<close> with the client checked out and after its release, \<open>end("acme")\<close>
  and \<open>end()\<close> with the client released, \<open>end("")\<close>.\<close>

definition unnamed_tenants_cached :: "unit tenants" where
  "unnamed_tenants_cached =
     (new_Tenants (postgres_secrets_manager None None) ()
        [''/tenants//postgres/connection'' \<mapsto> acme_descriptor])
       \<lparr>pools := [([], 0)],
        heap := [\<lparr>config = acme_descriptor, ending = False, ended = False, checked_out = 0\<rparr>]\<rparr>"

definition acme_while_ending :: "unit tenants" where
  "acme_while_ending = snd (Tenants_end (Some ''acme'') acme_tenants_busy)"

definition acme_after_end_all :: "unit tenants" where
  "acme_after_end_all = snd (Tenants_end None acme_tenants_cached)"

definition unnamed_after_end :: "unit tenants" where
  "unnamed_after_end = snd (Tenants_end (Some []) unnamed_tenants_cached)"

definition acme_after_end :: "unit tenants" where
  "acme_after_end = snd (Tenants_end (Some ''acme'') acme_tenants_cached)"

definition acme_after_release :: "unit tenants" where
  "acme_after_release = Pool_release 0 acme_while_ending"

text \<open>A server that rejects exactly the queries with one of the given texts.\<close>

definition fails_on :: "sql list \<Rightarrow> (sql, unit) exec" where
  "fails_on texts c d =
     (case c of
        Query text \<Rightarrow> if text \<in> set texts then (Inl (DriverError text), d) else (Inr [], d)
      | _ \<Rightarrow> (Inr [], d))"

text \<open>A tenant id in which each kind of quote occurs, written twice.\<close>

definition obrien :: string where
  "obrien = ''o'' @ [sq, sq] @ ''brien'' @ [dq, dq]"

text \<open>A PgBouncer Tenants role whose tenant \<open>acme\<close> is stored with \<open>transaction_mode\<close>.\<close>

definition acme_pgbouncer_tenants :: "unit tenants" where
  "acme_pgbouncer_tenants = new_Tenants (postgres_secrets_manager None None) ()
      [''/tenants/acme/postgres/connection'' \<mapsto> acme_descriptor\<lparr>cfg_poolMode := Some ''transaction_mode''\<rparr>]"

definition empty_world :: "(sql, unit) world" where
  "empty_world = \<lparr> db = (), events = [], console = [], secrets = Map.empty \<rparr>"

definition pgbouncer_management :: "string \<Rightarrow> database_management" where
  "pgbouncer_management mode =
     \<lparr> poolConfig = \<lparr> cfg_host = Some ''pgbouncer'', cfg_user = Some ''postgres'',
                      cfg_password = Some ''postgres'', cfg_database = Some ''postgres'',
                      cfg_schema = None, cfg_poolMode = Some mode \<rparr>,
       database_prefix = ''tenant_'', database_template = None,
       role_prefix = Some ''tenant_'', generatePassword = None,
       schemas_names = [''public''], createIfNotExists = True, useForceOnDelete = False,
       secretsManager = postgres_secrets_manager None None \<rparr>"

definition redis_with_one_key :: "unit rexec" where
  "redis_with_one_key c d =
     (case c of KEYS _ \<Rightarrow> (Inr [''tenant:acme:k''], d) | _ \<Rightarrow> (Inr [], d))"

definition empty_redis_world :: "unit redis_world" where
  "empty_redis_world = \<lparr> redis = (), steps = [], redis_secrets = Map.empty \<rparr>"



text \<open>A database with one tenant table, \<open>public.orders\<close>, no role and no policy yet, and an
  RLS Management instance with \<open>autoSetup\<close> enabled.\<close>

definition shop_db :: pg where
  "shop_db = \<lparr> live = \<lparr> roles = [], policies = [], row_security = [] \<rparr>, saved = None,
               current_schema = ''public'',
               sequences = [(''public'', ''orders'', ''orders_id_seq'')],
               columns = [(''public'', ''orders'', ''tenant_id'')] \<rparr>"

definition shop_world :: "(rls_stmt, pg) world" where
  "shop_world = \<lparr> db = shop_db, events = [], console = [], secrets = Map.empty \<rparr>"

definition orders_table :: rls_table where
  "orders_table = \<lparr> t_name = ''orders'', t_schema = None, t_tenantIdColumn = None \<rparr>"

definition rls_with_autoSetup :: rls_management where
  "rls_with_autoSetup = \<lparr> tables = None, tenantColumn = ''tenant_id'', autoDetectTables = True,
                          autoSetup = True, forceRlsOnTableOwner = True \<rparr>"




section \<open>Secret paths\<close>

lemma GetSubstitution_no_dollar:
  "CHR ''$'' \<notin> set template \<Longrightarrow> GetSubstitution m b a template = template"
  by (induction m b a template rule: GetSubstitution.induct) auto

lemma js_replace_no_dollar:
  "CHR ''$'' \<notin> set repl \<Longrightarrow> js_replace s pat repl = replace_literally s pat repl"
  by (simp add: js_replace_def replace_literally_def GetSubstitution_no_dollar
           split: option.splits)

text \<open>
  Claim C6. The path of a tenant's secret is the pattern with \<open>{tenantId}\<close> replaced by the
  tenant id (and \<open>{resourceId}\<close> by the resource id when the resource carries one). The
  code calls \<open>String.replace\<close> with the tenant id as the replacement text, so a tenant id
  holding a substitution pattern is not inserted as it is: for the resource without an id
  and the default pattern, the tenant \<open>a$$b\<close> gets the path of the tenant \<open>a$b\<close>, and the
  tenant \<open>a$&b\<close> gets a path that still holds the placeholder.
\<close>

theorem getPath_dollar_tenant_id:
  "getPath (postgres_secrets_manager None None) ''a$$b'' = ''/tenants/a$b/postgres/connection''
   \<and> getPath (postgres_secrets_manager None None) ''a$$b''
       = getPath (postgres_secrets_manager None None) ''a$b''
   \<and> getPath (postgres_secrets_manager None None) ''a$&b''
       = ''/tenants/a{tenantId}b/postgres/connection''
   \<and> replace_literally PG_DEFAULT_SECRETS_PATTERN ''{tenantId}'' ''a$$b''
       = ''/tenants/a$$b/postgres/connection''"
  by (simp add: getPath_def postgres_secrets_manager_def new_TenantsSecretsManager_def
        PostgresResource_getPattern_def PG_DEFAULT_SECRETS_PATTERN_def truthy_def or_else_def
        js_replace_def replace_literally_def)


section \<open>Pools per tenant\<close>

lemma acme_path:
  "getPath (postgres_secrets_manager None None) ''acme'' = ''/tenants/acme/postgres/connection''"
  by (simp add: getPath_def postgres_secrets_manager_def new_TenantsSecretsManager_def
        PostgresResource_getPattern_def PG_DEFAULT_SECRETS_PATTERN_def truthy_def or_else_def
        js_replace_def)

text \<open>
  Claim C1. At most one pool is ever created for a tenant, the first call caching it and
  the later ones reusing it. \<open>PostgresDatabaseTenants\<close> does so (third conjunct: two calls,
  one pool, cached). \<open>PgBouncerSchemaTenants\<close> and \<open>PgBouncerDatabaseTenants\<close> never store
  the pool that \<open>initTenantPool\<close> returns in \<open>this.pools\<close>: two calls of \<open>getClientFor\<close> for
  the tenant \<open>acme\<close> return clients of two different pools, two pools exist, and the map is
  still empty.
\<close>

theorem pgbouncer_getClientFor_creates_a_pool_per_call:
  "(case PgBouncerSchema_getClientFor always_ok ''acme'' acme_tenants of
      (r1, w1) \<Rightarrow> (case PgBouncerSchema_getClientFor always_ok ''acme'' w1 of
         (r2, w2) \<Rightarrow> (r1, r2, length (heap w2), pools w2))) = (Inr 0, Inr 1, 2, [])
   \<and> (case PgBouncerDatabase_getClientFor always_ok ''acme'' acme_tenants of
      (r1, w1) \<Rightarrow> (case PgBouncerDatabase_getClientFor always_ok ''acme'' w1 of
         (r2, w2) \<Rightarrow> (r1, r2, length (heap w2), pools w2))) = (Inr 0, Inr 1, 2, [])
   \<and> (case Database_getClientFor always_ok ''acme'' acme_tenants of
      (r1, w1) \<Rightarrow> (case Database_getClientFor always_ok ''acme'' w1 of
         (r2, w2) \<Rightarrow> (r1, r2, length (heap w2), pools w2))) = (Inr 0, Inr 0, 1, [(''acme'', 0)])"
  by (simp add: PgBouncerSchema_getClientFor_def PgBouncerSchema_initTenantPool_def
      PgBouncerDatabase_getClientFor_def PgBouncerDatabase_initTenantPool_def
      Database_getClientFor_def initTenantPool_def
      acme_tenants_def new_Tenants_def secrets_get_def acme_path new_Pool_def Pool_connect_def
      perform_def always_ok_def acme_descriptor_def map_get_def truthy_def Let_def)


subsection \<open>Ending pools\<close>

lemma Pool_end_frame:
  "Pool_end h w = (r, w') \<Longrightarrow>
     pools w' = pools w \<and> length (heap w') = length (heap w) \<and> secrets w' = secrets w
     \<and> manager w' = manager w \<and> awaiting w' = awaiting w"
  by (auto simp: Pool_end_def split: if_splits)

lemma end_each_frame:
  "end_each hs w = (r, w') \<Longrightarrow>
     pools w' = pools w \<and> length (heap w') = length (heap w) \<and> secrets w' = secrets w
     \<and> manager w' = manager w"
proof (induction hs arbitrary: w)
  case Nil
  then show ?case by simp
next
  case (Cons a hs)
  show ?case
  proof (cases "ended (heap w ! a)")
    case True
    with Cons show ?thesis by simp
  next
    case False
    obtain r1 w1 where p: "Pool_end a w = (r1, w1)" by (cases "Pool_end a w")
    note f = Pool_end_frame[OF p]
    show ?thesis
    proof (cases r1)
      case Resolved
      with Cons.prems False p have "end_each hs w1 = (r, w')" by simp
      from Cons.IH[OF this] f show ?thesis by simp
    next
      case (Rejected e)
      with Cons.prems False p f show ?thesis by auto
    next
      case Pending
      with Cons.prems False p f show ?thesis by auto
    qed
  qed
qed

lemma end_each_idle:
  assumes "\<forall>h\<in>set hs. h < length (heap w)
             \<and> (\<not> ending (heap w ! h) \<and> \<not> ended (heap w ! h) \<and> checked_out (heap w ! h) = 0
                \<or> ending (heap w ! h) \<and> ended (heap w ! h))"
  shows "\<exists>w'. end_each hs w = (Resolved, w') \<and> length (heap w') = length (heap w)
           \<and> (\<forall>h<length (heap w).
                 ending (heap w' ! h) = (ending (heap w ! h) \<or> h \<in> set hs)
               \<and> ended (heap w' ! h) = (ended (heap w ! h) \<or> h \<in> set hs)
               \<and> checked_out (heap w' ! h) = checked_out (heap w ! h))"
  using assms
proof (induction hs arbitrary: w)
  case Nil
  then show ?case by simp
next
  case (Cons a hs)
  show ?case
  proof (cases "ended (heap w ! a)")
    case True
    with Cons.prems have e: "ending (heap w ! a)" "a < length (heap w)" by auto
    from Cons.prems have "\<forall>h\<in>set hs. h < length (heap w)
             \<and> (\<not> ending (heap w ! h) \<and> \<not> ended (heap w ! h) \<and> checked_out (heap w ! h) = 0
                \<or> ending (heap w ! h) \<and> ended (heap w ! h))" by simp
    from Cons.IH[OF this] obtain w' where
      w': "end_each hs w = (Resolved, w')" "length (heap w') = length (heap w)"
          "\<forall>h<length (heap w).
                 ending (heap w' ! h) = (ending (heap w ! h) \<or> h \<in> set hs)
               \<and> ended (heap w' ! h) = (ended (heap w ! h) \<or> h \<in> set hs)
               \<and> checked_out (heap w' ! h) = checked_out (heap w ! h)"
      by blast
    from w' True e show ?thesis by auto
  next
    case False
    with Cons.prems have o: "\<not> ending (heap w ! a)" "checked_out (heap w ! a) = 0" "a < length (heap w)"
      by auto
    define w1 where "w1 = w\<lparr>heap := (heap w)[a := (heap w ! a)\<lparr>ending := True, ended := True\<rparr>],
                        events := events w @ [PoolEnd a]\<rparr>"
    have p: "Pool_end a w = (Resolved, w1)" using o by (simp add: Pool_end_def w1_def)
    have n: "\<forall>h<length (heap w).
                 ending (heap w1 ! h) = (ending (heap w ! h) \<or> h = a)
               \<and> ended (heap w1 ! h) = (ended (heap w ! h) \<or> h = a)
               \<and> checked_out (heap w1 ! h) = checked_out (heap w ! h)"
      using o by (auto simp: w1_def nth_list_update)
    have l: "length (heap w1) = length (heap w)" by (simp add: w1_def)
    have "\<forall>h\<in>set hs. h < length (heap w1)
             \<and> (\<not> ending (heap w1 ! h) \<and> \<not> ended (heap w1 ! h) \<and> checked_out (heap w1 ! h) = 0
                \<or> ending (heap w1 ! h) \<and> ended (heap w1 ! h))"
      using Cons.prems n l by auto
    from Cons.IH[OF this] obtain w' where
      w': "end_each hs w1 = (Resolved, w')" "length (heap w') = length (heap w1)"
          "\<forall>h<length (heap w1).
                 ending (heap w' ! h) = (ending (heap w1 ! h) \<or> h \<in> set hs)
               \<and> ended (heap w' ! h) = (ended (heap w1 ! h) \<or> h \<in> set hs)
               \<and> checked_out (heap w' ! h) = checked_out (heap w1 ! h)"
      by blast
    have r1: "end_each (a # hs) w = (Resolved, w')" using False p w'(1) by simp
    have r2: "length (heap w') = length (heap w)" using w'(2) l by simp
    have r3: "\<forall>h<length (heap w).
                 ending (heap w' ! h) = (ending (heap w ! h) \<or> h \<in> set (a # hs))
               \<and> ended (heap w' ! h) = (ended (heap w ! h) \<or> h \<in> set (a # hs))
               \<and> checked_out (heap w' ! h) = checked_out (heap w ! h)"
      using w'(3) n l by auto
    from r1 r2 r3 show ?thesis by (intro exI[of _ w'] conjI)
  qed
qed

lemma fresh_pool_Database:
  assumes "map_of (pools w1) tenantId = None" "secrets_get (manager w1) tenantId w1 = Inr cfg"
  shows "creates_fresh_pool (Database_getClientFor exec tenantId) tenantId cfg w1"
  using assms
  by (auto simp: creates_fresh_pool_def Database_getClientFor_def initTenantPool_def new_Pool_def
        Pool_connect_def perform_def AList.update_conv' nth_append split: prod.splits sum.splits)

lemma fresh_pool_Schema:
  assumes "map_of (pools w1) tenantId = None" "secrets_get (manager w1) tenantId w1 = Inr cfg"
  shows "creates_fresh_pool (Schema_getClientFor exec tenantId) tenantId cfg w1"
  using assms
  by (auto simp: creates_fresh_pool_def Schema_getClientFor_def initTenantPool_def new_Pool_def
        Pool_connect_def Pool_release_def perform_def AList.update_conv' nth_append Let_def
        split: prod.splits sum.splits)

lemma cached_pool_Database:
  assumes "map_of (pools w1) tenantId = Some h" "h < length (heap w1)"
  shows "keeps_to_cached_pool (Database_getClientFor exec tenantId) w1"
  using assms
  by (auto simp: keeps_to_cached_pool_def Database_getClientFor_def Pool_connect_def perform_def
        split: prod.splits sum.splits)

lemma ending_pool_Database:
  assumes "map_of (pools w1) tenantId = Some h" "ending (heap w1 ! h)"
  shows "Database_getClientFor exec tenantId w1 = (Inl pool_is_ending, w1)"
  using assms by (simp add: Database_getClientFor_def Pool_connect_def pool_is_ending_def)

lemma ending_pool_Schema:
  assumes "map_of (pools w1) tenantId = Some h" "ending (heap w1 ! h)"
          "secrets_get (manager w1) tenantId w1 = Inr cfg"
  shows "Schema_getClientFor exec tenantId w1 = (Inl pool_is_ending, w1)"
  using assms
  by (simp add: Schema_getClientFor_def Pool_connect_def AList.update_triv pool_is_ending_def)

lemma cached_pool_Schema:
  assumes "map_of (pools w1) tenantId = Some h" "h < length (heap w1)"
  shows "keeps_to_cached_pool (Schema_getClientFor exec tenantId) w1"
proof (cases "secrets_get (manager w1) tenantId w1")
  case (Inl e)
  then show ?thesis by (simp add: keeps_to_cached_pool_def Schema_getClientFor_def)
next
  case (Inr poolConfig)
  show ?thesis
  proof (cases "ending (heap w1 ! h)")
    case True
    with assms Inr show ?thesis
      by (simp add: keeps_to_cached_pool_def Schema_getClientFor_def Pool_connect_def AList.update_triv)
  next
    case False
    with assms Inr show ?thesis
      by (auto simp: keeps_to_cached_pool_def Schema_getClientFor_def Pool_connect_def
          Pool_release_def perform_def AList.update_triv Let_def split: prod.splits sum.splits)
  qed
qed

lemma end_of_idle_pool:
  assumes "tenantId \<noteq> []" "map_of (pools w) tenantId = Some h" "\<not> ending (heap w ! h)"
      "checked_out (heap w ! h) = 0" "h < length (heap w)"
  shows "\<exists>w1. Tenants_end (Some tenantId) w = (Resolved, w1)
           \<and> ending (heap w1 ! h) \<and> ended (heap w1 ! h)
           \<and> map_of (pools w1) tenantId = None
           \<and> secrets w1 = secrets w \<and> manager w1 = manager w"
  using assms
  by (simp add: Tenants_end_def truthy_def Pool_end_def AList.delete_conv')

lemma end_of_busy_pool:
  assumes "tenantId \<noteq> []" "map_of (pools w) tenantId = Some h" "\<not> ending (heap w ! h)"
      "checked_out (heap w ! h) \<noteq> 0" "h < length (heap w)"
  shows "\<exists>w1. Tenants_end (Some tenantId) w = (Pending, w1)
           \<and> ending (heap w1 ! h) \<and> ended (heap w1 ! h) = ended (heap w ! h)
           \<and> checked_out (heap w1 ! h) = checked_out (heap w ! h)
           \<and> length (heap w1) = length (heap w)
           \<and> pools w1 = pools w
           \<and> map_of (awaiting w1) h = Some (DeleteEntry tenantId)
           \<and> secrets w1 = secrets w \<and> manager w1 = manager w"
  using assms
  by (simp add: Tenants_end_def truthy_def Pool_end_def AList.update_conv')

lemma last_release:
  assumes "ending (heap w ! h)" "\<not> ended (heap w ! h)" "checked_out (heap w ! h) = Suc k"
      "h < length (heap w)" "map_of (awaiting w) h = Some (DeleteEntry tenantId)"
  shows "ended (heap ((Pool_release h ^^ Suc k) w) ! h)
       \<and> map_of (pools ((Pool_release h ^^ Suc k) w)) tenantId = None
       \<and> secrets ((Pool_release h ^^ Suc k) w) = secrets w
       \<and> manager ((Pool_release h ^^ Suc k) w) = manager w"
  using assms
proof (induction k arbitrary: w)
  case 0
  then show ?case
    by (simp add: Pool_release_def resume_end_def Let_def AList.delete_conv')
next
  case (Suc k)
  define w1 where "w1 = Pool_release h w"
  have s: "w1 = w\<lparr>heap := (heap w)[h := (heap w ! h)\<lparr>checked_out := Suc k\<rparr>],
                  events := events w @ [Release]\<rparr>"
    using Suc.prems by (simp add: w1_def Pool_release_def Let_def)
  have p: "ending (heap w1 ! h)" "\<not> ended (heap w1 ! h)" "checked_out (heap w1 ! h) = Suc k"
      "h < length (heap w1)" "map_of (awaiting w1) h = Some (DeleteEntry tenantId)"
    using Suc.prems by (simp_all add: s)
  have "(Pool_release h ^^ Suc (Suc k)) w = (Pool_release h ^^ Suc k) w1"
    by (simp add: w1_def funpow_swap1)
  with Suc.IH[OF p] show ?case by (simp add: s)
qed

text \<open>Two cases that the statement below leaves aside: an empty tenant id is falsy, so \<open>end("")\<close>
  is \<open>end()\<close>; and \<open>end(tenantId)\<close> for a pool on which \<open>end\<close> was called before is rejected by
  the pool, with the entry left in the map.\<close>

lemma end_with_empty_tenantId:
  "Tenants_end (Some []) w = Tenants_end None w"
  by (simp add: Tenants_end_def truthy_def)

lemma end_of_an_ending_pool:
  assumes "tenantId \<noteq> []" "map_of (pools w) tenantId = Some h" "ending (heap w ! h)"
  shows "Tenants_end (Some tenantId) w = (Rejected (DriverError ''Called end on pool more than once''), w)"
  using assms by (simp add: Tenants_end_def truthy_def Pool_end_def)

lemma acme_secret:
  "secrets_get (manager acme_tenants_cached) ''acme'' acme_tenants_cached = Inr acme_descriptor"
  "secrets_get (manager acme_tenants_busy) ''acme'' acme_tenants_busy = Inr acme_descriptor"
  by (simp_all add: acme_tenants_cached_def acme_tenants_busy_def acme_tenants_def new_Tenants_def
        secrets_get_def acme_path)

text \<open>
  Claim C10, for a tenant whose pool is cached and whose descriptor is stored.
  \<open>end(tenantId)\<close>, for a non-empty tenant id and a pool on which \<open>end\<close> was not called before,
  calls \<open>pool.end()\<close>. With no client checked out the pool is ended and the entry deleted, so a
  later \<open>getClientFor(tenantId)\<close> of either role creates a fresh pool. With clients checked out
  the call stays pending: the pool is not ended, the entry is still in the map, and
  \<open>getClientFor(tenantId)\<close> is rejected by the ending pool and creates nothing; when the last of
  these clients is released the pool is ended and the entry deleted, and from then on
  \<open>getClientFor(tenantId)\<close> creates a fresh pool. \<open>end()\<close> leaves every entry in the map and
  creates no pool, so a later \<open>getClientFor\<close> keeps to the cached pool; when every cached pool
  is open with no client checked out, \<open>end()\<close> ends them all and that \<open>getClientFor\<close> is
  rejected by the ended pool.
\<close>

theorem end_then_getClientFor:
  assumes wf: "\<forall>p\<in>snd ` set (pools w). p < length (heap w)"
      and cached: "map_of (pools w) tenantId = Some h"
      and secret: "secrets_get (manager w) tenantId w = Inr cfg"
  shows "(tenantId \<noteq> [] \<and> \<not> ending (heap w ! h) \<and> \<not> ended (heap w ! h) \<longrightarrow>
            (\<exists>r w1. Tenants_end (Some tenantId) w = (r, w1) \<and> ending (heap w1 ! h)
               \<and> (checked_out (heap w ! h) = 0 \<longrightarrow>
                     r = Resolved \<and> ended (heap w1 ! h) \<and> map_of (pools w1) tenantId = None
                   \<and> creates_fresh_pool (Database_getClientFor exec tenantId) tenantId cfg w1
                   \<and> creates_fresh_pool (Schema_getClientFor exec tenantId) tenantId cfg w1)
               \<and> (checked_out (heap w ! h) \<noteq> 0 \<longrightarrow>
                     r = Pending \<and> \<not> ended (heap w1 ! h) \<and> map_of (pools w1) tenantId = Some h
                   \<and> Database_getClientFor exec tenantId w1 = (Inl pool_is_ending, w1)
                   \<and> Schema_getClientFor exec tenantId w1 = (Inl pool_is_ending, w1)
                   \<and> (let w2 = (Pool_release h ^^ checked_out (heap w ! h)) w1
                      in ended (heap w2 ! h) \<and> map_of (pools w2) tenantId = None
                       \<and> creates_fresh_pool (Database_getClientFor exec tenantId) tenantId cfg w2
                       \<and> creates_fresh_pool (Schema_getClientFor exec tenantId) tenantId cfg w2))))
       \<and> (\<exists>r w1. Tenants_end None w = (r, w1) \<and> pools w1 = pools w
               \<and> length (heap w1) = length (heap w)
               \<and> keeps_to_cached_pool (Database_getClientFor exec tenantId) w1
               \<and> keeps_to_cached_pool (Schema_getClientFor exec tenantId) w1
               \<and> ((\<forall>p\<in>snd ` set (pools w). \<not> ending (heap w ! p) \<and> \<not> ended (heap w ! p)
                                             \<and> checked_out (heap w ! p) = 0) \<longrightarrow>
                     r = Resolved \<and> (\<forall>p\<in>snd ` set (pools w). ended (heap w1 ! p))
                   \<and> Database_getClientFor exec tenantId w1 = (Inl pool_is_ending, w1)
                   \<and> Schema_getClientFor exec tenantId w1 = (Inl pool_is_ending, w1)))"
proof (intro conjI impI)
  have in_map: "h \<in> snd ` set (pools w)" using cached by (force dest: map_of_SomeD)
  with wf have hl: "h < length (heap w)" by blast
  assume a: "tenantId \<noteq> [] \<and> \<not> ending (heap w ! h) \<and> \<not> ended (heap w ! h)"
  show "\<exists>r w1. Tenants_end (Some tenantId) w = (r, w1) \<and> ending (heap w1 ! h)
               \<and> (checked_out (heap w ! h) = 0 \<longrightarrow>
                     r = Resolved \<and> ended (heap w1 ! h) \<and> map_of (pools w1) tenantId = None
                   \<and> creates_fresh_pool (Database_getClientFor exec tenantId) tenantId cfg w1
                   \<and> creates_fresh_pool (Schema_getClientFor exec tenantId) tenantId cfg w1)
               \<and> (checked_out (heap w ! h) \<noteq> 0 \<longrightarrow>
                     r = Pending \<and> \<not> ended (heap w1 ! h) \<and> map_of (pools w1) tenantId = Some h
                   \<and> Database_getClientFor exec tenantId w1 = (Inl pool_is_ending, w1)
                   \<and> Schema_getClientFor exec tenantId w1 = (Inl pool_is_ending, w1)
                   \<and> (let w2 = (Pool_release h ^^ checked_out (heap w ! h)) w1
                      in ended (heap w2 ! h) \<and> map_of (pools w2) tenantId = None
                       \<and> creates_fresh_pool (Database_getClientFor exec tenantId) tenantId cfg w2
                       \<and> creates_fresh_pool (Schema_getClientFor exec tenantId) tenantId cfg w2))"
  proof (cases "checked_out (heap w ! h) = 0")
    case True
    from end_of_idle_pool[OF _ cached _ True hl] a obtain w1 where
      w1: "Tenants_end (Some tenantId) w = (Resolved, w1)" "ending (heap w1 ! h)" "ended (heap w1 ! h)"
          "map_of (pools w1) tenantId = None" "secrets w1 = secrets w" "manager w1 = manager w"
      by blast
    have s: "secrets_get (manager w1) tenantId w1 = Inr cfg"
      using secret w1(5,6) by (simp add: secrets_get_def)
    from w1 True fresh_pool_Database[OF w1(4) s, of exec] fresh_pool_Schema[OF w1(4) s, of exec]
    show ?thesis by (intro exI[of _ Resolved] exI[of _ w1]) simp
  next
    case False
    then obtain k where k: "checked_out (heap w ! h) = Suc k" by (cases "checked_out (heap w ! h)") auto
    from end_of_busy_pool[OF _ cached _ False hl] a obtain w1 where
      w1: "Tenants_end (Some tenantId) w = (Pending, w1)" "ending (heap w1 ! h)"
          "ended (heap w1 ! h) = ended (heap w ! h)"
          "checked_out (heap w1 ! h) = checked_out (heap w ! h)"
          "length (heap w1) = length (heap w)" "pools w1 = pools w"
          "map_of (awaiting w1) h = Some (DeleteEntry tenantId)"
          "secrets w1 = secrets w" "manager w1 = manager w"
      by blast
    have c: "map_of (pools w1) tenantId = Some h" using cached w1(6) by simp
    have s: "secrets_get (manager w1) tenantId w1 = Inr cfg"
      using secret w1(8,9) by (simp add: secrets_get_def)
    have ne: "\<not> ended (heap w1 ! h)" using a w1(3) by simp
    define w2 where "w2 = (Pool_release h ^^ Suc k) w1"
    from last_release[OF w1(2) ne _ _ w1(7), of k] w1(4,5) k hl
    have r: "ended (heap w2 ! h)" "map_of (pools w2) tenantId = None"
        "secrets w2 = secrets w1" "manager w2 = manager w1"
      by (simp_all add: w2_def)
    have s2: "secrets_get (manager w2) tenantId w2 = Inr cfg"
      using s r(3,4) by (simp add: secrets_get_def)
    from w1(1,2) ne c False k r(1,2)
      ending_pool_Database[OF c w1(2), of exec] ending_pool_Schema[OF c w1(2) s, of exec]
      fresh_pool_Database[OF r(2) s2, of exec] fresh_pool_Schema[OF r(2) s2, of exec]
    show ?thesis
      by (intro exI[of _ Pending] exI[of _ w1]) (simp add: w2_def Let_def del: funpow.simps)
  qed
next
  have in_map: "h \<in> snd ` set (pools w)" using cached by (force dest: map_of_SomeD)
  with wf have hl: "h < length (heap w)" by blast
  obtain r w1 where e: "Tenants_end None w = (r, w1)" by (cases "Tenants_end None w")
  then have ee: "end_each (map snd (pools w)) w = (r, w1)" by (simp add: Tenants_end_def truthy_def)
  note f = end_each_frame[OF ee]
  have c: "map_of (pools w1) tenantId = Some h" using cached f by simp
  have hl1: "h < length (heap w1)" using hl f by simp
  have idle: "r = Resolved \<and> (\<forall>p\<in>snd ` set (pools w). ended (heap w1 ! p))
                   \<and> Database_getClientFor exec tenantId w1 = (Inl pool_is_ending, w1)
                   \<and> Schema_getClientFor exec tenantId w1 = (Inl pool_is_ending, w1)"
    if i: "\<forall>p\<in>snd ` set (pools w). \<not> ending (heap w ! p) \<and> \<not> ended (heap w ! p)
                                             \<and> checked_out (heap w ! p) = 0"
  proof -
    have "\<forall>p\<in>set (map snd (pools w)). p < length (heap w)
             \<and> (\<not> ending (heap w ! p) \<and> \<not> ended (heap w ! p) \<and> checked_out (heap w ! p) = 0
                \<or> ending (heap w ! p) \<and> ended (heap w ! p))"
      using wf i by simp
    from end_each_idle[OF this] ee obtain
      r: "r = Resolved"
      and n: "\<forall>p<length (heap w).
                 ending (heap w1 ! p) = (ending (heap w ! p) \<or> p \<in> set (map snd (pools w)))
               \<and> ended (heap w1 ! p) = (ended (heap w ! p) \<or> p \<in> set (map snd (pools w)))
               \<and> checked_out (heap w1 ! p) = checked_out (heap w ! p)"
      by auto
    from n wf have all: "\<forall>p\<in>snd ` set (pools w). ending (heap w1 ! p) \<and> ended (heap w1 ! p)"
      by auto
    with in_map have eh: "ending (heap w1 ! h)" by blast
    have s: "secrets_get (manager w1) tenantId w1 = Inr cfg"
      using secret f by (simp add: secrets_get_def)
    from r all ending_pool_Database[OF c eh, of exec] ending_pool_Schema[OF c eh s, of exec]
    show ?thesis by blast
  qed
  from e f cached_pool_Database[OF c hl1, of exec] cached_pool_Schema[OF c hl1, of exec] idle
  show "\<exists>r w1. Tenants_end None w = (r, w1) \<and> pools w1 = pools w
               \<and> length (heap w1) = length (heap w)
               \<and> keeps_to_cached_pool (Database_getClientFor exec tenantId) w1
               \<and> keeps_to_cached_pool (Schema_getClientFor exec tenantId) w1
               \<and> ((\<forall>p\<in>snd ` set (pools w). \<not> ending (heap w ! p) \<and> \<not> ended (heap w ! p)
                                             \<and> checked_out (heap w ! p) = 0) \<longrightarrow>
                     r = Resolved \<and> (\<forall>p\<in>snd ` set (pools w). ended (heap w1 ! p))
                   \<and> Database_getClientFor exec tenantId w1 = (Inl pool_is_ending, w1)
                   \<and> Schema_getClientFor exec tenantId w1 = (Inl pool_is_ending, w1))"
    by (intro exI[of _ r] exI[of _ w1]) simp
qed

text \<open>The statement at the role of tenant \<open>acme\<close>, with the client released and with the client
  checked out.\<close>

theorem end_then_getClientFor_witness:
  "fst (Tenants_end (Some ''acme'') acme_tenants_cached) = Resolved
   \<and> ended (heap acme_after_end ! 0)
   \<and> map_of (pools acme_after_end) ''acme'' = None
   \<and> creates_fresh_pool (Database_getClientFor always_ok ''acme'') ''acme'' acme_descriptor acme_after_end
   \<and> creates_fresh_pool (Schema_getClientFor always_ok ''acme'') ''acme'' acme_descriptor acme_after_end
   \<and> fst (Tenants_end (Some ''acme'') acme_tenants_busy) = Pending
   \<and> ending (heap acme_while_ending ! 0) \<and> \<not> ended (heap acme_while_ending ! 0)
   \<and> map_of (pools acme_while_ending) ''acme'' = Some 0
   \<and> Database_getClientFor always_ok ''acme'' acme_while_ending = (Inl pool_is_ending, acme_while_ending)
   \<and> Schema_getClientFor always_ok ''acme'' acme_while_ending = (Inl pool_is_ending, acme_while_ending)
   \<and> ended (heap acme_after_release ! 0)
   \<and> map_of (pools acme_after_release) ''acme'' = None
   \<and> creates_fresh_pool (Database_getClientFor always_ok ''acme'') ''acme'' acme_descriptor acme_after_release
   \<and> creates_fresh_pool (Schema_getClientFor always_ok ''acme'') ''acme'' acme_descriptor acme_after_release
   \<and> fst (Tenants_end None acme_tenants_cached) = Resolved
   \<and> pools acme_after_end_all = [(''acme'', 0)] \<and> length (heap acme_after_end_all) = 1
   \<and> ended (heap acme_after_end_all ! 0)
   \<and> keeps_to_cached_pool (Database_getClientFor always_ok ''acme'') acme_after_end_all
   \<and> keeps_to_cached_pool (Schema_getClientFor always_ok ''acme'') acme_after_end_all
   \<and> Database_getClientFor always_ok ''acme'' acme_after_end_all = (Inl pool_is_ending, acme_after_end_all)
   \<and> Schema_getClientFor always_ok ''acme'' acme_after_end_all = (Inl pool_is_ending, acme_after_end_all)"
proof -
  have c: "\<forall>p\<in>snd ` set (pools acme_tenants_cached). p < length (heap acme_tenants_cached)"
          "map_of (pools acme_tenants_cached) ''acme'' = Some 0"
          "''acme'' \<noteq> [] \<and> \<not> ending (heap acme_tenants_cached ! 0) \<and> \<not> ended (heap acme_tenants_cached ! 0)"
          "checked_out (heap acme_tenants_cached ! 0) = 0"
          "\<forall>p\<in>snd ` set (pools acme_tenants_cached). \<not> ending (heap acme_tenants_cached ! p)
              \<and> \<not> ended (heap acme_tenants_cached ! p) \<and> checked_out (heap acme_tenants_cached ! p) = 0"
          "pools acme_tenants_cached = [(''acme'', 0)]" "length (heap acme_tenants_cached) = 1"
    by (simp_all add: acme_tenants_cached_def acme_tenants_def new_Tenants_def)
  have b: "\<forall>p\<in>snd ` set (pools acme_tenants_busy). p < length (heap acme_tenants_busy)"
          "map_of (pools acme_tenants_busy) ''acme'' = Some 0"
          "''acme'' \<noteq> [] \<and> \<not> ending (heap acme_tenants_busy ! 0) \<and> \<not> ended (heap acme_tenants_busy ! 0)"
          "checked_out (heap acme_tenants_busy ! 0) = Suc 0"
    by (simp_all add: acme_tenants_busy_def acme_tenants_def new_Tenants_def)
  note idle = end_then_getClientFor[OF c(1) c(2) acme_secret(1), of always_ok]
  note busy = end_then_getClientFor[OF b(1) b(2) acme_secret(2), of always_ok]
  from conjunct1[OF idle, THEN mp, OF c(3)] obtain r1 w1 where
    e1: "Tenants_end (Some ''acme'') acme_tenants_cached = (r1, w1)"
    and i1: "checked_out (heap acme_tenants_cached ! 0) = 0 \<longrightarrow>
               r1 = Resolved \<and> ended (heap w1 ! 0) \<and> map_of (pools w1) ''acme'' = None
             \<and> creates_fresh_pool (Database_getClientFor always_ok ''acme'') ''acme'' acme_descriptor w1
             \<and> creates_fresh_pool (Schema_getClientFor always_ok ''acme'') ''acme'' acme_descriptor w1"
    by (elim exE conjE)
  have a1: "acme_after_end = w1" by (simp add: acme_after_end_def e1)
  from i1[THEN mp, OF c(4)] have p1: "fst (Tenants_end (Some ''acme'') acme_tenants_cached) = Resolved
   \<and> ended (heap acme_after_end ! 0)
   \<and> map_of (pools acme_after_end) ''acme'' = None
   \<and> creates_fresh_pool (Database_getClientFor always_ok ''acme'') ''acme'' acme_descriptor acme_after_end
   \<and> creates_fresh_pool (Schema_getClientFor always_ok ''acme'') ''acme'' acme_descriptor acme_after_end"
    by (simp add: a1 e1)
  from conjunct1[OF busy, THEN mp, OF b(3)] obtain r2 w2 where
    e2: "Tenants_end (Some ''acme'') acme_tenants_busy = (r2, w2)"
    and g2: "ending (heap w2 ! 0)"
    and i2: "checked_out (heap acme_tenants_busy ! 0) \<noteq> 0 \<longrightarrow>
                     r2 = Pending \<and> \<not> ended (heap w2 ! 0) \<and> map_of (pools w2) ''acme'' = Some 0
                   \<and> Database_getClientFor always_ok ''acme'' w2 = (Inl pool_is_ending, w2)
                   \<and> Schema_getClientFor always_ok ''acme'' w2 = (Inl pool_is_ending, w2)
                   \<and> (let w3 = (Pool_release 0 ^^ checked_out (heap acme_tenants_busy ! 0)) w2
                      in ended (heap w3 ! 0) \<and> map_of (pools w3) ''acme'' = None
                       \<and> creates_fresh_pool (Database_getClientFor always_ok ''acme'') ''acme'' acme_descriptor w3
                       \<and> creates_fresh_pool (Schema_getClientFor always_ok ''acme'') ''acme'' acme_descriptor w3)"
    by (elim exE conjE)
  have a2: "acme_while_ending = w2" "acme_after_release = Pool_release 0 w2"
    by (simp_all add: acme_after_release_def acme_while_ending_def e2)
  have n2: "checked_out (heap acme_tenants_busy ! 0) \<noteq> 0" using b(4) by simp
  from i2[THEN mp, OF n2] g2 have p2: "fst (Tenants_end (Some ''acme'') acme_tenants_busy) = Pending
   \<and> ending (heap acme_while_ending ! 0) \<and> \<not> ended (heap acme_while_ending ! 0)
   \<and> map_of (pools acme_while_ending) ''acme'' = Some 0
   \<and> Database_getClientFor always_ok ''acme'' acme_while_ending = (Inl pool_is_ending, acme_while_ending)
   \<and> Schema_getClientFor always_ok ''acme'' acme_while_ending = (Inl pool_is_ending, acme_while_ending)
   \<and> ended (heap acme_after_release ! 0)
   \<and> map_of (pools acme_after_release) ''acme'' = None
   \<and> creates_fresh_pool (Database_getClientFor always_ok ''acme'') ''acme'' acme_descriptor acme_after_release
   \<and> creates_fresh_pool (Schema_getClientFor always_ok ''acme'') ''acme'' acme_descriptor acme_after_release"
    by (simp add: a2 e2 b(4) Let_def)
  from conjunct2[OF idle] obtain r3 w3 where
    e3: "Tenants_end None acme_tenants_cached = (r3, w3)"
    and f3: "pools w3 = pools acme_tenants_cached" "length (heap w3) = length (heap acme_tenants_cached)"
       "keeps_to_cached_pool (Database_getClientFor always_ok ''acme'') w3"
       "keeps_to_cached_pool (Schema_getClientFor always_ok ''acme'') w3"
    and i3: "(\<forall>p\<in>snd ` set (pools acme_tenants_cached). \<not> ending (heap acme_tenants_cached ! p)
                 \<and> \<not> ended (heap acme_tenants_cached ! p) \<and> checked_out (heap acme_tenants_cached ! p) = 0) \<longrightarrow>
                     r3 = Resolved \<and> (\<forall>p\<in>snd ` set (pools acme_tenants_cached). ended (heap w3 ! p))
                   \<and> Database_getClientFor always_ok ''acme'' w3 = (Inl pool_is_ending, w3)
                   \<and> Schema_getClientFor always_ok ''acme'' w3 = (Inl pool_is_ending, w3)"
    by (elim exE conjE)
  have a3: "acme_after_end_all = w3" by (simp add: acme_after_end_all_def e3)
  from i3[THEN mp, OF c(5)] f3 have p3: "fst (Tenants_end None acme_tenants_cached) = Resolved
   \<and> pools acme_after_end_all = [(''acme'', 0)] \<and> length (heap acme_after_end_all) = 1
   \<and> ended (heap acme_after_end_all ! 0)
   \<and> keeps_to_cached_pool (Database_getClientFor always_ok ''acme'') acme_after_end_all
   \<and> keeps_to_cached_pool (Schema_getClientFor always_ok ''acme'') acme_after_end_all
   \<and> Database_getClientFor always_ok ''acme'' acme_after_end_all = (Inl pool_is_ending, acme_after_end_all)
   \<and> Schema_getClientFor always_ok ''acme'' acme_after_end_all = (Inl pool_is_ending, acme_after_end_all)"
    by (simp add: a3 e3 c(6,7))
  from p1 p2 p3 show ?thesis by simp
qed

text \<open>
  Claim C10 as it is worded fails in three ways. While a client of the tenant's pool is
  checked out, \<open>end("acme")\<close> stays pending, the entry stays in the map and \<open>getClientFor("acme")\<close>
  is rejected without a pool being created. After \<open>end()\<close>, \<open>end("acme")\<close> is rejected by the pool
  (\<open>Called end on pool more than once\<close>) and the entry stays. And \<open>end("")\<close> takes the branch of
  \<open>end()\<close>: the entry of the tenant \<open>""\<close> stays, and \<open>getClientFor("")\<close> is rejected.
\<close>

theorem end_does_not_always_lead_to_a_fresh_pool:
  "fst (Tenants_end (Some ''acme'') acme_tenants_busy) = Pending
   \<and> pools acme_while_ending = [(''acme'', 0)]
   \<and> \<not> ended (heap acme_while_ending ! 0)
   \<and> Database_getClientFor always_ok ''acme'' acme_while_ending = (Inl pool_is_ending, acme_while_ending)
   \<and> Schema_getClientFor always_ok ''acme'' acme_while_ending = (Inl pool_is_ending, acme_while_ending)
   \<and> length (heap acme_while_ending) = 1
   \<and> fst (Tenants_end (Some ''acme'') acme_after_end_all)
        = Rejected (DriverError ''Called end on pool more than once'')
   \<and> pools (snd (Tenants_end (Some ''acme'') acme_after_end_all)) = [(''acme'', 0)]
   \<and> fst (Database_getClientFor always_ok ''acme'' (snd (Tenants_end (Some ''acme'') acme_after_end_all)))
        = Inl pool_is_ending
   \<and> length (heap (snd (Database_getClientFor always_ok ''acme''
                          (snd (Tenants_end (Some ''acme'') acme_after_end_all))))) = 1
   \<and> fst (Tenants_end (Some []) unnamed_tenants_cached) = Resolved
   \<and> pools unnamed_after_end = [([], 0)]
   \<and> fst (Database_getClientFor always_ok [] unnamed_after_end) = Inl pool_is_ending
   \<and> length (heap (snd (Database_getClientFor always_ok [] unnamed_after_end))) = 1"
  by (simp add: acme_while_ending_def acme_after_end_all_def unnamed_after_end_def
      unnamed_tenants_cached_def acme_tenants_busy_def acme_tenants_cached_def acme_tenants_def
      new_Tenants_def Tenants_end_def truthy_def Pool_end_def Database_getClientFor_def
      Schema_getClientFor_def Pool_connect_def pool_is_ending_def secrets_get_def acme_path
      AList.update_conv')


section \<open>Database isolation behind a transaction-pooling proxy\<close>

text \<open>
  Claim C4. With a PgBouncer pool configuration in \<open>transaction_mode\<close>, \<open>createTenant\<close> and
  \<open>deleteTenant\<close> of the Database strategy return the configuration error at once: no call
  reaches the driver, nothing is written to the console, and the secret store is as it
  was (the world is returned unchanged).
\<close>

theorem pgbouncer_database_transaction_mode_fails_fast:
  assumes "cfg_poolMode (poolConfig M) = Some ''transaction_mode''"
  shows "PgBouncerDatabaseManagement_createTenant exec M generated tenantId w
           = (Inl creation_not_supported, w)
       \<and> PgBouncerDatabaseManagement_deleteTenant exec M tenantId w
           = (Inl deletion_not_supported, w)"
  using assms
  by (simp add: PgBouncerDatabaseManagement_createTenant_def
        PgBouncerDatabaseManagement_deleteTenant_def)

theorem pgbouncer_database_transaction_mode_witness:
  "cfg_poolMode (poolConfig (pgbouncer_management ''transaction_mode'')) = Some ''transaction_mode''
   \<and> PgBouncerDatabaseManagement_createTenant always_ok (pgbouncer_management ''transaction_mode'')
        ''pw'' ''acme'' empty_world = (Inl creation_not_supported, empty_world)
   \<and> PgBouncerDatabaseManagement_deleteTenant always_ok (pgbouncer_management ''transaction_mode'')
        ''acme'' empty_world = (Inl deletion_not_supported, empty_world)"
  using pgbouncer_database_transaction_mode_fails_fast
          [of "pgbouncer_management ''transaction_mode''" always_ok "''pw''" "''acme''" empty_world]
  by (simp add: pgbouncer_management_def)


section \<open>Deleting a Redis ACL tenant\<close>

lemma management_keyspace_prefix:
  "buildKeyspacePrefix (acl_config (new_RedisAclManagement cc dang gen pat rid)) t
     = ''tenant:'' @ t @ '':''"
  by (cases cc) (simp_all add: buildKeyspacePrefix_def new_RedisAclManagement_def truthy_def)

text \<open>
  Claim C9. \<open>deleteTenant\<close> of a Redis ACL Management instance lists the keys matching
  \<open>tenant:<tenantId>:*\<close>; what it does from there on is a prefix of the plan "delete the
  listed keys, delete the ACL user, delete the stored descriptor", in that order, cut
  where a command was rejected, and it is the whole plan exactly when the call returns
  normally. So the ACL user is deleted only after the keys, and the descriptor only after
  the ACL user.
\<close>

theorem redis_acl_deleteTenant_order:
  assumes M: "M = new_RedisAclManagement clientConfig dangerous gen options_pattern rid"
      and run: "RedisAclManagement_deleteTenant rexec M tenantId w = (res, w')"
  shows "case fst (rexec (KEYS (''tenant:'' @ tenantId @ '':*'')) (redis w)) of
           Inl e \<Rightarrow> res = Inl e \<and> steps w' = steps w @ [Sent (KEYS (''tenant:'' @ tenantId @ '':*''))]
         | Inr keys \<Rightarrow>
             (\<exists>made. steps w' = steps w @ made \<and> prefix made (deletion_plan M tenantId keys)
                    \<and> (res = Inr () \<longleftrightarrow> made = deletion_plan M tenantId keys))"
proof -
  have p: "buildKeyspacePrefix (acl_config M) tenantId = ''tenant:'' @ tenantId @ '':''"
    unfolding M by (rule management_keyspace_prefix)
  show ?thesis
    using run
    apply (simp add: RedisAclManagement_deleteTenant_def RedisManagementBase_deleteTenant_def p
        send_def deletion_plan_def Let_def split: prod.splits sum.splits if_splits)
    apply (auto simp: prefix_def)
    done
qed

theorem redis_acl_deleteTenant_order_witness:
  "RedisAclManagement_deleteTenant redis_with_one_key
      (new_RedisAclManagement None False None None None) ''acme'' empty_redis_world
    = (Inr (), \<lparr> redis = (),
                 steps = [Sent (KEYS ''tenant:acme:*''), Sent (PIPELINE_DEL [''tenant:acme:k'']),
                          Sent (ACL_DELUSER ''acme''), SecretDeleted ''/tenants/acme/redis/connection''],
                 redis_secrets = Map.empty \<rparr>)
   \<and> deletion_plan (new_RedisAclManagement None False None None None) ''acme'' [''tenant:acme:k'']
       = [Sent (KEYS ''tenant:acme:*''), Sent (PIPELINE_DEL [''tenant:acme:k'']),
          Sent (ACL_DELUSER ''acme''), SecretDeleted ''/tenants/acme/redis/connection'']"
proof -
  obtain res w' where run: "RedisAclManagement_deleteTenant redis_with_one_key
      (new_RedisAclManagement None False None None None) ''acme'' empty_redis_world = (res, w')"
    by (cases "RedisAclManagement_deleteTenant redis_with_one_key
      (new_RedisAclManagement None False None None None) ''acme'' empty_redis_world")
  have p: "getPath (tenantsSecretsManager (new_RedisAclManagement None False None None None)) ''acme''
      = ''/tenants/acme/redis/connection''"
    by (simp add: getPath_def new_RedisAclManagement_def new_TenantsSecretsManager_def
        RedisResource_getPattern_def REDIS_DEFAULT_SECRETS_PATTERN_def truthy_def or_else_def
        js_replace_def)
  have plan: "deletion_plan (new_RedisAclManagement None False None None None) ''acme'' [''tenant:acme:k'']
       = [Sent (KEYS ''tenant:acme:*''), Sent (PIPELINE_DEL [''tenant:acme:k'']),
          Sent (ACL_DELUSER ''acme''), SecretDeleted ''/tenants/acme/redis/connection'']"
    by (simp add: deletion_plan_def p)
  have r: "res = Inr ()"  "redis w' = ()" "redis_secrets w' = Map.empty"
    using run
    by (auto simp: RedisAclManagement_deleteTenant_def RedisManagementBase_deleteTenant_def
        send_def redis_with_one_key_def empty_redis_world_def Let_def split: prod.splits sum.splits if_splits)
  from redis_acl_deleteTenant_order[OF refl run] r(1) plan
  have "steps w' = [Sent (KEYS ''tenant:acme:*''), Sent (PIPELINE_DEL [''tenant:acme:k'']),
          Sent (ACL_DELUSER ''acme''), SecretDeleted ''/tenants/acme/redis/connection'']"
    by (simp add: redis_with_one_key_def empty_redis_world_def)
  with r run plan show ?thesis by (cases w') simp
qed


section \<open>Tenant queries under transaction pooling\<close>

lemma try_rollback_effect:
  "events (try_rollback exec text w) = events w @ [Called (Query text)]
   \<and> console (try_rollback exec text w) = console w @ rollback_logged exec text (db w)
   \<and> world.more (try_rollback exec text w) = world.more w"
  by (simp add: try_rollback_def perform_def console_error_def rollback_logged_def
      split: prod.splits sum.splits)

lemma release_effect:
  "events (release v) = events v @ [Release] \<and> console (release v) = console v"
  by (simp add: release_def)

lemma same_pools:
  fixes v w :: "'s tenants"
  shows "world.more v = world.more w \<Longrightarrow> heap v = heap w"
  by (cases v, cases w) simp

lemma Pool_release_effect:
  fixes v w :: "'s tenants"
  assumes "\<not> ending (heap w ! h)" "world.more v = world.more w"
  shows "events (Pool_release h v) = events v @ [Release] \<and> console (Pool_release h v) = console v"
  using assms same_pools[OF assms(2)] by (simp add: Pool_release_def Let_def)

lemma Pool_release_open:
  "\<not> ending (heap v ! h) \<Longrightarrow>
     Pool_release h v = v\<lparr>heap := (heap v)[h := (heap v ! h)\<lparr>checked_out := checked_out (heap v ! h) - 1\<rparr>],
                          events := events v @ [Release]\<rparr>"
  by (simp add: Pool_release_def Let_def)

lemma run_as_transaction:
  assumes run: "run_as exec release_client (Some ''transaction_mode'') text w = (res, w')"
      and rel: "\<And>v. world.more v = world.more w \<Longrightarrow>
                  events (release_client v) = events v @ [Release] \<and> console (release_client v) = console v"
  shows "\<exists>evs logs. events w' = events w @ evs \<and> console w' = console w @ logs
           \<and> query_then_commit exec text (db w) = (res, evs, logs)"
proof (cases "exec (Query text) (db w)")
  case (Pair a d2)
  show ?thesis
  proof (cases a)
    case (Inl e)
    with Pair run show ?thesis
      by (auto simp: run_as_def query_then_commit_def perform_def try_rollback_effect rel)
  next
    case (Inr rows)
    show ?thesis
    proof (cases "exec (Query ''COMMIT;'') d2")
      case (Pair b d3)
      with \<open>exec (Query text) (db w) = (a, d2)\<close> Inr run show ?thesis
        by (cases b) (auto simp: run_as_def query_then_commit_def perform_def try_rollback_effect rel)
    qed
  qed
qed

lemma begin_transaction:
  assumes g: "(case perform exec (Query bsql) w of
               (Inl err, w2) \<Rightarrow> (Inl err, release_client (try_rollback exec ''ROLLBACK'' w2))
             | (Inr _, w2) \<Rightarrow> (Inr client, w2)) = (r, w1)"
      and rel: "\<And>v. world.more v = world.more w \<Longrightarrow>
                  events (release_client v) = events v @ [Release] \<and> console (release_client v) = console v"
  shows "case exec (Query bsql) (db w) of
           (Inl e, d1) \<Rightarrow> r = Inl e
              \<and> events w1 = events w @ [Called (Query bsql), Called (Query ''ROLLBACK''), Release]
              \<and> console w1 = console w @ rollback_logged exec ''ROLLBACK'' d1
         | (Inr x, d1) \<Rightarrow> r = Inr client \<and> events w1 = events w @ [Called (Query bsql)]
              \<and> console w1 = console w \<and> db w1 = d1 \<and> world.more w1 = world.more w"
  using g
  by (auto simp: perform_def try_rollback_effect rel split: prod.splits sum.splits)

lemma protocol_from_parts:
  assumes g: "(case perform exec (Query bsql) w0 of
               (Inl err, w2) \<Rightarrow> (Inl err, release_client (try_rollback exec ''ROLLBACK'' w2))
             | (Inr _, w2) \<Rightarrow> (Inr client, w2)) = (r, w1)"
    and q: "(case r of Inl e \<Rightarrow> (Inl e, w1)
             | Inr client \<Rightarrow> run_as exec release_client (Some ''transaction_mode'') text w1) = (res, w')"
    and rel: "\<And>v. world.more v = world.more w0 \<Longrightarrow>
                  events (release_client v) = events v @ [Release] \<and> console (release_client v) = console v"
  shows "\<exists>evs logs. events w' = events w0 @ evs \<and> console w' = console w0 @ logs
           \<and> transaction_protocol exec bsql text (db w0) = (res, evs, logs)"
proof (cases "exec (Query bsql) (db w0)")
  case (Pair a d1)
  note b = begin_transaction[OF g rel]
  show ?thesis
  proof (cases a)
    case (Inl e)
    with Pair b q show ?thesis by (auto simp: transaction_protocol_def)
  next
    case (Inr x)
    with Pair b have r: "r = Inr client" "events w1 = events w0 @ [Called (Query bsql)]"
      "console w1 = console w0" "db w1 = d1" "world.more w1 = world.more w0" by auto
    with q have "run_as exec release_client (Some ''transaction_mode'') text w1 = (res, w')" by simp
    from run_as_transaction[OF this] rel r Pair Inr show ?thesis
      by (auto simp: transaction_protocol_def)
  qed
qed

lemma opening_of_rls:
  "pgbouncer_rls_sql True tenantId
     = transaction_opening 10 [(''app.current_tenant'', tenantId), (''role'', ''tenant_role'')]"
  by (simp add: pgbouncer_rls_sql_def transaction_opening_def DEFAULT_SETTINGS_TENANT_FIELD_def
      DEFAULT_ROLE_def sq_def)

lemma opening_of_schema:
  "pgbouncer_schema_sql True schema = transaction_opening 12 [(''search_path'', schema)]"
  by (simp add: pgbouncer_schema_sql_def transaction_opening_def sq_def)

lemma rls_follows_protocol:
  assumes c: "exec (Connect 0) (db w) = (Inr c, d0)"
      and run: "PgBouncerRls_queryAs exec (Some ''transaction_mode'') tenantId text w = (res, w')"
  shows "\<exists>evs logs. events w' = events w @ Called (Connect 0) # evs \<and> console w' = console w @ logs
           \<and> transaction_protocol exec (pgbouncer_rls_sql True tenantId) text d0 = (res, evs, logs)"
proof -
  define w0 where "w0 = w\<lparr>db := d0, events := events w @ [Called (Connect 0)]\<rparr>"
  define bsql where "bsql = pgbouncer_rls_sql True tenantId"
  obtain r w1 where g: "PgBouncerRls_getClientFor exec (Some ''transaction_mode'') tenantId w = (r, w1)"
    by (cases "PgBouncerRls_getClientFor exec (Some ''transaction_mode'') tenantId w")
  then have b: "(case perform exec (Query bsql) w0 of
               (Inl err, w2) \<Rightarrow> (Inl err, release (try_rollback exec ''ROLLBACK'' w2))
             | (Inr _, w2) \<Rightarrow> (Inr 0, w2)) = (r, w1)"
    using c unfolding PgBouncerRls_getClientFor_def rollback_and_release_def w0_def bsql_def
    by (simp add: perform_def[of exec "Connect 0"])
  have q: "(case r of Inl e \<Rightarrow> (Inl e, w1) | Inr client \<Rightarrow> run_as exec release (Some ''transaction_mode'') text w1) = (res, w')"
    using run g by (simp add: PgBouncerRls_queryAs_def split: sum.splits)
  from protocol_from_parts[OF b q release_effect] show ?thesis by (simp add: w0_def bsql_def)
qed

lemma schema_follows_protocol:
  fixes w :: "'s tenants"
  assumes p: "map_of (pools w) tenantId = None"
      and s: "secrets_get (manager w) tenantId w = Inr cfg"
      and m: "cfg_poolMode cfg = Some ''transaction_mode''"
      and sc: "cfg_schema cfg = Some schema" "schema \<noteq> []"
      and c: "exec (Connect (length (heap w))) (db w) = (Inr c, d0)"
      and run: "PgBouncerSchema_queryAs exec tenantId text w = (res, w')"
  shows "\<exists>evs logs. events w' = events w @ Called (Connect (length (heap w))) # evs \<and> console w' = console w @ logs
           \<and> transaction_protocol exec (pgbouncer_schema_sql True schema) text d0 = (res, evs, logs)"
proof -
  define w0 where "w0 = w\<lparr>poolsMode := AList.update tenantId (Some ''transaction_mode'') (poolsMode w),
      tenantsSchemas := AList.update tenantId (Some schema) (tenantsSchemas w),
      db := d0, events := events w @ [Called (Connect (length (heap w)))],
      heap := heap w @ [\<lparr>config = cfg, ending = False, ended = False, checked_out = Suc 0\<rparr>]\<rparr>"
  define bsql where "bsql = pgbouncer_schema_sql True schema"
  define h where "h = length (heap w)"
  obtain r w1 where g: "PgBouncerSchema_getClientFor exec tenantId w = (r, w1)"
    by (cases "PgBouncerSchema_getClientFor exec tenantId w")
  then have b: "(case perform exec (Query bsql) w0 of
               (Inl err, w2) \<Rightarrow> (Inl err, Pool_release h (try_rollback exec ''ROLLBACK'' w2))
             | (Inr _, w2) \<Rightarrow> (Inr h, w2)) = (r, w1)"
    using p s m sc c unfolding w0_def bsql_def h_def
    by (simp add: PgBouncerSchema_getClientFor_def PgBouncerSchema_initTenantPool_def
        new_Pool_def Pool_connect_def map_get_def AList.update_conv' truthy_def Let_def
        perform_def[of exec "Connect _"])
  have open_pool: "\<not> ending (heap w0 ! h)" by (simp add: w0_def h_def)
  have rel: "\<And>v :: 's tenants. world.more v = world.more w0 \<Longrightarrow>
                  events (Pool_release h v) = events v @ [Release] \<and> console (Pool_release h v) = console v"
    by (rule Pool_release_effect[OF open_pool])
  have pm: "poolsMode w1 = poolsMode w0 \<and> (\<forall>x. r = Inr x \<longrightarrow> x = h)"
  proof (cases "exec (Query bsql) (db w0)")
    case (Pair a d1)
    show ?thesis
    proof (cases a)
      case (Inl e)
      have "heap (try_rollback exec ''ROLLBACK'' (w0\<lparr>db := d1, events := events w0 @ [Called (Query bsql)]\<rparr>)) = heap w0"
        using try_rollback_effect[of exec "''ROLLBACK''" "w0\<lparr>db := d1, events := events w0 @ [Called (Query bsql)]\<rparr>"]
        by (intro same_pools) simp
      with open_pool have "\<not> ending (heap (try_rollback exec ''ROLLBACK'' (w0\<lparr>db := d1, events := events w0 @ [Called (Query bsql)]\<rparr>)) ! h)"
        by simp
      from Pool_release_open[OF this] b Pair Inl show ?thesis
        by (auto simp: perform_def try_rollback_def console_error_def split: prod.splits sum.splits)
    next
      case (Inr x)
      with b Pair show ?thesis by (auto simp: perform_def)
    qed
  qed
  have q: "(case r of Inl e \<Rightarrow> (Inl e, w1) | Inr client \<Rightarrow> run_as exec (Pool_release h) (Some ''transaction_mode'') text w1) = (res, w')"
    using run g pm
    by (auto simp: PgBouncerSchema_queryAs_def w0_def map_get_def AList.update_conv' split: sum.splits prod.splits)
  from protocol_from_parts[OF b q rel] show ?thesis by (simp add: w0_def bsql_def h_def)
qed

text \<open>
  Claim C3. Under \<open>transaction_mode\<close>, once a connection is obtained, \<open>queryAs\<close> of
  \<open>PgBouncerRlsTenants\<close> and of \<open>PgBouncerSchemaTenants\<close> does what the transaction
  protocol says, whatever the server answers. The first statement is the text of
  \<open>transaction_opening\<close>: \<open>BEGIN;\<close> followed by one \<open>SELECT set_config('name', 'value', true);\<close>
  for each setting, which are \<open>app.current_tenant\<close> (the tenant id) and \<open>role\<close>
  (\<open>tenant_role\<close>) for the RLS variant and \<open>search_path\<close> (the schema) for the Schema
  variant. Then comes the query, then \<open>COMMIT;\<close>. When one of them is rejected a rollback is
  sent, a rejected rollback adds a line to the console and nothing else, and the result is
  the error of the step that was rejected. For the Schema variant the pooling mode and the
  schema are those of the tenant's stored descriptor (no pool is ever cached by this class,
  so the descriptor is read at each call).
\<close>

theorem pgbouncer_queryAs_follows_transaction_protocol:
  "(exec (Connect 0) (db w) = (Inr c, d0)
      \<and> PgBouncerRls_queryAs exec (Some ''transaction_mode'') tenantId text w = (res, w')
    \<longrightarrow> (\<exists>evs logs. events w' = events w @ Called (Connect 0) # evs
             \<and> console w' = console w @ logs
             \<and> transaction_protocol exec (transaction_opening 10 [(''app.current_tenant'', tenantId), (''role'', ''tenant_role'')]) text d0
                 = (res, evs, logs)))
   \<and> (map_of (pools v) tenantId = None
      \<and> secrets_get (manager v) tenantId v = Inr cfg
      \<and> cfg_poolMode cfg = Some ''transaction_mode''
      \<and> cfg_schema cfg = Some schema \<and> schema \<noteq> []
      \<and> exec' (Connect (length (heap v))) (db v) = (Inr c', d0')
      \<and> PgBouncerSchema_queryAs exec' tenantId text v = (res', v')
    \<longrightarrow> (\<exists>evs logs. events v' = events v @ Called (Connect (length (heap v))) # evs
             \<and> console v' = console v @ logs
             \<and> transaction_protocol exec' (transaction_opening 12 [(''search_path'', schema)]) text d0'
                 = (res', evs, logs)))"
  using rls_follows_protocol[of exec w c d0 tenantId "text" res w']
        schema_follows_protocol[of v tenantId cfg schema exec' c' d0' "text" res' v']
  unfolding opening_of_rls opening_of_schema
  by blast

theorem pgbouncer_queryAs_transaction_witness:
  "fst (PgBouncerRls_queryAs (fails_on [''SELECT 1'', ''ROLLBACK;'']) (Some ''transaction_mode'')
       ''acme'' ''SELECT 1'' empty_world) = Inl (DriverError ''SELECT 1'')
   \<and> events (snd (PgBouncerRls_queryAs (fails_on [''SELECT 1'', ''ROLLBACK;''])
                   (Some ''transaction_mode'') ''acme'' ''SELECT 1'' empty_world))
       = [Called (Connect 0), Called (Query (transaction_opening 10 [(''app.current_tenant'', ''acme''), (''role'', ''tenant_role'')])),
          Called (Query ''SELECT 1''), Called (Query ''ROLLBACK;''), Release]
   \<and> console (snd (PgBouncerRls_queryAs (fails_on [''SELECT 1'', ''ROLLBACK;''])
                   (Some ''transaction_mode'') ''acme'' ''SELECT 1'' empty_world))
       = [(''Error during rollback:'', Some (DriverError ''ROLLBACK;''))]
   \<and> fst (PgBouncerSchema_queryAs (fails_on [''COMMIT;'']) ''acme'' ''SELECT 1'' acme_pgbouncer_tenants)
       = Inl (DriverError ''COMMIT;'')
   \<and> events (snd (PgBouncerSchema_queryAs (fails_on [''COMMIT;'']) ''acme'' ''SELECT 1'' acme_pgbouncer_tenants))
       = [Called (Connect 0), Called (Query (transaction_opening 12 [(''search_path'', ''tenant_acme'')])),
          Called (Query ''SELECT 1''), Called (Query ''COMMIT;''), Called (Query ''ROLLBACK;''), Release]
   \<and> console (snd (PgBouncerSchema_queryAs (fails_on [''COMMIT;'']) ''acme'' ''SELECT 1'' acme_pgbouncer_tenants))
       = []"
proof -
  let ?e1 = "fails_on [''SELECT 1'', ''ROLLBACK;'']"
  let ?e2 = "fails_on [''COMMIT;'']"
  obtain res w' where r1: "PgBouncerRls_queryAs ?e1 (Some ''transaction_mode'')
       ''acme'' ''SELECT 1'' empty_world = (res, w')"
    by (cases "PgBouncerRls_queryAs ?e1 (Some ''transaction_mode'') ''acme'' ''SELECT 1'' empty_world")
  obtain res' v' where r2: "PgBouncerSchema_queryAs ?e2 ''acme'' ''SELECT 1'' acme_pgbouncer_tenants = (res', v')"
    by (cases "PgBouncerSchema_queryAs ?e2 ''acme'' ''SELECT 1'' acme_pgbouncer_tenants")
  have c1: "?e1 (Connect 0) (db empty_world) = (Inr [], ())" by (simp add: fails_on_def)
  have c2: "?e2 (Connect (length (heap acme_pgbouncer_tenants))) (db acme_pgbouncer_tenants) = (Inr [], ())"
    by (simp add: fails_on_def)
  have p: "map_of (pools acme_pgbouncer_tenants) ''acme'' = None"
    by (simp add: acme_pgbouncer_tenants_def new_Tenants_def)
  have s: "secrets_get (manager acme_pgbouncer_tenants) ''acme'' acme_pgbouncer_tenants
             = Inr (acme_descriptor\<lparr>cfg_poolMode := Some ''transaction_mode''\<rparr>)"
    by (simp add: acme_pgbouncer_tenants_def new_Tenants_def secrets_get_def acme_path)
  have m: "cfg_poolMode (acme_descriptor\<lparr>cfg_poolMode := Some ''transaction_mode''\<rparr>) = Some ''transaction_mode''"
          "cfg_schema (acme_descriptor\<lparr>cfg_poolMode := Some ''transaction_mode''\<rparr>) = Some ''tenant_acme''"
          "''tenant_acme'' \<noteq> []"
    by (simp_all add: acme_descriptor_def)
  have sel: "''SELECT 1'' \<noteq> transaction_opening 10 [(''app.current_tenant'', ''acme''), (''role'', ''tenant_role'')]"
            "''ROLLBACK;'' \<noteq> transaction_opening 10 [(''app.current_tenant'', ''acme''), (''role'', ''tenant_role'')]"
            "''COMMIT;'' \<noteq> transaction_opening 12 [(''search_path'', ''tenant_acme'')]"
    by (simp_all add: transaction_opening_def ln_def)
  have t1: "transaction_protocol ?e1 (transaction_opening 10 [(''app.current_tenant'', ''acme''), (''role'', ''tenant_role'')]) ''SELECT 1'' ()
      = (Inl (DriverError ''SELECT 1''),
         [Called (Query (transaction_opening 10 [(''app.current_tenant'', ''acme''), (''role'', ''tenant_role'')])),
          Called (Query ''SELECT 1''), Called (Query ''ROLLBACK;''), Release],
         [(''Error during rollback:'', Some (DriverError ''ROLLBACK;''))])"
    using sel by (simp add: transaction_protocol_def query_then_commit_def rollback_logged_def fails_on_def)
  have t2: "transaction_protocol ?e2 (transaction_opening 12 [(''search_path'', ''tenant_acme'')]) ''SELECT 1'' ()
      = (Inl (DriverError ''COMMIT;''),
         [Called (Query (transaction_opening 12 [(''search_path'', ''tenant_acme'')])),
          Called (Query ''SELECT 1''), Called (Query ''COMMIT;''), Called (Query ''ROLLBACK;''), Release],
         [])"
    using sel by (simp add: transaction_protocol_def query_then_commit_def rollback_logged_def fails_on_def)
  from pgbouncer_queryAs_follows_transaction_protocol[of ?e1 empty_world "[]" "()" "''acme''" "''SELECT 1''" res w'
             acme_pgbouncer_tenants "acme_descriptor\<lparr>cfg_poolMode := Some ''transaction_mode''\<rparr>"
             "''tenant_acme''" ?e2 "[]" "()" res' v'] c1 c2 p s m r1 r2 t1 t2
  have "res = Inl (DriverError ''SELECT 1'')"
       "events w' = events empty_world @ [Called (Connect 0),
                       Called (Query (transaction_opening 10 [(''app.current_tenant'', ''acme''), (''role'', ''tenant_role'')])),
                       Called (Query ''SELECT 1''), Called (Query ''ROLLBACK;''), Release]"
       "console w' = console empty_world @ [(''Error during rollback:'', Some (DriverError ''ROLLBACK;''))]"
       "res' = Inl (DriverError ''COMMIT;'')"
       "events v' = events acme_pgbouncer_tenants @ [Called (Connect (length (heap acme_pgbouncer_tenants))),
          Called (Query (transaction_opening 12 [(''search_path'', ''tenant_acme'')])),
          Called (Query ''SELECT 1''), Called (Query ''COMMIT;''), Called (Query ''ROLLBACK;''), Release]"
       "console v' = console acme_pgbouncer_tenants @ []"
    by auto
  then show ?thesis using r1 r2
    by (simp add: empty_world_def acme_pgbouncer_tenants_def new_Tenants_def)
qed


section \<open>Interpolated names and the shape of the statements\<close>

lemma skeleton_code_step:
  "c \<noteq> CHR 0x27 \<Longrightarrow> c \<noteq> CHR 0x22 \<Longrightarrow> c \<noteq> CHR ''-'' \<Longrightarrow> c \<noteq> CHR ''/'' \<Longrightarrow>
     skeleton Code (c # xs) = c # skeleton Code xs"
  by (cases xs) auto

lemma skeleton_open_constant: "skeleton Code (CHR 0x27 # xs) = CHR 0x27 # skeleton InConstant xs"
  by (cases xs) auto

lemma skeleton_open_name: "skeleton Code (CHR 0x22 # xs) = CHR 0x22 # skeleton InQuotedName xs"
  by (cases xs) auto

lemma skeleton_constant_skip:
  "c \<noteq> CHR 0x27 \<Longrightarrow> skeleton InConstant (c # xs) = skeleton InConstant xs"
  by (cases xs) auto

lemma skeleton_name_skip:
  "c \<noteq> CHR 0x22 \<Longrightarrow> skeleton InQuotedName (c # xs) = skeleton InQuotedName xs"
  by (cases xs) auto

lemma skeleton_constant_body:
  "pairs_only (CHR 0x27) s \<Longrightarrow> d \<noteq> CHR 0x27 \<Longrightarrow>
     skeleton InConstant (s @ CHR 0x27 # d # rest) = CHR 0x27 # skeleton Code (d # rest)"
proof (induction "CHR 0x27 :: char" s rule: pairs_only.induct)
  case 1
  then show ?case by simp
next
  case (2 c)
  then show ?case by simp
next
  case (3 c e cs)
  then show ?case by (auto simp: skeleton_constant_skip)
qed

lemma skeleton_constant_end:
  "pairs_only (CHR 0x27) s \<Longrightarrow> skeleton InConstant (s @ [CHR 0x27]) = [CHR 0x27]"
proof (induction "CHR 0x27 :: char" s rule: pairs_only.induct)
  case 1
  then show ?case by simp
next
  case (2 c)
  then show ?case by simp
next
  case (3 c e cs)
  then show ?case by (auto simp: skeleton_constant_skip)
qed

lemma skeleton_name_body:
  "pairs_only (CHR 0x22) s \<Longrightarrow> d \<noteq> CHR 0x22 \<Longrightarrow>
     skeleton InQuotedName (s @ CHR 0x22 # d # rest) = CHR 0x22 # skeleton Code (d # rest)"
proof (induction "CHR 0x22 :: char" s rule: pairs_only.induct)
  case 1
  then show ?case by simp
next
  case (2 c)
  then show ?case by simp
next
  case (3 c e cs)
  then show ?case by (auto simp: skeleton_name_skip)
qed

lemma skeleton_name_end:
  "pairs_only (CHR 0x22) s \<Longrightarrow> skeleton InQuotedName (s @ [CHR 0x22]) = [CHR 0x22]"
proof (induction "CHR 0x22 :: char" s rule: pairs_only.induct)
  case 1
  then show ?case by simp
next
  case (2 c)
  then show ?case by simp
next
  case (3 c e cs)
  then show ?case by (auto simp: skeleton_name_skip)
qed

lemma skeleton_code_plain:
  "plain s \<Longrightarrow> skeleton Code (s @ rest) = s @ skeleton Code rest"
  by (induction s) (simp_all add: plain_def skeleton_code_step)

lemma pairs_only_append:
  "pairs_only q a \<Longrightarrow> pairs_only q b \<Longrightarrow> pairs_only q (a @ b)"
proof (induction q a rule: pairs_only.induct)
  case (1 q)
  then show ?case by simp
next
  case (2 q c)
  then show ?case by (cases b) auto
next
  case (3 q c d cs)
  then show ?case by auto
qed

lemma pairs_only_without: "q \<notin> set s \<Longrightarrow> pairs_only q s"
  by (induction q s rule: pairs_only.induct) auto

lemma replicate_numeral_step: "replicate (numeral k) x = x # replicate (pred_numeral k) x"
  by (simp add: numeral_eq_Suc)

lemmas skeleton_rules = replicate_numeral_step skeleton_code_step skeleton_open_constant skeleton_open_name
  skeleton_constant_skip skeleton_name_skip
  skeleton_constant_body skeleton_constant_end skeleton_name_body skeleton_name_end
  skeleton_code_plain sq_def dq_def ln_def

lemma shape_of_settings:
  "pairs_only (CHR 0x27) tenantId \<Longrightarrow>
     skeleton Code (rls_settings_sql tenantId) = skeleton Code (rls_settings_sql [])"
  by (simp add: rls_settings_sql_def DEFAULT_SETTINGS_TENANT_FIELD_def DEFAULT_ROLE_def skeleton_rules)

lemma shape_of_pgbouncer_settings:
  "pairs_only (CHR 0x27) tenantId \<Longrightarrow>
     skeleton Code (pgbouncer_rls_sql in_transaction tenantId)
       = skeleton Code (pgbouncer_rls_sql in_transaction [])"
  by (simp add: pgbouncer_rls_sql_def DEFAULT_SETTINGS_TENANT_FIELD_def DEFAULT_ROLE_def skeleton_rules)

lemma shape_of_local_settings:
  "pairs_only (CHR 0x27) tenantId \<Longrightarrow>
     skeleton Code (render (SetTenantLocal tenantId)) = skeleton Code (render (SetTenantLocal []))"
  by (simp add: DEFAULT_SETTINGS_TENANT_FIELD_def DEFAULT_ROLE_def skeleton_rules)

lemma shape_of_delete:
  assumes "pairs_only (CHR 0x27) tenantId" "plain tableName" "\<forall>sch. schema = Some sch \<longrightarrow> plain sch"
      "pairs_only (CHR 0x22) col"
  shows "skeleton Code (render (DeleteRows schema tableName col tenantId))
       = skeleton Code (render (DeleteRows schema tableName col []))"
proof (cases "truthy schema")
  case True
  then obtain sch where "schema = Some sch" by (cases schema) (auto simp: truthy_def)
  with assms True show ?thesis by (simp add: skeleton_rules)
next
  case False
  with assms show ?thesis by (simp add: skeleton_rules)
qed

lemma shape_of_session:
  "pairs_only (CHR 0x27) tenantId \<Longrightarrow> pairs_only (CHR 0x27) schema \<Longrightarrow>
     skeleton Code (schema_session_sql tenantId (Some schema))
       = skeleton Code (schema_session_sql [] (Some []))"
  by (simp add: schema_session_sql_def generateDefaultTenantRoleName_def truthy_def
        DEFAULT_TENANT_ROLE_PREFIX_def interpolate_def skeleton_rules)

lemma shape_of_pgbouncer_session:
  "pairs_only (CHR 0x27) schema \<Longrightarrow>
     skeleton Code (pgbouncer_schema_sql in_transaction schema)
       = skeleton Code (pgbouncer_schema_sql in_transaction [])"
  by (simp add: pgbouncer_schema_sql_def skeleton_rules)

lemma shape_of_create_schema:
  "pairs_only (CHR 0x22) name \<Longrightarrow> skeleton Code (create_schema_sql name) = skeleton Code (create_schema_sql [])"
  by (simp add: create_schema_sql_def skeleton_rules)

lemma shape_of_drop_schema:
  "pairs_only (CHR 0x22) name \<Longrightarrow>
     skeleton Code (drop_schema_sql (Some name)) = skeleton Code (drop_schema_sql (Some []))"
  by (simp add: drop_schema_sql_def interpolate_def skeleton_rules)

lemma shape_of_schema_role:
  "pairs_only (CHR 0x22) role \<Longrightarrow> pairs_only (CHR 0x27) password \<Longrightarrow> pairs_only (CHR 0x22) name \<Longrightarrow>
   pairs_only (CHR 0x22) database \<Longrightarrow>
     skeleton Code (schema_role_sql role password name database)
       = skeleton Code (schema_role_sql [] [] [] [])"
  by (simp add: schema_role_sql_def skeleton_rules)

lemma shape_of_create_database:
  "pairs_only (CHR 0x22) name \<Longrightarrow>
     skeleton Code (create_database_sql name None) = skeleton Code (create_database_sql [] None)"
  by (simp add: create_database_sql_def truthy_def skeleton_rules)

lemma shape_of_create_database_from_template:
  "pairs_only (CHR 0x22) name \<Longrightarrow> template \<noteq> [] \<Longrightarrow> pairs_only (CHR 0x22) template \<Longrightarrow>
     skeleton Code (create_database_sql name (Some template))
       = skeleton Code (create_database_sql [] (Some ''t''))"
  by (simp add: create_database_sql_def truthy_def skeleton_rules)

lemma shape_of_login_role:
  "pairs_only (CHR 0x22) role \<Longrightarrow> pairs_only (CHR 0x27) password \<Longrightarrow> pairs_only (CHR 0x22) name \<Longrightarrow>
     skeleton Code (create_login_role_sql role password name)
       = skeleton Code (create_login_role_sql [] [] [])"
  by (simp add: create_login_role_sql_def skeleton_rules)

lemma shape_of_grants:
  "pairs_only (CHR 0x22) schema \<Longrightarrow> pairs_only (CHR 0x22) role \<Longrightarrow>
     skeleton Code (grant_on_schema_sql schema role) = skeleton Code (grant_on_schema_sql [] [])"
  by (simp add: grant_on_schema_sql_def skeleton_rules)

lemma shape_of_drop_database:
  "pairs_only (CHR 0x22) name \<Longrightarrow>
     skeleton Code (drop_database_sql force (Some name))
       = skeleton Code (drop_database_sql force (Some []))"
  by (simp add: drop_database_sql_def interpolate_def skeleton_rules)

lemma shape_of_drop_role:
  "pairs_only (CHR 0x22) role \<Longrightarrow>
     skeleton Code (drop_role_sql (Some role)) = skeleton Code (drop_role_sql (Some []))"
  by (simp add: drop_role_sql_def interpolate_def skeleton_rules)

lemma role_name_pairs:
  assumes "pairs_only q tenantId" "\<forall>p. rp = Some p \<longrightarrow> pairs_only q p" "q \<noteq> CHR ''t''"
     "q \<noteq> CHR ''e''" "q \<noteq> CHR ''n''" "q \<noteq> CHR ''a''" "q \<noteq> CHR ''_''"
  shows "pairs_only q (generateDefaultTenantRoleName tenantId rp)"
proof (cases "truthy rp")
  case True
  then obtain p where "rp = Some p" by (cases rp) (auto simp: truthy_def)
  with assms True show ?thesis
    by (simp add: generateDefaultTenantRoleName_def pairs_only_append)
next
  case False
  have "pairs_only q DEFAULT_TENANT_ROLE_PREFIX"
    using assms(3-) by (intro pairs_only_without) (auto simp: DEFAULT_TENANT_ROLE_PREFIX_def)
  with assms False show ?thesis
    by (simp add: generateDefaultTenantRoleName_def pairs_only_append)
qed

lemma acl_setuser_arguments:
  "\<exists>rules. steps (snd (RedisAclManagement_createTenant rexec M generated tenantId w)) ! length (steps w)
              = Sent (ACL_SETUSER rules)
         \<and> length rules = (if enableDangerousCommands M then 5 else 6)
         \<and> rules ! 0 = tenantId \<and> rules ! 1 = ''on''
         \<and> rules ! 3 = CHR ''~'' # buildKeyspacePrefix (acl_config M) tenantId @ ''*''
         \<and> rules ! 4 = ''+@all''"
  by (simp add: RedisAclManagement_createTenant_def send_def Let_def nth_append
      split: prod.splits sum.splits)

lemma acl_deluser_argument:
  assumes "RedisAclManagement_deleteTenant rexec M tenantId w = (res, w')"
      and "Sent (ACL_DELUSER x) \<in> set (steps w')" "Sent (ACL_DELUSER x) \<notin> set (steps w)"
  shows "x = tenantId"
  using assms
  by (auto simp: RedisAclManagement_deleteTenant_def RedisManagementBase_deleteTenant_def
      send_def Let_def split: prod.splits sum.splits if_splits)

text \<open>
  Claim C2. No builder of a statement quotes or escapes what it interpolates: the text is
  placed as it is, a tenant id (or a name or password made from it) between the single
  quotes of an SQL constant or the double quotes of a quoted name of the template, the table
  and schema names of \<open>DELETE FROM\<close> outside any quotes. What holds is this. Let the
  configured texts be harmless: the quote that encloses a password, prefix, column, database
  or schema name occurs in it only doubled, and the table and schema names of \<open>DELETE FROM\<close>
  are \<open>plain\<close>. Then for every tenant id in which the single quote occurs only doubled, the
  statements that place it in an SQL constant have the shape they have for the empty tenant
  id; and for every tenant id in which the double quote occurs only doubled, so do the
  statements that place it in a quoted name. The Redis commands are not texts: the tenant id
  is the user-name argument of \<open>ACL SETUSER\<close> and of \<open>ACL DELUSER\<close> and a part of the key
  pattern argument, whatever characters it has, and the list of arguments has the same length
  and the same fixed members.
\<close>

theorem interpolated_text_keeps_the_shape_of_the_commands:
  assumes "pairs_only (CHR 0x27) password" and "pairs_only (CHR 0x22) database"
      and "plain tableName" and "\<forall>sch. schema = Some sch \<longrightarrow> plain sch"
      and "pairs_only (CHR 0x22) col" and "pairs_only (CHR 0x22) granted"
      and "pairs_only (CHR 0x27) pre" and "pairs_only (CHR 0x22) pre"
      and "\<forall>p. rp = Some p \<longrightarrow> pairs_only (CHR 0x22) p"
  shows "(pairs_only (CHR 0x27) tenantId \<longrightarrow>
            skeleton Code (rls_settings_sql tenantId) = skeleton Code (rls_settings_sql [])
          \<and> skeleton Code (pgbouncer_rls_sql in_transaction tenantId)
              = skeleton Code (pgbouncer_rls_sql in_transaction [])
          \<and> skeleton Code (render (SetTenantLocal tenantId)) = skeleton Code (render (SetTenantLocal []))
          \<and> skeleton Code (render (DeleteRows schema tableName col tenantId))
              = skeleton Code (render (DeleteRows schema tableName col []))
          \<and> skeleton Code (schema_session_sql tenantId (Some (pre @ tenantId)))
              = skeleton Code (schema_session_sql [] (Some []))
          \<and> skeleton Code (pgbouncer_schema_sql in_transaction (pre @ tenantId))
              = skeleton Code (pgbouncer_schema_sql in_transaction []))
       \<and> (pairs_only (CHR 0x22) tenantId \<longrightarrow>
            skeleton Code (create_schema_sql (pre @ tenantId)) = skeleton Code (create_schema_sql [])
          \<and> skeleton Code (drop_schema_sql (Some (pre @ tenantId)))
              = skeleton Code (drop_schema_sql (Some []))
          \<and> skeleton Code (schema_role_sql (generateDefaultTenantRoleName tenantId None) password
                              (pre @ tenantId) database)
              = skeleton Code (schema_role_sql [] [] [] [])
          \<and> skeleton Code (create_database_sql (pre @ tenantId) None)
              = skeleton Code (create_database_sql [] None)
          \<and> skeleton Code (create_login_role_sql (generateDefaultTenantRoleName tenantId rp) password
                              (pre @ tenantId))
              = skeleton Code (create_login_role_sql [] [] [])
          \<and> skeleton Code (grant_on_schema_sql granted (generateDefaultTenantRoleName tenantId rp))
              = skeleton Code (grant_on_schema_sql [] [])
          \<and> skeleton Code (drop_database_sql force (Some (pre @ tenantId)))
              = skeleton Code (drop_database_sql force (Some []))
          \<and> skeleton Code (drop_role_sql (Some (generateDefaultTenantRoleName tenantId rp)))
              = skeleton Code (drop_role_sql (Some [])))
       \<and> (\<exists>rules. steps (snd (RedisAclManagement_createTenant rexec M generated tenantId w)) ! length (steps w)
                      = Sent (ACL_SETUSER rules)
              \<and> length rules = (if enableDangerousCommands M then 5 else 6)
              \<and> rules ! 0 = tenantId \<and> rules ! 1 = ''on''
              \<and> rules ! 3 = CHR ''~'' # buildKeyspacePrefix (acl_config M) tenantId @ ''*''
              \<and> rules ! 4 = ''+@all'')
       \<and> (\<forall>x. Sent (ACL_DELUSER x) \<in> set (steps (snd (RedisAclManagement_deleteTenant rexec M tenantId w)))
              \<and> Sent (ACL_DELUSER x) \<notin> set (steps w) \<longrightarrow> x = tenantId)"
proof (intro conjI impI allI)
  assume t: "pairs_only (CHR 0x27) tenantId"
  then have n: "pairs_only (CHR 0x27) (pre @ tenantId)" using assms(7) by (simp add: pairs_only_append)
  show "skeleton Code (rls_settings_sql tenantId) = skeleton Code (rls_settings_sql [])"
    using t by (rule shape_of_settings)
  show "skeleton Code (pgbouncer_rls_sql in_transaction tenantId)
              = skeleton Code (pgbouncer_rls_sql in_transaction [])"
    using t by (rule shape_of_pgbouncer_settings)
  show "skeleton Code (render (SetTenantLocal tenantId)) = skeleton Code (render (SetTenantLocal []))"
    using t by (rule shape_of_local_settings)
  show "skeleton Code (render (DeleteRows schema tableName col tenantId))
              = skeleton Code (render (DeleteRows schema tableName col []))"
    using t assms(3,4,5) by (rule shape_of_delete)
  show "skeleton Code (schema_session_sql tenantId (Some (pre @ tenantId)))
              = skeleton Code (schema_session_sql [] (Some []))"
    using t n by (rule shape_of_session)
  show "skeleton Code (pgbouncer_schema_sql in_transaction (pre @ tenantId))
              = skeleton Code (pgbouncer_schema_sql in_transaction [])"
    using n by (rule shape_of_pgbouncer_session)
next
  assume t: "pairs_only (CHR 0x22) tenantId"
  then have n: "pairs_only (CHR 0x22) (pre @ tenantId)" using assms(8) by (simp add: pairs_only_append)
  have r0: "pairs_only (CHR 0x22) (generateDefaultTenantRoleName tenantId None)"
    using t by (intro role_name_pairs) simp_all
  have r: "pairs_only (CHR 0x22) (generateDefaultTenantRoleName tenantId rp)"
    using t assms(9) by (intro role_name_pairs) simp_all
  show "skeleton Code (create_schema_sql (pre @ tenantId)) = skeleton Code (create_schema_sql [])"
    using n by (rule shape_of_create_schema)
  show "skeleton Code (drop_schema_sql (Some (pre @ tenantId)))
              = skeleton Code (drop_schema_sql (Some []))"
    using n by (rule shape_of_drop_schema)
  show "skeleton Code (schema_role_sql (generateDefaultTenantRoleName tenantId None) password
                              (pre @ tenantId) database)
              = skeleton Code (schema_role_sql [] [] [] [])"
    using r0 assms(1) n assms(2) by (rule shape_of_schema_role)
  show "skeleton Code (create_database_sql (pre @ tenantId) None)
              = skeleton Code (create_database_sql [] None)"
    using n by (rule shape_of_create_database)
  show "skeleton Code (create_login_role_sql (generateDefaultTenantRoleName tenantId rp) password
                              (pre @ tenantId))
              = skeleton Code (create_login_role_sql [] [] [])"
    using r assms(1) n by (rule shape_of_login_role)
  show "skeleton Code (grant_on_schema_sql granted (generateDefaultTenantRoleName tenantId rp))
              = skeleton Code (grant_on_schema_sql [] [])"
    using assms(6) r by (rule shape_of_grants)
  show "skeleton Code (drop_database_sql force (Some (pre @ tenantId)))
              = skeleton Code (drop_database_sql force (Some []))"
    using n by (rule shape_of_drop_database)
  show "skeleton Code (drop_role_sql (Some (generateDefaultTenantRoleName tenantId rp)))
              = skeleton Code (drop_role_sql (Some []))"
    using r by (rule shape_of_drop_role)
next
  show "\<exists>rules. steps (snd (RedisAclManagement_createTenant rexec M generated tenantId w)) ! length (steps w)
                      = Sent (ACL_SETUSER rules)
              \<and> length rules = (if enableDangerousCommands M then 5 else 6)
              \<and> rules ! 0 = tenantId \<and> rules ! 1 = ''on''
              \<and> rules ! 3 = CHR ''~'' # buildKeyspacePrefix (acl_config M) tenantId @ ''*''
              \<and> rules ! 4 = ''+@all''"
    by (rule acl_setuser_arguments)
next
  fix x
  assume "Sent (ACL_DELUSER x) \<in> set (steps (snd (RedisAclManagement_deleteTenant rexec M tenantId w)))
              \<and> Sent (ACL_DELUSER x) \<notin> set (steps w)"
  with acl_deluser_argument[of rexec M tenantId w _ _ x] show "x = tenantId"
    by (cases "RedisAclManagement_deleteTenant rexec M tenantId w") auto
qed

text \<open>The statement at the tenant id \<open>o''brien""\<close>.\<close>

theorem interpolated_text_witness:
  "pairs_only (CHR 0x27) obrien \<and> pairs_only (CHR 0x22) obrien
   \<and> skeleton Code (rls_settings_sql obrien) = skeleton Code (rls_settings_sql [])
   \<and> skeleton Code (render (DeleteRows (Some ''public'') ''orders'' ''tenant_id'' obrien))
       = skeleton Code (render (DeleteRows (Some ''public'') ''orders'' ''tenant_id'' []))
   \<and> skeleton Code (create_schema_sql (''tenant_'' @ obrien)) = skeleton Code (create_schema_sql [])
   \<and> skeleton Code (create_login_role_sql (generateDefaultTenantRoleName obrien None) ''pw''
                       (''tenant_'' @ obrien))
       = skeleton Code (create_login_role_sql [] [] [])"
proof -
  have t: "pairs_only (CHR 0x27) obrien" "pairs_only (CHR 0x22) obrien"
    by (simp_all add: obrien_def sq_def dq_def)
  have c: "pairs_only (CHR 0x27) ''pw''" "pairs_only (CHR 0x22) ''app''" "plain ''orders''"
      "\<forall>sch. Some ''public'' = Some sch \<longrightarrow> plain sch" "pairs_only (CHR 0x22) ''tenant_id''"
      "pairs_only (CHR 0x22) ''public''" "pairs_only (CHR 0x27) ''tenant_''"
      "pairs_only (CHR 0x22) ''tenant_''" "\<forall>p. (None :: string option) = Some p \<longrightarrow> pairs_only (CHR 0x22) p"
    by (simp_all add: plain_def)
  from interpolated_text_keeps_the_shape_of_the_commands[OF c, of obrien False False] t
  show ?thesis by blast
qed

text \<open>
  Claim C2 as it is worded fails: the tenant id \<open>x', false); DROP TABLE users; --\<close> ends the
  constant of \<open>set_config\<close> and the statement of \<open>PostgresRlsTenants.getClientFor\<close> gets another
  shape.
\<close>

theorem quote_in_tenant_id_changes_the_statement:
  "skeleton Code (rls_settings_sql ''x', false); DROP TABLE users; --'')
     \<noteq> skeleton Code (rls_settings_sql [])"
  by (simp add: rls_settings_sql_def DEFAULT_SETTINGS_TENANT_FIELD_def DEFAULT_ROLE_def sq_def
      ln_def replicate_numeral_step)


section \<open>Row-level security setup on the catalog\<close>

lemma pg_perform:
  "perform pg_exec (Query q) w = (r, w') \<Longrightarrow>
     r = Inr (fst (pg_query q (db w))) \<and> db w' = snd (pg_query q (db w))"
  by (auto simp: perform_def pg_exec_def split: prod.splits)

lemma pg_connect:
  "perform pg_exec (Connect h) w = (r, w') \<Longrightarrow> r = Inr [] \<and> db w' = db w"
  by (auto simp: perform_def pg_exec_def split: prod.splits)

lemma grant_sequences_pg:
  "perform_each pg_exec (map (\<lambda>row. Query (GrantOnSequence (f row))) rows) w = (r, w')
     \<Longrightarrow> r = Inr () \<and> db w' = db w"
proof (induction rows arbitrary: w)
  case Nil
  then show ?case by simp
next
  case (Cons a rows)
  obtain r1 w1 where p: "perform pg_exec (Query (GrantOnSequence (f a))) w = (r1, w1)"
    by (cases "perform pg_exec (Query (GrantOnSequence (f a))) w")
  from pg_perform[OF p] have r1: "r1 = Inr []" "db w1 = db w" by simp_all
  with Cons.prems p have "perform_each pg_exec (map (\<lambda>row. Query (GrantOnSequence (f row))) rows) w1 = (r, w')"
    by simp
  from Cons.IH[OF this] r1 show ?case by simp
qed

lemma grantOverRole_pg:
  assumes "grantOverRole pg_exec n s w = (r, w')"
  shows "r = Inr () \<and> db w' = db w"
proof -
  obtain r1 w1 where p1: "perform pg_exec (Query (GrantOnTable s n)) w = (r1, w1)"
    by (cases "perform pg_exec (Query (GrantOnTable s n)) w")
  obtain r2 w2 where p2: "perform pg_exec (Query (SelectSequences s n)) w1 = (r2, w2)"
    by (cases "perform pg_exec (Query (SelectSequences s n)) w1")
  from pg_perform[OF p1] have a: "r1 = Inr []" "db w1 = db w" by simp_all
  from pg_perform[OF p2] obtain rows where b: "r2 = Inr rows" "db w2 = db w1" by simp
  from assms p1 p2 a b have
    "perform_each pg_exec (map (\<lambda>row. Query (GrantOnSequence (first_column row))) rows) w2 = (r, w')"
    by (simp add: grantOverRole_def)
  from grant_sequences_pg[OF this] a b show ?thesis by simp
qed

lemma enableRls_pg:
  assumes "enableRlsOverTable pg_exec M n s w = (r, w')"
  shows "r = Inr () \<and> db w' = (db w)\<lparr>live := (live (db w))\<lparr>row_security := List.insert (s, n) (row_security (live (db w)))\<rparr>\<rparr>"
proof -
  obtain r1 w1 where p1: "perform pg_exec (Query (EnableRls s n (forceRlsOnTableOwner M))) w = (r1, w1)"
    by (cases "perform pg_exec (Query (EnableRls s n (forceRlsOnTableOwner M))) w")
  from pg_perform[OF p1] assms p1 show ?thesis by (auto simp: enableRlsOverTable_def)
qed

lemma filter_eq_Nil_entry:
  "filter (\<lambda>entry. entry = x) xs = [] \<longleftrightarrow> x \<notin> set xs"
  by (induction xs) auto

lemma isPolicyCreated_pg:
  assumes "isPolicyCreated pg_exec n s p w = (r, w')"
  shows "r = Inr ((s, n, p) \<in> set (policies (live (db w)))) \<and> db w' = db w"
proof -
  obtain r1 w1 where p1: "perform pg_exec (Query (SelectPolicy s n p)) w = (r1, w1)"
    by (cases "perform pg_exec (Query (SelectPolicy s n p)) w")
  from pg_perform[OF p1] assms p1 show ?thesis
    by (auto simp: isPolicyCreated_def filter_eq_Nil_entry)
qed

lemma createPolicies_pg:
  assumes run: "createPoliciesOverTable pg_exec M table s w = (r, w')"
  defines "n \<equiv> t_name table"
  defines "pu \<equiv> (s, n, ''tenant_isolation'')" and "pi \<equiv> (s, n, ''tenant_insert'')"
  shows "if pu \<in> set (policies (live (db w)))
         then r = Inl (policy_exists ''tenant_isolation'' s n) \<and> db w' = db w
         else if pi \<in> set (policies (live (db w)))
         then r = Inl (policy_exists ''tenant_insert'' s n) \<and> db w' = add_policy pu (db w)
         else r = Inr () \<and> db w' = add_policy pi (add_policy pu (db w))"
proof -
  let ?c = "or_else (t_tenantIdColumn table) (tenantColumn M)"
  obtain r1 w1 where p1: "isPolicyCreated pg_exec n s ''tenant_isolation'' w = (r1, w1)"
    by (cases "isPolicyCreated pg_exec n s ''tenant_isolation'' w")
  note f1 = isPolicyCreated_pg[OF p1]
  show ?thesis
  proof (cases "pu \<in> set (policies (live (db w)))")
    case True
    with f1 run p1 show ?thesis
      by (simp add: createPoliciesOverTable_def n_def pu_def)
  next
    case False
    obtain r2 w2 where p2: "perform pg_exec (Query (CreateUsingPolicy s n ?c)) w1 = (r2, w2)"
      by (cases "perform pg_exec (Query (CreateUsingPolicy s n ?c)) w1")
    from pg_perform[OF p2] f1 have f2: "r2 = Inr []" "db w2 = add_policy pu (db w)"
      by (simp_all add: add_policy_def pu_def)
    obtain r3 w3 where p3: "isPolicyCreated pg_exec n s ''tenant_insert'' w2 = (r3, w3)"
      by (cases "isPolicyCreated pg_exec n s ''tenant_insert'' w2")
    from isPolicyCreated_pg[OF p3] f2
    have f3: "r3 = Inr (pi \<in> set (policies (live (db w))))" "db w3 = add_policy pu (db w)"
      by (simp_all add: add_policy_def pi_def pu_def)
    show ?thesis
    proof (cases "pi \<in> set (policies (live (db w)))")
      case True
      with False f1 f2 f3 run p1 p2 p3 show ?thesis
        by (simp add: createPoliciesOverTable_def n_def[symmetric] pu_def[symmetric] Let_def)
    next
      case ni: False
      obtain r4 w4 where p4: "perform pg_exec (Query (CreateInsertPolicy s n ?c)) w3 = (r4, w4)"
        by (cases "perform pg_exec (Query (CreateInsertPolicy s n ?c)) w3")
      from pg_perform[OF p4] f3 have f4: "r4 = Inr []" "db w4 = add_policy pi (add_policy pu (db w))"
        by (simp_all add: add_policy_def pi_def)
      from False ni f1 f2 f3 f4 run p1 p2 p3 p4 show ?thesis
        by (simp add: createPoliciesOverTable_def n_def[symmetric] pu_def[symmetric] Let_def)
    qed
  qed
qed


lemma catalog_ops [simp]:
  "policies (live (add_policy e d)) = policies (live d) @ [e]"
  "policies (live (enable_rls x d)) = policies (live d)"
  "saved (add_policy e d) = saved d" "saved (enable_rls x d) = saved d"
  "current_schema (add_policy e d) = current_schema d" "current_schema (enable_rls x d) = current_schema d"
  "roles (live (add_policy e d)) = roles (live d)" "roles (live (enable_rls x d)) = roles (live d)"
  by (simp_all add: add_policy_def enable_rls_def)

lemma setup_table_pg:
  assumes run: "setup_table pg_exec M cs table w = (r, w')"
  defines "s \<equiv> or_else (t_schema table) cs" and "n \<equiv> t_name table"
  defines "pu \<equiv> (s, n, ''tenant_isolation'')" and "pi \<equiv> (s, n, ''tenant_insert'')"
  shows "if pu \<in> set (policies (live (db w)))
         then r = Inl (policy_exists ''tenant_isolation'' s n) \<and> db w' = enable_rls (s, n) (db w)
         else if pi \<in> set (policies (live (db w)))
         then r = Inl (policy_exists ''tenant_insert'' s n)
              \<and> db w' = add_policy pu (enable_rls (s, n) (db w))
         else r = Inr () \<and> db w' = add_policy pi (add_policy pu (enable_rls (s, n) (db w)))"
proof -
  obtain r1 w1 where p1: "grantOverRole pg_exec n s w = (r1, w1)"
    by (cases "grantOverRole pg_exec n s w")
  obtain r2 w2 where p2: "enableRlsOverTable pg_exec M n s w1 = (r2, w2)"
    by (cases "enableRlsOverTable pg_exec M n s w1")
  from grantOverRole_pg[OF p1] have f1: "r1 = Inr ()" "db w1 = db w" by simp_all
  from enableRls_pg[OF p2] f1 have f2: "r2 = Inr ()" "db w2 = enable_rls (s, n) (db w)"
    by (simp_all add: enable_rls_def)
  from run p1 p2 f1 f2 have "createPoliciesOverTable pg_exec M table s w2 = (r, w')"
    by (simp add: setup_table_def Let_def s_def[symmetric] n_def[symmetric])
  from createPolicies_pg[OF this] f2 show ?thesis
    by (simp add: n_def pu_def pi_def)
qed

lemma setup_table_facts:
  assumes run: "setup_table pg_exec M cs table w = (r, w')"
  shows "saved (db w') = saved (db w)" "current_schema (db w') = current_schema (db w)"
        "roles (live (db w')) = roles (live (db w))"
        "set (policies (live (db w))) \<subseteq> set (policies (live (db w')))"
        "distinct (policies (live (db w))) \<Longrightarrow> distinct (policies (live (db w')))"
        "r = Inr () \<Longrightarrow> set (table_policies cs table) \<subseteq> set (policies (live (db w')))"
        "r = Inl e \<Longrightarrow> \<exists>p s n. e = policy_exists p s n"
        "set (table_policies cs table) \<inter> set (policies (live (db w))) \<noteq> {} \<Longrightarrow> \<exists>e. r = Inl e"
        "(or_else (t_schema table) cs, t_name table, ''tenant_isolation'') \<in> set (policies (live (db w)))
           \<Longrightarrow> r = Inl (policy_exists ''tenant_isolation'' (or_else (t_schema table) cs) (t_name table))"
  using setup_table_pg[OF run]
  by (auto simp: table_policies_def split: if_splits)

lemma setup_tables_facts:
  assumes run: "setup_tables pg_exec M cs ts w = (r, w')"
  shows "saved (db w') = saved (db w) \<and> current_schema (db w') = current_schema (db w)
       \<and> roles (live (db w')) = roles (live (db w))
       \<and> set (policies (live (db w))) \<subseteq> set (policies (live (db w')))
       \<and> (distinct (policies (live (db w))) \<longrightarrow> distinct (policies (live (db w'))))
       \<and> (r = Inr () \<longrightarrow> (\<forall>t\<in>set ts. set (table_policies cs t) \<subseteq> set (policies (live (db w')))))
       \<and> (\<forall>e. r = Inl e \<longrightarrow> (\<exists>p s n. e = policy_exists p s n))
       \<and> ((\<exists>t\<in>set ts. set (table_policies cs t) \<inter> set (policies (live (db w))) \<noteq> {}) \<longrightarrow> (\<exists>e. r = Inl e))"
  using run
proof (induction ts arbitrary: w)
  case Nil
  then show ?case by auto
next
  case (Cons t ts)
  obtain r1 w1 where p1: "setup_table pg_exec M cs t w = (r1, w1)"
    by (cases "setup_table pg_exec M cs t w")
  note f = setup_table_facts[OF p1]
  show ?case
  proof (cases r1)
    case (Inl e)
    with Cons.prems p1 have "r = Inl e" "w' = w1" by simp_all
    with f Inl show ?thesis by auto
  next
    case (Inr u)
    with Cons.prems p1 have rest: "setup_tables pg_exec M cs ts w1 = (r, w')" by simp
    note ih = Cons.IH[OF rest]
    have no: "set (table_policies cs t) \<inter> set (policies (live (db w))) = {}"
      using f(8) Inr by auto
    have here: "set (table_policies cs t) \<subseteq> set (policies (live (db w1)))"
      using f(6) Inr by simp
    have c1: "saved (db w') = saved (db w) \<and> current_schema (db w') = current_schema (db w)
       \<and> roles (live (db w')) = roles (live (db w))"
      using ih f(1-3) by simp
    have c2: "set (policies (live (db w))) \<subseteq> set (policies (live (db w')))"
      using ih f(4) by blast
    have c3: "distinct (policies (live (db w))) \<longrightarrow> distinct (policies (live (db w')))"
      using ih f(5) by blast
    have c4: "r = Inr () \<longrightarrow> (\<forall>t'\<in>set (t # ts). set (table_policies cs t') \<subseteq> set (policies (live (db w'))))"
    proof
      assume ok: "r = Inr ()"
      from ih have up: "set (policies (live (db w1))) \<subseteq> set (policies (live (db w')))" by blast
      from ih ok have "\<forall>t'\<in>set ts. set (table_policies cs t') \<subseteq> set (policies (live (db w')))" by blast
      moreover from here up have "set (table_policies cs t) \<subseteq> set (policies (live (db w')))" by blast
      ultimately show "\<forall>t'\<in>set (t # ts). set (table_policies cs t') \<subseteq> set (policies (live (db w')))"
        by simp
    qed
    have c5: "\<forall>e. r = Inl e \<longrightarrow> (\<exists>p s n. e = policy_exists p s n)"
      using ih by blast
    have c6: "(\<exists>t'\<in>set (t # ts). set (table_policies cs t') \<inter> set (policies (live (db w))) \<noteq> {}) \<longrightarrow> (\<exists>e. r = Inl e)"
    proof
      assume "\<exists>t'\<in>set (t # ts). set (table_policies cs t') \<inter> set (policies (live (db w))) \<noteq> {}"
      then obtain t' where t': "t' \<in> set (t # ts)"
          "set (table_policies cs t') \<inter> set (policies (live (db w))) \<noteq> {}" by blast
      with no have "t' \<in> set ts" by auto
      moreover from t'(2) f(4) have "set (table_policies cs t') \<inter> set (policies (live (db w1))) \<noteq> {}"
        by blast
      ultimately show "\<exists>e. r = Inl e" using ih by blast
    qed
    from c1 c2 c3 c4 c5 c6 show ?thesis by blast
  qed
qed


lemma setup_tables_first_conflict:
  assumes run: "setup_tables pg_exec M cs (t # ts) w = (r, w')"
      and ex: "(or_else (t_schema t) cs, t_name t, ''tenant_isolation'') \<in> set (policies (live (db w)))"
  shows "r = Inl (policy_exists ''tenant_isolation'' (or_else (t_schema t) cs) (t_name t))"
proof -
  obtain r1 w1 where p1: "setup_table pg_exec M cs t w = (r1, w1)"
    by (cases "setup_table pg_exec M cs t w")
  from setup_table_facts(9)[OF p1 ex] run p1 show ?thesis by simp
qed

lemma setup_transaction_pg:
  assumes run: "setup_transaction pg_exec M ts w = (r, w')"
      and clean: "saved (db w) = None"
  defines "cs \<equiv> current_schema (db w)"
  shows "current_schema (db w') = cs
       \<and> set (policies (live (db w))) \<subseteq> set (policies (live (db w')))
       \<and> (distinct (policies (live (db w))) \<longrightarrow> distinct (policies (live (db w'))))
       \<and> (r = Inr () \<longrightarrow> saved (db w') = None
             \<and> (\<forall>t\<in>set ts. set (table_policies cs t) \<subseteq> set (policies (live (db w')))))
       \<and> (\<forall>e. r = Inl e \<longrightarrow> saved (db w') = Some (live (db w)) \<and> (\<exists>p s n. e = policy_exists p s n))
       \<and> ((\<exists>t\<in>set ts. set (table_policies cs t) \<inter> set (policies (live (db w))) \<noteq> {}) \<longrightarrow> (\<exists>e. r = Inl e))
       \<and> (\<forall>t rest. ts = t # rest
              \<and> (or_else (t_schema t) cs, t_name t, ''tenant_isolation'') \<in> set (policies (live (db w)))
            \<longrightarrow> r = Inl (policy_exists ''tenant_isolation'' (or_else (t_schema t) cs) (t_name t)))"
proof -
  obtain r1 w1 where p1: "perform pg_exec (Query SelectCurrentSchema) w = (r1, w1)"
    by (cases "perform pg_exec (Query SelectCurrentSchema) w")
  from pg_perform[OF p1] have f1: "r1 = Inr [[S cs]]" "db w1 = db w" by (simp_all add: cs_def)
  obtain r2 w2 where p2: "perform pg_exec (Query Begin) w1 = (r2, w2)"
    by (cases "perform pg_exec (Query Begin) w1")
  from pg_perform[OF p2] f1 clean
  have f2: "r2 = Inr []" "db w2 = (db w)\<lparr>saved := Some (live (db w))\<rparr>" by simp_all
  obtain r3 w3 where p3: "perform pg_exec (Query SelectRole) w2 = (r3, w3)"
    by (cases "perform pg_exec (Query SelectRole) w2")
  from pg_perform[OF p3] f2 obtain roleRows where f3: "r3 = Inr roleRows" "db w3 = db w2" by simp
  obtain r4 w4 where p4: "(if length roleRows \<noteq> 1 then perform pg_exec (Query CreateRole) w3
                           else (Inr [], console_warn ''Role already exists'' w3)) = (r4, w4)"
    by (cases "(if length roleRows \<noteq> 1 then perform pg_exec (Query CreateRole) w3
                           else (Inr [], console_warn ''Role already exists'' w3))")
  have f4c: "r4 = Inr [] \<and> policies (live (db w4)) = policies (live (db w))
           \<and> saved (db w4) = Some (live (db w)) \<and> current_schema (db w4) = cs"
  proof (cases "length roleRows \<noteq> 1")
    case True
    with p4 have "perform pg_exec (Query CreateRole) w3 = (r4, w4)" by simp
    from pg_perform[OF this] f3 f2 show ?thesis by (simp add: cs_def)
  next
    case False
    with p4 f3 f2 show ?thesis by (auto simp: console_warn_def cs_def)
  qed
  then have f4: "r4 = Inr []" "policies (live (db w4)) = policies (live (db w))"
           "saved (db w4) = Some (live (db w))" "current_schema (db w4) = cs"
    by simp_all
  obtain r5 w5 where p5: "setup_tables pg_exec M cs ts w4 = (r5, w5)"
    by (cases "setup_tables pg_exec M cs ts w4")
  note l = setup_tables_facts[OF p5]
  show ?thesis
  proof (cases r5)
    case (Inl e)
    with run p1 p2 p3 p4 p5 f1 f2 f3 f4
    have "r = Inl e" "w' = w5"
      by (simp_all add: setup_transaction_def first_column_def cell_text_def Let_def cs_def)
    with l f4 Inl show ?thesis
      using setup_tables_first_conflict[of M cs _ _ w4 r5 w5] p5 by auto
  next
    case (Inr u)
    obtain r6 w6 where p6: "perform pg_exec (Query Commit) w5 = (r6, w6)"
      by (cases "perform pg_exec (Query Commit) w5")
    from pg_perform[OF p6] have f6: "r6 = Inr []" "db w6 = (db w5)\<lparr>saved := None\<rparr>" by simp_all
    with run p1 p2 p3 p4 p5 p6 f1 f2 f3 f4 Inr
    have "r = Inr ()" "w' = w6"
      by (simp_all add: setup_transaction_def first_column_def cell_text_def Let_def cs_def)
    with l f4 f6 Inr show ?thesis
      using setup_tables_first_conflict[of M cs _ _ w4 r5 w5] p5 by auto
  qed
qed

lemma getCleanClient_pg:
  assumes "getCleanClient pg_exec w = (r, w')"
  shows "r = Inr () \<and> db w' = db w"
proof -
  obtain r1 w1 where p1: "perform pg_exec (Connect 0) w = (r1, w1)"
    by (cases "perform pg_exec (Connect 0) w")
  obtain r2 w2 where p2: "perform pg_exec (Query ResetAll) w1 = (r2, w2)"
    by (cases "perform pg_exec (Query ResetAll) w1")
  from pg_connect[OF p1] pg_perform[OF p2] assms p1 p2 show ?thesis
    by (auto simp: getCleanClient_def)
qed

lemma Rls_setup_pg:
  assumes run: "Rls_setup pg_exec M (Some ts) w = (r, w')"
      and clean: "saved (db w) = None" and ne: "ts \<noteq> []"
  defines "cs \<equiv> current_schema (db w)"
  shows "current_schema (db w') = cs \<and> saved (db w') = None
       \<and> (distinct (policies (live (db w))) \<longrightarrow> distinct (policies (live (db w'))))
       \<and> (r = Inr () \<longrightarrow> (\<forall>t\<in>set ts. set (table_policies cs t) \<subseteq> set (policies (live (db w')))))
       \<and> (\<forall>e. r = Inl e \<longrightarrow> live (db w') = live (db w) \<and> (\<exists>p s n. e = policy_exists p s n))
       \<and> ((\<exists>t\<in>set ts. set (table_policies cs t) \<inter> set (policies (live (db w))) \<noteq> {}) \<longrightarrow> (\<exists>e. r = Inl e))
       \<and> ((or_else (t_schema (hd ts)) cs, t_name (hd ts), ''tenant_isolation'') \<in> set (policies (live (db w)))
            \<longrightarrow> r = Inl (policy_exists ''tenant_isolation'' (or_else (t_schema (hd ts)) cs) (t_name (hd ts))))"
proof -
  obtain r1 w1 where p1: "getCleanClient pg_exec w = (r1, w1)"
    by (cases "getCleanClient pg_exec w")
  from getCleanClient_pg[OF p1] have f1: "r1 = Inr ()" "db w1 = db w" by simp_all
  obtain r2 w2 where p2: "setup_transaction pg_exec M ts w1 = (r2, w2)"
    by (cases "setup_transaction pg_exec M ts w1")
  from f1 clean have c1: "saved (db w1) = None" by simp
  note t = setup_transaction_pg[OF p2 c1, unfolded f1(2), folded cs_def]
  from ne obtain t0 rest where ts: "ts = t0 # rest" by (cases ts) auto
  show ?thesis
  proof (cases r2)
    case (Inl e)
    obtain r3 w3 where p3: "perform pg_exec (Query Rollback) w2 = (r3, w3)"
      by (cases "perform pg_exec (Query Rollback) w2")
    from run p1 p2 p3 f1 Inl ne have res: "r = Inl e" "w' = release w3"
      by (simp_all add: Rls_setup_def)
    from t Inl have sv: "saved (db w2) = Some (live (db w))" by blast
    from pg_perform[OF p3] sv have d3: "db w3 = (db w2)\<lparr>live := live (db w), saved := None\<rparr>" by simp
    with res have d': "db w' = (db w2)\<lparr>live := live (db w), saved := None\<rparr>" by (simp add: release_def)
    from t Inl res d' ts show ?thesis by auto
  next
    case (Inr u)
    from run p1 p2 f1 Inr ne have res: "r = Inr ()" "w' = release w2"
      by (simp_all add: Rls_setup_def)
    then have d': "db w' = db w2" by (simp add: release_def)
    from t Inr res d' ts show ?thesis by auto
  qed
qed


text \<open>
  Claim C5. On the catalog, with no transaction open and a table list that is not empty:
  when a table of the list already has a policy named \<open>tenant_isolation\<close> or
  \<open>tenant_insert\<close>, \<open>setup\<close> raises the policy-exists error and leaves the catalog as it was;
  \<open>setup\<close> never makes a catalog without duplicate policies into one with duplicates; and
  after a \<open>setup\<close> that returned normally, a second \<open>setup\<close> with the same list raises the
  policy-exists error for the isolation policy of the first table and changes nothing.
  (With an empty list \<open>setup\<close> returns at once with a warning: there is no table to conflict
  on.)
\<close>

theorem rls_setup_raises_policy_conflict:
  assumes clean: "saved (db w) = None" and ne: "ts \<noteq> []"
      and first: "Rls_setup pg_exec M (Some ts) w = (r1, w1)"
      and second: "Rls_setup pg_exec M (Some ts) w1 = (r2, w2)"
  shows "((\<exists>t\<in>set ts. set (table_policies (current_schema (db w)) t) \<inter> set (policies (live (db w))) \<noteq> {})
            \<longrightarrow> (\<exists>p s n. r1 = Inl (policy_exists p s n)) \<and> live (db w1) = live (db w))
       \<and> (distinct (policies (live (db w))) \<longrightarrow> distinct (policies (live (db w1))))
       \<and> (r1 = Inr () \<longrightarrow>
             r2 = Inl (policy_exists ''tenant_isolation'' (schema_of (db w) (hd ts)) (t_name (hd ts)))
             \<and> live (db w2) = live (db w1))"
proof -
  note a = Rls_setup_pg[OF first clean ne]
  from a have clean1: "saved (db w1) = None" and cs1: "current_schema (db w1) = current_schema (db w)"
    by simp_all
  note b = Rls_setup_pg[OF second clean1 ne, unfolded cs1]
  have c: "r1 = Inr () \<longrightarrow>
             r2 = Inl (policy_exists ''tenant_isolation'' (schema_of (db w) (hd ts)) (t_name (hd ts)))
             \<and> live (db w2) = live (db w1)"
  proof
    assume ok: "r1 = Inr ()"
    from ne have "hd ts \<in> set ts" by simp
    with a ok have "set (table_policies (current_schema (db w)) (hd ts)) \<subseteq> set (policies (live (db w1)))"
      by blast
    then have "(or_else (t_schema (hd ts)) (current_schema (db w)), t_name (hd ts), ''tenant_isolation'')
                 \<in> set (policies (live (db w1)))"
      by (simp add: table_policies_def)
    with b have r2: "r2 = Inl (policy_exists ''tenant_isolation''
                        (or_else (t_schema (hd ts)) (current_schema (db w))) (t_name (hd ts)))"
      by blast
    with b have "live (db w2) = live (db w1)" by blast
    with r2 show "r2 = Inl (policy_exists ''tenant_isolation'' (schema_of (db w) (hd ts)) (t_name (hd ts)))
             \<and> live (db w2) = live (db w1)"
      by (simp add: schema_of_def)
  qed
  from a c show ?thesis by blast
qed


lemma first_setup_of_orders:
  "fst (Rls_setup pg_exec rls_with_autoSetup (Some [orders_table]) shop_world) = Inr ()"
  by (simp add: Rls_setup_def getCleanClient_def setup_transaction_def setup_table_def
      grantOverRole_def enableRlsOverTable_def createPoliciesOverTable_def isPolicyCreated_def
      perform_def pg_exec_def release_def console_warn_def first_column_def cell_text_def
      shop_world_def shop_db_def orders_table_def rls_with_autoSetup_def or_else_def
      DEFAULT_ROLE_def Let_def)


theorem rls_setup_conflict_witness:
  "fst (Rls_setup pg_exec rls_with_autoSetup (Some [orders_table]) shop_world) = Inr ()
   \<and> fst (Rls_setup pg_exec rls_with_autoSetup (Some [orders_table])
            (snd (Rls_setup pg_exec rls_with_autoSetup (Some [orders_table]) shop_world)))
       = Inl (policy_exists ''tenant_isolation'' ''public'' ''orders'')"
proof -
  let ?first = "Rls_setup pg_exec rls_with_autoSetup (Some [orders_table]) shop_world"
  let ?second = "Rls_setup pg_exec rls_with_autoSetup (Some [orders_table]) (snd ?first)"
  have clean: "saved (db shop_world) = None" by (simp add: shop_world_def shop_db_def)
  have ne: "[orders_table] \<noteq> []" by simp
  have a: "?first = (fst ?first, snd ?first)" by simp
  have b: "?second = (fst ?second, snd ?second)" by simp
  from rls_setup_raises_policy_conflict[OF clean ne a b] first_setup_of_orders
  have "fst ?second = Inl (policy_exists ''tenant_isolation''
          (schema_of (db shop_world) (hd [orders_table])) (t_name (hd [orders_table])))"
    by blast
  then show ?thesis using first_setup_of_orders
    by (simp add: schema_of_def or_else_def orders_table_def shop_world_def shop_db_def)
qed


section \<open>The auto-setup pass\<close>

lemma perform_tally:
  "perform exec c w = (r, w') \<Longrightarrow>
     discoveries w' = discoveries w + (if is_discovery (Called c) then 1 else 0)
   \<and> setups w' = setups w + (if is_setup_start (Called c) then 1 else 0)"
  by (auto simp: perform_def discoveries_def setups_def split: prod.splits)

lemma tally_simps [simp]:
  "discoveries (release w) = discoveries w" "setups (release w) = setups w"
  "discoveries (console_warn m w) = discoveries w" "setups (console_warn m w) = setups w"
  "discoveries (console_error m e w) = discoveries w" "setups (console_error m e w) = setups w"
  by (simp_all add: discoveries_def setups_def release_def console_warn_def console_error_def)

lemma perform_quiet:
  "perform exec c w = (r, w') \<Longrightarrow> quiet c \<Longrightarrow> discoveries w' = discoveries w \<and> setups w' = setups w"
  by (drule perform_tally) (simp add: quiet_def)

lemma perform_each_quiet:
  "perform_each exec cs w = (r, w') \<Longrightarrow> \<forall>c\<in>set cs. quiet c \<Longrightarrow>
     discoveries w' = discoveries w \<and> setups w' = setups w"
proof (induction cs arbitrary: w)
  case Nil
  then show ?case by simp
next
  case (Cons c cs)
  obtain r1 w1 where p: "perform exec c w = (r1, w1)" by (cases "perform exec c w")
  from perform_quiet[OF p] Cons.prems(2) have q: "discoveries w1 = discoveries w \<and> setups w1 = setups w"
    by simp
  show ?case
  proof (cases r1)
    case (Inl e)
    with Cons.prems(1) p q show ?thesis by simp
  next
    case (Inr x)
    with Cons.prems(1) p have "perform_each exec cs w1 = (r, w')" by simp
    from Cons.IH[OF this] Cons.prems(2) q show ?thesis by simp
  qed
qed

lemma quiet_simps [simp]:
  "quiet (Connect h)" "quiet (Query ResetAll)" "quiet (Query Begin)" "quiet (Query Commit)"
  "quiet (Query Rollback)" "quiet (Query SelectRole)" "quiet (Query CreateRole)"
  "quiet (Query (GrantOnTable s n))" "quiet (Query (SelectSequences s n))"
  "quiet (Query (GrantOnSequence q))" "quiet (Query (EnableRls s n f))"
  "quiet (Query (SelectPolicy s n p))" "quiet (Query (CreateUsingPolicy s n c))"
  "quiet (Query (CreateInsertPolicy s n c))"
  by (simp_all add: quiet_def)

lemma perform_quiet_snd [simp]:
  "quiet c \<Longrightarrow> discoveries (snd (perform exec c w)) = discoveries w"
  "quiet c \<Longrightarrow> setups (snd (perform exec c w)) = setups w"
  using perform_quiet[of exec c w "fst (perform exec c w)" "snd (perform exec c w)"]
  by simp_all

lemma getCleanClient_quiet:
  "getCleanClient exec w = (r, w') \<Longrightarrow> discoveries w' = discoveries w \<and> setups w' = setups w"
  by (auto simp: getCleanClient_def split: prod.splits sum.splits dest!: perform_quiet)

lemma grantOverRole_quiet:
  "grantOverRole exec n s w = (r, w') \<Longrightarrow> discoveries w' = discoveries w \<and> setups w' = setups w"
  by (auto simp: grantOverRole_def split: prod.splits sum.splits dest!: perform_quiet perform_each_quiet)

lemma enableRls_quiet:
  "enableRlsOverTable exec M n s w = (r, w') \<Longrightarrow> discoveries w' = discoveries w \<and> setups w' = setups w"
  by (auto simp: enableRlsOverTable_def split: prod.splits sum.splits dest!: perform_quiet)

lemma isPolicyCreated_quiet:
  "isPolicyCreated exec n s p w = (r, w') \<Longrightarrow> discoveries w' = discoveries w \<and> setups w' = setups w"
  by (auto simp: isPolicyCreated_def split: prod.splits sum.splits dest!: perform_quiet)

lemma createPolicies_quiet:
  "createPoliciesOverTable exec M t s w = (r, w') \<Longrightarrow> discoveries w' = discoveries w \<and> setups w' = setups w"
  by (auto simp: createPoliciesOverTable_def Let_def split: prod.splits sum.splits bool.splits
      dest!: perform_quiet isPolicyCreated_quiet)

lemma setup_table_quiet:
  "setup_table exec M cs t w = (r, w') \<Longrightarrow> discoveries w' = discoveries w \<and> setups w' = setups w"
  by (auto simp: setup_table_def Let_def split: prod.splits sum.splits
      dest!: grantOverRole_quiet enableRls_quiet createPolicies_quiet)


lemma setup_tables_quiet:
  "setup_tables exec M cs ts w = (r, w') \<Longrightarrow> discoveries w' = discoveries w \<and> setups w' = setups w"
proof (induction ts arbitrary: w)
  case Nil
  then show ?case by simp
next
  case (Cons t ts)
  obtain r1 w1 where p: "setup_table exec M cs t w = (r1, w1)" by (cases "setup_table exec M cs t w")
  note q = setup_table_quiet[OF p]
  show ?case
  proof (cases r1)
    case (Inl e)
    with Cons.prems p q show ?thesis by simp
  next
    case (Inr x)
    with Cons.prems p have "setup_tables exec M cs ts w1 = (r, w')" by simp
    from Cons.IH[OF this] q show ?thesis by simp
  qed
qed

lemma setup_transaction_tally:
  assumes "setup_transaction exec M ts w = (r, w')"
  shows "discoveries w' = discoveries w \<and> setups w' = setups w + 1"
proof -
  obtain r1 w1 where p1: "perform exec (Query SelectCurrentSchema) w = (r1, w1)"
    by (cases "perform exec (Query SelectCurrentSchema) w")
  from perform_tally[OF p1] have t1: "discoveries w1 = discoveries w" "setups w1 = setups w + 1"
    by simp_all
  have "discoveries w' = discoveries w1 \<and> setups w' = setups w1"
    using assms p1
    by (auto simp: setup_transaction_def Let_def split: prod.splits sum.splits list.splits if_splits
        dest!: perform_quiet setup_tables_quiet)
  with t1 show ?thesis by simp
qed

lemma Rls_setup_tally:
  assumes "Rls_setup exec M targ w = (r, w')"
  shows "discoveries w' = discoveries w \<and> setups w' \<le> setups w + 1"
  using assms
  by (auto simp: Rls_setup_def Let_def split: prod.splits sum.splits if_splits
      dest!: getCleanClient_quiet setup_transaction_tally perform_quiet)

lemma discovery_tally:
  assumes "getMultitenantTablesWithoutRls exec M w = (r, w')"
  shows "discoveries w' = discoveries w + 1 \<and> setups w' = setups w"
  using assms
  by (auto simp: getMultitenantTablesWithoutRls_def split: prod.splits sum.splits dest!: perform_tally)

lemma discover_and_setup_tally:
  assumes "discover_and_setup exec M w = (r, w')"
  shows "discoveries w' = discoveries w + 1 \<and> setups w' \<le> setups w + 1"
  using assms
  by (auto simp: discover_and_setup_def Let_def split: prod.splits sum.splits if_splits option.splits
      dest!: discovery_tally Rls_setup_tally)

lemma Rls_createTenant_tally:
  assumes "Rls_createTenant exec M tenantId w = (r, M', w')"
  shows "(\<not> autoSetup M \<longrightarrow> r = Inr False \<and> M' = M \<and> w' = w)
       \<and> (discoveries w' = discoveries w \<and> setups w' = setups w \<and> M' = M
          \<or> discoveries w' = discoveries w + 1 \<and> setups w' \<le> setups w + 1 \<and> \<not> autoSetup M')"
  using assms
  by (auto simp: Rls_createTenant_def split: prod.splits sum.splits if_splits
      dest!: getCleanClient_quiet discover_and_setup_tally)

lemma createTenants_disabled:
  "\<not> autoSetup M \<Longrightarrow> createTenants exec M ids w = (M, w)"
  by (induction ids) (simp_all add: Rls_createTenant_def)

lemma createTenants_tally:
  assumes "createTenants exec M ids w = (M', w')"
  shows "discoveries w' \<le> discoveries w + 1 \<and> setups w' \<le> setups w + 1
       \<and> (discoveries w < discoveries w' \<longrightarrow> \<not> autoSetup M')"
  using assms
proof (induction ids arbitrary: M w)
  case Nil
  then show ?case by simp
next
  case (Cons t ids)
  obtain r M1 w1 where p: "Rls_createTenant exec M t w = (r, M1, w1)"
    by (cases "Rls_createTenant exec M t w") auto
  with Cons.prems have rest: "createTenants exec M1 ids w1 = (M', w')" by simp
  note one = Rls_createTenant_tally[OF p]
  show ?case
  proof (cases "autoSetup M1")
    case True
    with one have "discoveries w1 = discoveries w" "setups w1 = setups w" by auto
    with Cons.IH[OF rest] show ?thesis by simp
  next
    case False
    from createTenants_disabled[OF False, of exec ids w1] rest have "M' = M1" "w' = w1" by simp_all
    with one False show ?thesis by auto
  qed
qed


text \<open>
  Calls in sequence, each finished before the next is made. Over any such sequence of
  \<open>createTenant\<close> calls on one RLS Management instance, whatever the server answers: the
  discovery query is sent in at most one call and \<open>setup\<close> is started at most once; once a
  call has sent the discovery query \<open>autoSetup\<close> is off (the \<open>finally\<close> block turns it off
  whether the pass succeeded or not); and with \<open>autoSetup\<close> off the calls do nothing at all.
\<close>

lemma createTenants_in_sequence:
  assumes "createTenants exec M ids w = (M', w')"
  shows "discoveries w' \<le> discoveries w + 1 \<and> setups w' \<le> setups w + 1
       \<and> (discoveries w < discoveries w' \<longrightarrow> \<not> autoSetup M')
       \<and> (\<not> autoSetup M \<longrightarrow> M' = M \<and> w' = w)"
  using createTenants_tally[OF assms] createTenants_disabled[of M exec ids w] assms
  by auto


lemma first_createTenant_runs_the_pass:
  "discoveries (snd (snd (Rls_createTenant pg_exec rls_with_autoSetup ''a'' shop_world))) = 1
   \<and> setups (snd (snd (Rls_createTenant pg_exec rls_with_autoSetup ''a'' shop_world))) = 1
   \<and> fst (Rls_createTenant pg_exec rls_with_autoSetup ''a'' shop_world) = Inr True"
  by (simp add: Rls_createTenant_def discover_and_setup_def getMultitenantTablesWithoutRls_def
      row_table_def row_hasRlsEnabled_def
      Rls_setup_def getCleanClient_def setup_transaction_def setup_table_def
      grantOverRole_def enableRlsOverTable_def createPoliciesOverTable_def isPolicyCreated_def
      perform_def pg_exec_def release_def console_warn_def first_column_def cell_text_def
      shop_world_def shop_db_def rls_with_autoSetup_def or_else_def
      DEFAULT_ROLE_def Let_def discoveries_def setups_def)

lemma createTenants_in_sequence_at_shop:
  "discoveries (snd (createTenants pg_exec rls_with_autoSetup [''a'', ''b'', ''c''] shop_world)) = 1
   \<and> setups (snd (createTenants pg_exec rls_with_autoSetup [''a'', ''b'', ''c''] shop_world)) = 1
   \<and> \<not> autoSetup (fst (createTenants pg_exec rls_with_autoSetup [''a'', ''b'', ''c''] shop_world))"
proof -
  let ?run = "createTenants pg_exec rls_with_autoSetup [''a'', ''b'', ''c''] shop_world"
  obtain r M1 w1 where one: "Rls_createTenant pg_exec rls_with_autoSetup ''a'' shop_world = (r, M1, w1)"
    by (cases "Rls_createTenant pg_exec rls_with_autoSetup ''a'' shop_world") auto
  with first_createTenant_runs_the_pass have f: "discoveries w1 = 1" "setups w1 = 1" by simp_all
  have z: "discoveries shop_world = 0" "setups shop_world = 0"
    by (simp_all add: discoveries_def setups_def shop_world_def)
  have a: "createTenants pg_exec rls_with_autoSetup [''a''] shop_world = (M1, w1)"
    using one by simp
  from createTenants_in_sequence[OF a] f z have off: "\<not> autoSetup M1" by simp
  have rest: "createTenants pg_exec M1 [''b'', ''c''] w1 = (fst ?run, snd ?run)"
    using one by simp
  from createTenants_in_sequence[OF rest] off have "fst ?run = M1" "snd ?run = w1" by simp_all
  with f off show ?thesis by simp
qed

lemma createTenant_in_two_steps:
  "Rls_createTenant exec M tenantId w =
     (case createTenant_until_setup exec (autoSetup M) M w of
        Inl finished \<Rightarrow> finished
      | Inr (tableList, w1) \<Rightarrow> createTenant_from_setup exec M tableList w1)"
  by (simp add: Rls_createTenant_def createTenant_until_setup_def createTenant_from_setup_def
      discover_and_setup_def Let_def split: prod.splits sum.splits option.splits)

lemmas createTenant_eval = createTenant_until_setup_def createTenant_from_setup_def
      getMultitenantTablesWithoutRls_def
      row_table_def row_hasRlsEnabled_def
      Rls_setup_def getCleanClient_def setup_transaction_def setup_table_def
      grantOverRole_def enableRlsOverTable_def createPoliciesOverTable_def isPolicyCreated_def
      perform_def pg_exec_def release_def console_warn_def first_column_def cell_text_def
      shop_world_def shop_db_def rls_with_autoSetup_def or_else_def
      DEFAULT_ROLE_def Let_def

text \<open>
  Claim C8. The pass is meant to run during at most one \<open>createTenant\<close> call of an instance
  (the source marks the write of the flag with "Condition to avoid setup again"). The
  flag is tested when a call is made and cleared only in \<open>finally\<close>, so two calls that overlap
  both find it set and both run the pass. On a database with one tenant table and no policy
  yet: both calls send the discovery query, both start \<open>setup\<close>, the first returns \<open>true\<close> and
  the second is rejected with the policy conflict that the first one's policies cause. The
  same two calls in sequence run the pass once.
\<close>

theorem overlapping_createTenant_calls_both_run_the_pass:
  "(case overlapping_createTenants pg_exec rls_with_autoSetup shop_world of
      (r1, r2, M2, w2) \<Rightarrow> (r1, r2, autoSetup M2, discoveries w2, setups w2))
     = (Inr True, Inl (policy_exists ''tenant_isolation'' ''public'' ''orders''), False, 2, 2)
   \<and> (case createTenants pg_exec rls_with_autoSetup [''a'', ''b''] shop_world of
      (M2, w2) \<Rightarrow> (autoSetup M2, discoveries w2, setups w2)) = (False, 1, 1)"
  by (simp add: overlapping_createTenants_def Rls_createTenant_def discover_and_setup_def
       createTenant_eval discoveries_def setups_def)



section \<open>Storing a descriptor and reading it back\<close>

subsection \<open>Numbers\<close>

text \<open>The digits written for an integer are read back as that integer.\<close>

lemma of_char_digit [simp]: "n < 10 \<Longrightarrow> (of_char (char_of (48 + n :: nat) :: char) :: nat) = 48 + n"
  by (simp add: of_char_of)















subsection \<open>Strings\<close>

text \<open>A quoted string is read back as the string it was written from, escapes included.\<close>

lemma hex_value_hex_digit: "n < 16 \<Longrightarrow> hex_value (hex_digit n) = Some n"
  by (auto simp: hex_value_def hex_digit_def Let_def of_char_of)

lemma code_unit_escape:
  assumes "(of_char c :: nat) < 32"
  shows "code_unit CHR ''0'' CHR ''0'' (hex_digit (of_char c div 16)) (hex_digit (of_char c mod 16)) = Some c"
proof -
  have z: "hex_value CHR ''0'' = Some 0" by (simp add: hex_value_def)
  have h: "hex_value (hex_digit (of_char c div 16)) = Some (of_char c div 16)"
    using assms by (intro hex_value_hex_digit) simp
  have l: "hex_value (hex_digit (of_char c mod 16)) = Some (of_char c mod 16)"
    by (intro hex_value_hex_digit) simp
  have "char_of (16 * ((of_char c :: nat) div 16) + of_char c mod 16) = c" by simp
  then show ?thesis by (simp add: code_unit_def z h l)
qed

lemma string_body_backslash:
  "e \<noteq> CHR ''u'' \<Longrightarrow> unescape e = Some x \<Longrightarrow>
   string_body (CHR 0x5C # e # t) = map_option (\<lambda>(s, r). (x # s, r)) (string_body t)"
  by simp

lemma string_body_plain:
  "c \<noteq> CHR 0x22 \<Longrightarrow> c \<noteq> CHR 0x5C \<Longrightarrow> \<not> (of_char c :: nat) < 32 \<Longrightarrow>
   string_body (c # t) = map_option (\<lambda>(s, r). (c # s, r)) (string_body t)"
  by simp

lemma string_body_unicode:
  "code_unit a b c d = Some x \<Longrightarrow>
   string_body (CHR 0x5C # CHR ''u'' # a # b # c # d # t) = map_option (\<lambda>(s, r). (x # s, r)) (string_body t)"
  by simp

lemma string_body_escape_char:
  "string_body (escape_char c @ t) = map_option (\<lambda>(s, r). (c # s, r)) (string_body t)"
proof -
  consider "c = CHR 0x22" | "c = CHR 0x5C" | "c = CHR 0x08" | "c = CHR 0x09" | "c = CHR 0x0A"
    | "c = CHR 0x0C" | "c = CHR 0x0D"
    | "c \<notin> {CHR 0x22, CHR 0x5C, CHR 0x08, CHR 0x09, CHR 0x0A, CHR 0x0C, CHR 0x0D}" "(of_char c :: nat) < 32"
    | "c \<notin> {CHR 0x22, CHR 0x5C, CHR 0x08, CHR 0x09, CHR 0x0A, CHR 0x0C, CHR 0x0D}" "\<not> (of_char c :: nat) < 32"
    by blast
  then show ?thesis
  proof cases
    case 1 then show ?thesis
      using string_body_backslash[of "CHR 0x22" "CHR 0x22" t] by (simp add: escape_char_def unescape_def)
  next
    case 2 then show ?thesis
      using string_body_backslash[of "CHR 0x5C" "CHR 0x5C" t] by (simp add: escape_char_def unescape_def)
  next
    case 3 then show ?thesis
      using string_body_backslash[of "CHR ''b''" "CHR 0x08" t] by (simp add: escape_char_def unescape_def)
  next
    case 4 then show ?thesis
      using string_body_backslash[of "CHR ''t''" "CHR 0x09" t] by (simp add: escape_char_def unescape_def)
  next
    case 5 then show ?thesis
      using string_body_backslash[of "CHR ''n''" "CHR 0x0A" t] by (simp add: escape_char_def unescape_def)
  next
    case 6 then show ?thesis
      using string_body_backslash[of "CHR ''f''" "CHR 0x0C" t] by (simp add: escape_char_def unescape_def)
  next
    case 7 then show ?thesis
      using string_body_backslash[of "CHR ''r''" "CHR 0x0D" t] by (simp add: escape_char_def unescape_def)
  next
    case 8
    then have e: "escape_char c = [CHR 0x5C, CHR ''u'', CHR ''0'', CHR ''0'',
        hex_digit (of_char c div 16), hex_digit (of_char c mod 16)]"
      by (simp add: escape_char_def)
    show ?thesis
      unfolding e using string_body_unicode[OF code_unit_escape[OF 8(2)], of t] by simp
  next
    case 9
    then have e: "escape_char c = [c]" by (simp add: escape_char_def)
    show ?thesis unfolding e using string_body_plain[of c t] 9 by simp
  qed
qed

lemma string_body_escaped:
  "string_body (concat (map escape_char s) @ CHR 0x22 # rest) = Some (s, rest)"
  by (induction s) (simp_all add: string_body_escape_char)

lemma string_body_QuoteJSONString:
  "QuoteJSONString s @ rest = CHR 0x22 # t \<Longrightarrow> string_body t = Some (s, rest)"
  by (auto simp: QuoteJSONString_def string_body_escaped)


subsection \<open>Arrays and objects\<close>








lemma skip_ws_start: "t \<noteq> [] \<Longrightarrow> \<not> is_ws (hd t) \<Longrightarrow> skip_ws (t @ r) = t @ r"
  by (cases t) (simp_all add: skip_ws_def)





subsection \<open>Values\<close>




























end
